(* ===== verification/KPrelude.thy ===== *)
theory KPrelude
  imports Complex_Main "HOL-Library.Word"
begin

unbundle bit_operations_syntax

text \<open>
  Shared vocabulary of the KClmtr development.  The driver talks to the
  colorimeter in C++ \<^verbatim>\<open>std::string\<close>s of raw bytes; here a reply is a
  \<^typ>\<open>string\<close> (a list of 8-bit \<^typ>\<open>char\<close>s) and a byte value is read with
  \<open>byte_at\<close>, the model of \<^verbatim>\<open>(int)((const unsigned char*)s.c_str())[i]\<close>.
  Error masks are the C++ \<^verbatim>\<open>unsigned int\<close>, a \<^typ>\<open>32 word\<close>.  C++
  \<^verbatim>\<open>double\<close> arithmetic is modelled by \<^typ>\<open>real\<close> (exact arithmetic; the
  rounding of IEEE doubles is not modelled).  The theory also holds the
  named theorem collections the component theories feed and the generic
  lemmas on lists, bytes and words they share.
\<close>

named_theorems errcode_defs "definitions of the KleinsErrorCodes constants"
named_theorems codec_simps "evaluation rules of the byte decoders"
named_theorems stays_rules "session operations that switch no mode on and keep the averaging ring well formed"
named_theorems cfg_rules "session operations that leave the device configuration alone"

type_synonym errmask = "32 word"

text \<open>
  \<^verbatim>\<open>c_str()[i]\<close>: the byte at \<open>i\<close>, and the terminating NUL at
  \<open>i = length s\<close>.  Reads further out are undefined behaviour in C++; the model
  returns 0 there too, and the lemmas below only use in-range reads.
\<close>

definition byte_at :: "string \<Rightarrow> nat \<Rightarrow> nat" where
  "byte_at s i = (if i < length s then of_char (s ! i) else 0)"

text \<open>\<^verbatim>\<open>s.substr(pos, n)\<close> for \<open>pos \<le> length s\<close> (every call site of the model).\<close>

definition substr :: "string \<Rightarrow> nat \<Rightarrow> nat \<Rightarrow> string" where
  "substr s pos n = take n (drop pos s)"

text \<open>The C conversion \<^verbatim>\<open>(int)x\<close> of a \<^verbatim>\<open>double\<close>: truncation towards zero.\<close>

definition c_trunc :: "real \<Rightarrow> int" where
  "c_trunc x = (if 0 \<le> x then \<lfloor>x\<rfloor> else \<lceil>x\<rceil>)"

text \<open>
  The C comparison \<^verbatim>\<open>a / b > c\<close> on doubles for \<open>0 \<le> a\<close>: a zero divisor
  gives \<^verbatim>\<open>+inf\<close> (above every \<open>c\<close>) when \<open>a > 0\<close> and \<^verbatim>\<open>NaN\<close> (below
  nothing) when \<open>a = 0\<close>; HOL's \<open>a / 0 = 0\<close> would differ.
\<close>

definition c_div_gt :: "real \<Rightarrow> real \<Rightarrow> real \<Rightarrow> bool" where
  "c_div_gt a b c = (if b = 0 then 0 < a else c < a / b)"

text \<open>A single set bit: the shape of every \<^verbatim>\<open>KleinsErrorCodes\<close> constant.\<close>

definition single_bit :: "'a::len word \<Rightarrow> bool" where
  "single_bit m \<longleftrightarrow> m \<noteq> 0 \<and> m AND (m - 1) = 0"

subsection \<open>Generic lemmas\<close>

lemma byte_at_lt [simp]: "byte_at s i < 256"
  by (simp add: byte_at_def)

lemma byte_at_nth [simp]: "i < length s \<Longrightarrow> byte_at s i = of_char (s ! i)"
  by (simp add: byte_at_def)

lemma byte_at_append_left [simp]:
  "i < length s \<Longrightarrow> byte_at (s @ t) i = byte_at s i"
  by (simp add: byte_at_def nth_append)

lemma byte_at_Cons_Suc [simp]: "byte_at (c # s) (Suc i) = byte_at s i"
  by (simp add: byte_at_def)

lemma byte_at_Cons_0 [simp]: "byte_at (c # s) 0 = of_char c"
  by (simp add: byte_at_def)

lemma length_substr [simp]: "length (substr s pos n) = min n (length s - pos)"
  by (simp add: substr_def)

lemma substr_nth [simp]:
  "i < n \<Longrightarrow> pos + i < length s \<Longrightarrow> substr s pos n ! i = s ! (pos + i)"
  by (simp add: substr_def)

lemma byte_at_substr [simp]:
  "i < n \<Longrightarrow> pos + i < length s \<Longrightarrow> byte_at (substr s pos n) i = byte_at s (pos + i)"
  by (simp add: byte_at_def substr_def less_diff_conv add.commute)

lemma foldl_update_other:
  "(\<forall>j \<in> set js. idx j \<noteq> i) \<Longrightarrow> foldl (\<lambda>row j. row[idx j := F row j]) row js ! i = row ! i"
  by (induction js arbitrary: row) auto

lemma length_foldl_update [simp]:
  "length (foldl (\<lambda>row j. row[idx j := F row j]) row js) = length row"
  by (induction js arbitrary: row) auto

lemma foldl_update_in:
  "distinct (map idx js) \<Longrightarrow> j \<in> set js \<Longrightarrow> idx j < length row \<Longrightarrow>
   foldl (\<lambda>row j. row[idx j := g j]) row js ! idx j = g j"
proof (induction js arbitrary: row)
  case (Cons a js)
  show ?case
  proof (cases "j = a")
    case True
    with Cons.prems have "\<forall>k \<in> set js. idx k \<noteq> idx j"
      by (auto simp: image_iff)
    with True Cons.prems show ?thesis
      by (simp add: foldl_update_other)
  next
    case False
    with Cons show ?thesis
      by simp
  qed
qed simp

lemma concat_pairs_nth:
  assumes "\<forall>k < n. length (f k) = 2" "k < n" "i < 2"
  shows "concat (map f [0 ..< n]) ! (2 * k + i) = f k ! i"
  using assms
proof (induction n)
  case (Suc n)
  have len: "length (concat (map f [0 ..< n])) = 2 * n"
    using Suc.prems(1) by (induction n) auto
  show ?case
  proof (cases "k < n")
    case True
    with Suc len show ?thesis
      by (simp add: nth_append)
  next
    case False
    with Suc.prems have "k = n"
      by simp
    with len Suc.prems show ?thesis
      by (simp add: nth_append)
  qed
qed simp

lemma c_trunc_nonneg [simp]: "0 \<le> x \<Longrightarrow> c_trunc x = \<lfloor>x\<rfloor>"
  by (simp add: c_trunc_def)

lemma c_trunc_of_int [simp]: "c_trunc (real_of_int i) = i"
  by (simp add: c_trunc_def)

lemma exp_ln2 [simp]: "exp (x * ln 2) = (2::real) powr x"
  by (simp add: powr_def)

lemma c_div_gt_zero [simp]: "0 \<le> c \<Longrightarrow> \<not> c_div_gt 0 b c"
  by (simp add: c_div_gt_def)

lemma pow2_and_pow2_word:
  "i \<noteq> j \<Longrightarrow> (2 ^ i :: 'a::len word) AND 2 ^ j = 0"
  by (rule bit_eqI) (auto simp: bit_simps)

lemma single_bit_pow2:
  "i < LENGTH('a) \<Longrightarrow> single_bit ((2::'a::len word) ^ i)"
proof -
  assume i: "i < LENGTH('a)"
  then have "(2::'a word) ^ i \<noteq> 0"
    by simp
  moreover have "(2::'a word) ^ i AND (2 ^ i - 1) = 0"
    using i by (intro bit_eqI) (auto simp: bit_simps mask_eq_exp_minus_1 [symmetric])
  ultimately show ?thesis
    by (simp add: single_bit_def)
qed

lemma and_not_or_distrib:
  "((a::'a::len word) OR b) AND NOT m = (a AND NOT m) OR (b AND NOT m)"
  by (rule bit_eqI) (auto simp: bit_simps)

lemma word_or_eq_0_iff: "((a::'a::len word) OR b) = 0 \<longleftrightarrow> a = 0 \<and> b = 0"
  by (auto simp: bit_eq_iff bit_simps)

end
