(* ===== verification/ErrorCodes.thy ===== *)
theory ErrorCodes
  imports KPrelude
begin

unbundle bit_operations_syntax

text \<open>
  The error taxonomy of the driver (src/Enums.h, class \<^verbatim>\<open>KleinsErrorCodes\<close>,
  and src/Enum.cpp): the bit constants of the error mask, the ignore list,
  \<^verbatim>\<open>shouldStopMeasuring\<close>, the device's one-character error tokens
  (\<^verbatim>\<open>getErrorCodeFromKlein\<close>), the range-byte decoder \<^verbatim>\<open>parsingRange\<close> and
  the decimal printer \<^verbatim>\<open>intToString\<close> with the message renderer
  \<^verbatim>\<open>errorCodesToString\<close> that uses it.
\<close>

section \<open>Error mask constants\<close>

definition NONE :: errmask where [errcode_defs]: "NONE = 0x00000000"
definition NOT_OPEN :: errmask where [errcode_defs]: "NOT_OPEN = 0x00000001"
definition TIMED_OUT :: errmask where [errcode_defs]: "TIMED_OUT = 0x00000002"
definition LOST_CONNECTION :: errmask where [errcode_defs]: "LOST_CONNECTION = 0x00000004"
definition BAD_VALUES :: errmask where [errcode_defs]: "BAD_VALUES = 0x00000008"
definition CONVERTED_NM :: errmask where [errcode_defs]: "CONVERTED_NM = 0x00000010"
definition KELVINS :: errmask where [errcode_defs]: "KELVINS = 0x00000020"
definition AIMING_LIGHTS :: errmask where [errcode_defs]: "AIMING_LIGHTS = 0x00000040"
definition AVERAGING_LOW_LIGHT :: errmask where [errcode_defs]: "AVERAGING_LOW_LIGHT = 0x00000080"
definition BOTTOM_UNDER_RANGE :: errmask where [errcode_defs]: "BOTTOM_UNDER_RANGE = 0x00000100"
definition TOP_OVER_RANGE :: errmask where [errcode_defs]: "TOP_OVER_RANGE = 0x00000200"
definition OVER_HIGH_RANGE :: errmask where [errcode_defs]: "OVER_HIGH_RANGE = 0x00000400"
definition BLACK_ZERO :: errmask where [errcode_defs]: "BLACK_ZERO = 0x00000800"
definition BLACK_OVERDRIVE :: errmask where [errcode_defs]: "BLACK_OVERDRIVE = 0x00001000"
definition BLACK_EXCESSIVE :: errmask where [errcode_defs]: "BLACK_EXCESSIVE = 0x00002000"
definition BLACK_PARSING_ROM :: errmask where [errcode_defs]: "BLACK_PARSING_ROM = 0x00004000"
definition BLACK_STORING_ROM :: errmask where [errcode_defs]: "BLACK_STORING_ROM = 0x00008000"
definition CAL_WHITE_RGB :: errmask where [errcode_defs]: "CAL_WHITE_RGB = 0x00010000"
definition CAL_STORING :: errmask where [errcode_defs]: "CAL_STORING = 0x00020000"
definition CAL_CONVERT_BINARY :: errmask where [errcode_defs]: "CAL_CONVERT_BINARY = 0x00040000"
definition FFT_BAD_STRING :: errmask where [errcode_defs]: "FFT_BAD_STRING = 0x00080000"
definition FFT_RANGE_CAL :: errmask where [errcode_defs]: "FFT_RANGE_CAL = 0x00100000"
definition FFT_NO_XYZ :: errmask where [errcode_defs]: "FFT_NO_XYZ = 0x00200000"
definition FFT_NO_RANGE :: errmask where [errcode_defs]: "FFT_NO_RANGE = 0x00400000"
definition FFT_INSUFFICIENT_DATA :: errmask where [errcode_defs]: "FFT_INSUFFICIENT_DATA = 0x00800000"
definition FFT_PREVIOUS_RANGE :: errmask where [errcode_defs]: "FFT_PREVIOUS_RANGE = 0x01000000"
definition FFT_NOT_SUPPORTED :: errmask where [errcode_defs]: "FFT_NOT_SUPPORTED = 0x02000000"
definition FFT_BAD_SAMPLES :: errmask where [errcode_defs]: "FFT_BAD_SAMPLES = 0x04000000"
definition FFT_OVER_SATURATED :: errmask where [errcode_defs]: "FFT_OVER_SATURATED = 0x08000000"
definition FIRMWARE :: errmask where [errcode_defs]: "FIRMWARE = 0x10000000"
definition NEGATIVE_VALUES :: errmask where [errcode_defs]: "NEGATIVE_VALUES = 0x20000000"

text \<open>The constants in declaration order (all but \<^verbatim>\<open>NONE\<close>).\<close>

definition error_code_table :: "errmask list" where
  "error_code_table =
     [NOT_OPEN, TIMED_OUT, LOST_CONNECTION, BAD_VALUES, CONVERTED_NM, KELVINS,
      AIMING_LIGHTS, AVERAGING_LOW_LIGHT, BOTTOM_UNDER_RANGE, TOP_OVER_RANGE,
      OVER_HIGH_RANGE, BLACK_ZERO, BLACK_OVERDRIVE, BLACK_EXCESSIVE,
      BLACK_PARSING_ROM, BLACK_STORING_ROM, CAL_WHITE_RGB, CAL_STORING,
      CAL_CONVERT_BINARY, FFT_BAD_STRING, FFT_RANGE_CAL, FFT_NO_XYZ, FFT_NO_RANGE,
      FFT_INSUFFICIENT_DATA, FFT_PREVIOUS_RANGE, FFT_NOT_SUPPORTED, FFT_BAD_SAMPLES,
      FFT_OVER_SATURATED, FIRMWARE, NEGATIVE_VALUES]"

definition ingoreWarningList :: errmask where
  "ingoreWarningList =
     BOTTOM_UNDER_RANGE OR TOP_OVER_RANGE OR OVER_HIGH_RANGE OR FFT_PREVIOUS_RANGE OR
     FFT_INSUFFICIENT_DATA OR FFT_OVER_SATURATED OR CONVERTED_NM OR KELVINS OR
     AVERAGING_LOW_LIGHT OR NEGATIVE_VALUES"

text \<open>\<^verbatim>\<open>(errorcode & ~ingoreErrorcode) > 0\<close> on \<^verbatim>\<open>unsigned int\<close>.\<close>

definition shouldStopMeasuring :: "errmask \<Rightarrow> errmask \<Rightarrow> bool" where
  "shouldStopMeasuring errorcode ingoreErrorcode \<longleftrightarrow> 0 < errorcode AND NOT ingoreErrorcode"

definition getErrorCodeFromKlein :: "string \<Rightarrow> errmask" where
  "getErrorCodeFromKlein MyError =
     (if MyError = ''L'' then AIMING_LIGHTS
      else if MyError = ''u'' then BOTTOM_UNDER_RANGE
      else if MyError = ''v'' then TOP_OVER_RANGE
      else if MyError = ''w'' then OVER_HIGH_RANGE
      else if MyError = ''t'' then BLACK_ZERO
      else if MyError = ''s'' then BLACK_OVERDRIVE
      else if MyError = ''b'' then BLACK_EXCESSIVE
      else if MyError = ''X'' then FIRMWARE
      else if MyError = ''B'' then FIRMWARE
      else NONE)"

section \<open>The range byte\<close>

text \<open>
  \<^verbatim>\<open>parsingRange(unsigned char range, int (&out)[3])\<close>: the three top bits
  give 0/1 per channel, the low five bits are read as three base-3 digits by
  the loop \<^verbatim>\<open>for(i = 2; i >= 0; --i) { out[i] += 2 * (range % 3); range /= 3; }\<close>,
  and every entry is incremented.  \<open>parsingRange_digits out r i\<close> is that loop
  from index \<open>i\<close> down to 0.
\<close>

fun parsingRange_digits :: "int list \<Rightarrow> 8 word \<Rightarrow> nat \<Rightarrow> int list" where
  "parsingRange_digits out r 0 = out[0 := out ! 0 + 2 * uint (r mod 3)]"
| "parsingRange_digits out r (Suc i) =
     parsingRange_digits (out[Suc i := out ! Suc i + 2 * uint (r mod 3)]) (r div 3) i"

definition parsingRange :: "8 word \<Rightarrow> int list" where
  "parsingRange rng =
     (let out = map (\<lambda>i. if bit rng (7 - i) then 1 else 0) [0, 1, 2];
          out = parsingRange_digits out (rng AND 0x1f) 2
      in map (\<lambda>x. x + 1) out)"

section \<open>Decimal printing\<close>

text \<open>
  \<^verbatim>\<open>intToString\<close>: the digits are collected least significant first by
  \<^verbatim>\<open>while(value > 0) { temp += value % 10 + 48; value /= 10; }\<close> and then
  copied back to front.  A negative value never enters the loop.
\<close>

function intToString_loop :: "int \<Rightarrow> string \<Rightarrow> string" where
  "intToString_loop value temp =
     (if 0 < value then intToString_loop (value div 10) (temp @ [char_of (value mod 10 + 48)])
      else temp)"
  by pat_completeness auto
termination
  by (relation "measure (\<lambda>(value, temp). nat value)") auto

declare intToString_loop.simps [simp del]

definition reverse_copy :: "string \<Rightarrow> string" where
  "reverse_copy temp = map (\<lambda>i. temp ! (length temp - i - 1)) [0..<length temp]"

definition intToString :: "int \<Rightarrow> string" where
  "intToString value =
     (if value = 0 then ''0'' else reverse_copy (intToString_loop value []))"

section \<open>Rendering a mask\<close>

abbreviation nl :: string where "nl \<equiv> [CHR 0x0A]"

text \<open>One \<^verbatim>\<open>if(errorcode & m) { s += text; }\<close> of the renderer.\<close>

definition msg_if :: "errmask \<Rightarrow> errmask \<Rightarrow> string \<Rightarrow> string" where
  "msg_if errorcode m text = (if errorcode AND m \<noteq> 0 then text else [])"

text \<open>
  \<^verbatim>\<open>errorCodesToString(errorcode, ingoreErrorcode)\<close>: drop the ignored bits;
  if anything is left, a header with the decimal code (the \<^verbatim>\<open>unsigned int\<close>
  passed to \<^verbatim>\<open>intToString(int)\<close>, so read as two's complement), one message
  per group of bits, and the last character removed.
\<close>

definition errorCodesToString :: "errmask \<Rightarrow> errmask \<Rightarrow> string" where
  "errorCodesToString errorcode0 ingoreErrorcode =
     (let errorcode = errorcode0 AND NOT ingoreErrorcode in
      if errorcode \<noteq> 0 then
        (let s = ''ErrorCode '' @ intToString (sint errorcode) @ '' Reads:'' @ nl
           @ msg_if errorcode NOT_OPEN ''Error: The Port isn't open.''
           @ msg_if errorcode TIMED_OUT (''Error: Did not receive the info from port.'' @ nl
               @ ''Fix: Try again, or reconnect the device.'' @ nl)
           @ msg_if errorcode LOST_CONNECTION (''Error: The Device was unplugged during commucation.''
               @ nl @ ''Fix: Please reconnect the device.'' @ nl)
           @ msg_if errorcode BAD_VALUES (''Error: Values couldn't be retrived from the device.'' @ nl)
           @ msg_if errorcode CONVERTED_NM (''Event: Couldn't convert XYZ to NM.'' @ nl)
           @ msg_if errorcode KELVINS (''Event: Couldn't convert XYZ to Kelvins.'' @ nl)
           @ msg_if errorcode AIMING_LIGHTS (''Event: The Aiming lights are on.'' @ nl
               @ ''Fix: Please turn off the aimming lights with the Knob'' @ nl)
           @ msg_if errorcode AVERAGING_LOW_LIGHT
               (''Event: The Device needs more time to average because the light level is low.'' @ nl)
           @ msg_if errorcode (BOTTOM_UNDER_RANGE OR TOP_OVER_RANGE OR OVER_HIGH_RANGE)
               (''Event: The device switched ranges.'' @ nl)
           @ msg_if errorcode (BLACK_ZERO OR BLACK_OVERDRIVE OR BLACK_EXCESSIVE OR BLACK_PARSING_ROM)
               (''Event: Creating Black cal into the device failed'' @ nl @ ''Fix: Rerun the BlackCal'' @ nl)
           @ msg_if errorcode BLACK_STORING_ROM (''Event: Storing the Black cal failed'' @ nl
               @ ''Fix: Rerun the BlackCal'' @ nl)
           @ msg_if errorcode CAL_WHITE_RGB
               (''Event: There was a problem with converting the white spec and RGB'' @ nl
               @ ''Fix: Rerun Calibration'' @ nl)
           @ msg_if errorcode CAL_STORING (''Event: Storing the CalFile failed'' @ nl
               @ ''Fix: Re-Store calibration'' @ nl)
           @ msg_if errorcode CAL_CONVERT_BINARY
               (''Event: Couldn't convert the numbers to a string to be stored'' @ nl
               @ ''Fix: Rerun calibration'' @ nl)
           @ msg_if errorcode FFT_BAD_STRING (''Event: FFT received a bad string'' @ nl
               @ ''Fix: Re-Start Flicker'' @ nl)
           @ msg_if errorcode FFT_RANGE_CAL (''Event: FFT received a bad rang cal file'' @ nl
               @ ''Fix: Contact Klein Instruments'' @ nl)
           @ msg_if errorcode FFT_NO_XYZ (''Event: There was no measurement in the FFT string'' @ nl
               @ ''Fix: Re-start Flicker'' @ nl)
           @ msg_if errorcode FFT_NO_RANGE (''Event: There was no range in FFT'' @ nl
               @ ''Fix: Re-start Flicker'' @ nl)
           @ msg_if errorcode FFT_INSUFFICIENT_DATA (''Event: There is not enough data to display FFT''
               @ nl @ ''Fix: Continue to gather Flicker data'' @ nl)
           @ msg_if errorcode FFT_PREVIOUS_RANGE (''Event: The device is switching ranges'' @ nl
               @ ''Fix: Ingore this Flicker Data, and continue gather Flicker Data'' @ nl)
           @ msg_if errorcode FFT_NOT_SUPPORTED
               (''Event: The device that you are currently hooked up to cannot do FFT'' @ nl
               @ ''Fix: Can't use this device on Flicker'' @ nl)
           @ msg_if errorcode FFT_BAD_SAMPLES (''Event: FFT received a bad string'' @ nl
               @ ''Fix: Re-Start Flicker'' @ nl)
           @ msg_if errorcode FFT_OVER_SATURATED
               (''Event: The counts are too high for the current range to get good data'' @ nl
               @ ''Fix: Skip this Flicker measurement, or change ranges if you have locked the range'' @ nl)
           @ msg_if errorcode FIRMWARE
               (''Error: The Firmware could be corrupted. Please contact Klein Instruments.'' @ nl)
           @ msg_if errorcode NEGATIVE_VALUES (''Event: Measurement received had negative values.''
               @ nl @ ''Fix: Run Black Calibration'' @ nl)
         in take (length s - 1) s)
      else [])"

section \<open>Reference readings\<close>

definition is_digit :: "char \<Rightarrow> bool" where
  "is_digit c \<longleftrightarrow> 48 \<le> (of_char c :: nat) \<and> (of_char c :: nat) \<le> 57"

text \<open>The reading of a decimal string, the reference for \<open>intToString\<close>.\<close>

fun dec_value :: "string \<Rightarrow> int" where
  "dec_value [] = 0"
| "dec_value (c # cs) = (of_char c - 48) * 10 ^ length cs + dec_value cs"


section \<open>Properties\<close>

subsection \<open>The error mask\<close>

lemma error_code_table_pow2: "error_code_table = map (\<lambda>k. 2 ^ k) [0..<30]"
  by (simp add: error_code_table_def errcode_defs upt_rec)

lemma pow2_word_inj:
  "i < LENGTH('a) \<Longrightarrow> (2::'a::len word) ^ i = 2 ^ j \<Longrightarrow> i = j"
  by (metis bit_exp_iff possible_bit_word)

lemma error_code_table_single_bit: "list_all single_bit error_code_table"
  by (auto simp: error_code_table_pow2 list_all_iff intro: single_bit_pow2)

text \<open>
  Every error constant is a single bit, the constants are pairwise
  distinct and no two of them share a bit, so masks combine by OR without
  losing information.
\<close>

theorem error_codes_disjoint:
  "pairwise (\<lambda>a b. a AND b = 0) (set error_code_table) \<and> distinct error_code_table \<and>
   list_all single_bit error_code_table"
proof (intro conjI)
  show "pairwise (\<lambda>a b. a AND b = 0) (set error_code_table)"
    by (auto simp: error_code_table_pow2 pairwise_def intro!: pow2_and_pow2_word)
  show "distinct error_code_table"
    by (auto simp: error_code_table_pow2 distinct_map inj_on_def
        intro: pow2_word_inj [where 'a = 32, simplified])
  show "list_all single_bit error_code_table"
    by (rule error_code_table_single_bit)
qed

lemma getErrorCodeFromKlein_in_table:
  "getErrorCodeFromKlein s \<in> insert NONE (set error_code_table)"
  by (simp add: getErrorCodeFromKlein_def error_code_table_def)

lemma getErrorCodeFromKlein_cases:
  "getErrorCodeFromKlein s = NONE \<or> single_bit (getErrorCodeFromKlein s)"
  using getErrorCodeFromKlein_in_table [of s] error_code_table_single_bit
  by (auto simp: list_all_iff)

text \<open>
  The device's error token is decoded by exact match into \<^verbatim>\<open>NONE\<close> or into
  exactly one of the error bits; every other string is \<^verbatim>\<open>NONE\<close>.
\<close>

theorem getErrorCodeFromKlein_single_bit:
  "getErrorCodeFromKlein s = NONE \<or>
   (getErrorCodeFromKlein s \<in> set error_code_table \<and> single_bit (getErrorCodeFromKlein s))"
  using getErrorCodeFromKlein_in_table [of s] error_code_table_single_bit
  by (auto simp: list_all_iff)

text \<open>
  With the default ignore list, the range-change tokens u, v, w and any
  unknown token never stop acquisition; aiming lights, the black-calibration
  tokens and the firmware tokens do.
\<close>

theorem shouldStopMeasuring_token:
  "shouldStopMeasuring (getErrorCodeFromKlein s) ingoreWarningList \<longleftrightarrow>
   s \<in> {''L'', ''t'', ''s'', ''b'', ''X'', ''B''}"
  by (simp add: getErrorCodeFromKlein_def shouldStopMeasuring_def ingoreWarningList_def errcode_defs)

text \<open>
  The stop decision distributes over the combination of masks: a combined
  mask stops acquisition exactly when one of its parts does.
\<close>

theorem shouldStopMeasuring_or:
  "shouldStopMeasuring (a OR b) ign \<longleftrightarrow> shouldStopMeasuring a ign \<or> shouldStopMeasuring b ign"
  by (simp add: shouldStopMeasuring_def and_not_or_distrib word_or_eq_0_iff word_neq_0_conv [symmetric])

subsection \<open>The range byte\<close>

lemma parsingRange_closed:
  "parsingRange r =
     [(if bit r 7 then 1 else 0) + 2 * uint ((r AND 0x1f) div 3 div 3 mod 3) + 1,
      (if bit r 6 then 1 else 0) + 2 * uint ((r AND 0x1f) div 3 mod 3) + 1,
      (if bit r 5 then 1 else 0) + 2 * uint ((r AND 0x1f) mod 3) + 1]"
  by (simp add: parsingRange_def numeral_2_eq_2)

lemma uint_mod3: "uint ((x::8 word) mod 3) \<le> 2"
proof -
  have "x mod 3 < 3" by (rule word_mod_less_divisor) simp
  then have "uint (x mod 3) < 3" by (simp add: word_less_def)
  then show ?thesis by simp
qed

lemma parsingRange_length [simp]: "length (parsingRange r) = 3"
  by (simp add: parsingRange_closed)

lemma parsingRange_entry:
  "i < 3 \<Longrightarrow> 1 \<le> parsingRange r ! i \<and> parsingRange r ! i \<le> 6"
  using uint_mod3 [of "(r AND 0x1f) div 3 div 3"] uint_mod3 [of "(r AND 0x1f) div 3"]
    uint_mod3 [of "r AND 0x1f"]
  by (auto simp: parsingRange_closed less_Suc_eq numeral_3_eq_3)

text \<open>
  Decoding a range byte always yields three ranges, each in 1..6, for
  every one of the 256 byte values.
\<close>

theorem parsingRange_bounds:
  "length (parsingRange r) = 3 \<and> list_all (\<lambda>x. 1 \<le> x \<and> x \<le> 6) (parsingRange r)"
  using parsingRange_entry [of _ r] by (simp add: list_all_length)

subsection \<open>Decimal printing\<close>

lemma intToString_loop_acc: "intToString_loop v t = t @ intToString_loop v []"
proof (induction "nat v" arbitrary: v t rule: less_induct)
  case less
  show ?case
  proof (cases "0 < v")
    case True
    let ?c = "char_of (v mod 10 + 48 :: int)"
    have lt: "nat (v div 10) < nat v"
      using True by simp
    have "intToString_loop v t = intToString_loop (v div 10) (t @ [?c])"
      using True by (simp add: intToString_loop.simps [of v t])
    also have "\<dots> = (t @ [?c]) @ intToString_loop (v div 10) []"
      by (rule less(1) [OF lt])
    also have "intToString_loop v [] = [?c] @ intToString_loop (v div 10) []"
      using True less(1) [OF lt, of "[?c]"] by (simp add: intToString_loop.simps [of v "[]"])
    ultimately show ?thesis
      by simp
  next
    case False
    then show ?thesis by (simp add: intToString_loop.simps [of v])
  qed
qed

lemma reverse_copy_rev: "reverse_copy xs = rev xs"
  by (rule nth_equalityI) (auto simp: reverse_copy_def rev_nth)

lemma dec_value_snoc: "dec_value (xs @ [c]) = 10 * dec_value xs + (of_char c - 48)"
  by (induction xs) (auto simp: algebra_simps)

lemma of_char_digit: "of_char (char_of (v mod 10 + 48 :: int)) = (v mod 10 + 48 :: int)"
proof -
  have "0 \<le> v mod 10 + 48" "v mod 10 + 48 < (256::int)" by simp_all
  then show ?thesis by simp
qed

lemma is_digit_char_of: "is_digit (char_of (v mod 10 + 48 :: int))"
proof -
  have "int (of_char (char_of (v mod 10 + 48 :: int))) = v mod 10 + 48"
    using of_char_digit [of v] by (simp add: of_nat_of_char)
  moreover have "48 \<le> v mod 10 + 48" "v mod 10 + 48 \<le> (57::int)" by simp_all
  ultimately show ?thesis unfolding is_digit_def by linarith
qed

lemma intToString_loop_step:
  "0 < v \<Longrightarrow> intToString_loop v [] = char_of (v mod 10 + 48 :: int) # intToString_loop (v div 10) []"
  using intToString_loop_acc [of "v div 10" "[char_of (v mod 10 + 48 :: int)]"]
  by (simp add: intToString_loop.simps [of v])

lemma intToString_loop_digits:
  "list_all is_digit (intToString_loop v []) \<and> dec_value (rev (intToString_loop v [])) = max 0 v"
proof (induction "nat v" arbitrary: v rule: less_induct)
  case less
  show ?case
  proof (cases "0 < v")
    case True
    have lt: "nat (v div 10) < nat v"
      using True by simp
    have IH: "list_all is_digit (intToString_loop (v div 10) []) \<and>
              dec_value (rev (intToString_loop (v div 10) [])) = max 0 (v div 10)"
      by (rule less [OF lt])
    have "10 * max 0 (v div 10) + (v mod 10 + 48 - 48) = v"
      using True by simp
    then show ?thesis
      using IH True
      by (simp add: intToString_loop_step dec_value_snoc of_char_digit is_digit_char_of)
  next
    case False
    then show ?thesis by (simp add: intToString_loop.simps [of v])
  qed
qed

text \<open>
  C37. \<open>intToString\<close> prints decimal digits only, reading them back gives the
  value for every non-negative input, and a negative input gives the empty
  string (the loop never runs and nothing is copied).
\<close>

theorem intToString_roundtrip:
  "list_all is_digit (intToString v) \<and> dec_value (intToString v) = max 0 v \<and>
   (intToString v = [] \<longleftrightarrow> v < 0)"
proof (cases "v = 0")
  case True
  then show ?thesis by (simp add: intToString_def is_digit_def)
next
  case False
  have ne: "0 < v \<Longrightarrow> intToString_loop v [] \<noteq> []"
    by (simp add: intToString_loop_step)
  from False show ?thesis
    using intToString_loop_digits [of v] ne
    by (auto simp: intToString_def reverse_copy_rev intToString_loop.simps [of v])
qed

subsection \<open>Rendering\<close>

text \<open>
  The rendered message is empty exactly when no bit survives the ignore
  mask; otherwise it starts with the header.
\<close>

theorem errorCodesToString_empty_iff:
  "errorCodesToString e ign = [] \<longleftrightarrow> e AND NOT ign = 0"
  by (simp add: errorCodesToString_def Let_def)

lemma errorCodesToString_prefix:
  assumes "e AND NOT ign \<noteq> 0"
  shows "\<exists>rest. errorCodesToString e ign =
           butlast (''ErrorCode '' @ intToString (sint (e AND NOT ign)) @ '' Reads:'' @ nl
             @ msg_if (e AND NOT ign) NOT_OPEN ''Error: The Port isn't open.''
             @ msg_if (e AND NOT ign) TIMED_OUT (''Error: Did not receive the info from port.'' @ nl
                 @ ''Fix: Try again, or reconnect the device.'' @ nl) @ rest)"
  unfolding errorCodesToString_def Let_def if_P [OF assms] append_assoc butlast_conv_take by (rule exI) (rule refl)

text \<open>
  C38. the renderer removes the last character unconditionally, assuming every
  message ends in a newline; the \<^verbatim>\<open>NOT_OPEN\<close> message does not.  So for
  every mask in which both \<^verbatim>\<open>NOT_OPEN\<close> and \<^verbatim>\<open>TIMED_OUT\<close> survive the ignore
  mask, the two messages run together on one line, and when \<^verbatim>\<open>NOT_OPEN\<close> is
  the only surviving bit its full stop is cut off.
\<close>

theorem errorCodesToString_not_open:
  "((e AND NOT ign) AND NOT_OPEN \<noteq> 0 \<longrightarrow> (e AND NOT ign) AND TIMED_OUT \<noteq> 0 \<longrightarrow>
     (\<exists>pre post. errorCodesToString e ign =
        pre @ ''Error: The Port isn't open.Error: Did not receive the info from port.'' @ nl @ post)) \<and>
   (e AND NOT ign = NOT_OPEN \<longrightarrow>
     errorCodesToString e ign = ''ErrorCode 1 Reads:'' @ nl @ ''Error: The Port isn't open'')"
proof (intro conjI impI)
  assume n: "(e AND NOT ign) AND NOT_OPEN \<noteq> 0" and t: "(e AND NOT ign) AND TIMED_OUT \<noteq> 0"
  have ne: "e AND NOT ign \<noteq> 0"
  proof
    assume "e AND NOT ign = 0"
    with n show False by simp
  qed
  obtain rest where r: "errorCodesToString e ign =
           butlast (''ErrorCode '' @ intToString (sint (e AND NOT ign)) @ '' Reads:'' @ nl
             @ msg_if (e AND NOT ign) NOT_OPEN ''Error: The Port isn't open.''
             @ msg_if (e AND NOT ign) TIMED_OUT (''Error: Did not receive the info from port.'' @ nl
                 @ ''Fix: Try again, or reconnect the device.'' @ nl) @ rest)"
    using errorCodesToString_prefix [OF ne] by blast
  define F where "F = ''Fix: Try again, or reconnect the device.''"
  define pre where "pre = ''ErrorCode '' @ intToString (sint (e AND NOT ign)) @ '' Reads:'' @ nl"
  have "errorCodesToString e ign =
          pre @ ''Error: The Port isn't open.Error: Did not receive the info from port.'' @ nl @
          butlast (F @ nl @ rest)"
    unfolding r msg_if_def if_P [OF n] if_P [OF t] pre_def F_def [symmetric]
    by (simp add: butlast_append F_def)
  then show "\<exists>pre post. errorCodesToString e ign =
          pre @ ''Error: The Port isn't open.Error: Did not receive the info from port.'' @ nl @ post"
    by blast
next
  assume "e AND NOT ign = NOT_OPEN"
  then show "errorCodesToString e ign = ''ErrorCode 1 Reads:'' @ nl @ ''Error: The Port isn't open''"
    by (simp add: errorCodesToString_def errcode_defs msg_if_def) code_simp
qed

subsection \<open>Witnesses\<close>

theorem errorCodesToString_not_open_witness:
  "((NOT_OPEN OR TIMED_OUT) AND NOT 0) AND NOT_OPEN \<noteq> 0 \<and> ((NOT_OPEN OR TIMED_OUT) AND NOT 0) AND TIMED_OUT \<noteq> 0 \<and>
   (\<exists>pre post. errorCodesToString (NOT_OPEN OR TIMED_OUT) 0 =
      pre @ ''Error: The Port isn't open.Error: Did not receive the info from port.'' @ nl @ post) \<and>
   NOT_OPEN AND NOT 0 = NOT_OPEN \<and>
   errorCodesToString NOT_OPEN 0 = ''ErrorCode 1 Reads:'' @ nl @ ''Error: The Port isn't open''"
  using errorCodesToString_not_open [of "NOT_OPEN OR TIMED_OUT" 0] errorCodesToString_not_open [of NOT_OPEN 0]
  by (simp add: errcode_defs)

end
