(* ===== verification/Codec.thy ===== *)
theory Codec
  imports ErrorCodes
begin

unbundle bit_operations_syntax

text \<open>
  The device's binary number formats (src/KClmtr.cpp, src/Counts.cpp,
  src/BlackMatrix.h): the 3-byte K-float read by \<^verbatim>\<open>parseK_float\<close> (live
  measurements, fraction over \<open>2^16\<close>) and by \<^verbatim>\<open>unpackK_float\<close> (calibration
  files, fraction over \<open>2^15\<close>), the encoder \<^verbatim>\<open>convertNumberToBinaryStr\<close>,
  the black-level matrix reply and the counts reply.  Doubles are reals; the
  K-float decoders are exact in doubles too (16-bit mantissa, exponent within
  \<open>-127..128\<close>), the encoder's \<^verbatim>\<open>log\<close>/\<^verbatim>\<open>exp\<close> are taken exactly.
\<close>

section \<open>K-float\<close>

text \<open>The exponent byte: \<^verbatim>\<open>if(MyInt3 > 128) MyInt3 = MyInt3 - 256;\<close>\<close>

definition kfloat_exp :: "nat \<Rightarrow> int" where
  "kfloat_exp b = (if 128 < b then int b - 256 else int b)"

definition parseK_float :: "string \<Rightarrow> real" where
  "parseK_float MyString =
     (let MyInt1 = byte_at MyString 0; MyInt2 = byte_at MyString 1; MyInt3 = byte_at MyString 2;
          NegFlag = (if 127 < MyInt1 then -1 else 1 :: real);
          MyInt1 = (if 127 < MyInt1 then MyInt1 - 128 else MyInt1);
          MyFraction = real (MyInt1 * 256 + MyInt2);
          MyFraction = NegFlag * MyFraction / 256;
          MyFraction = MyFraction / 256
      in MyFraction * 2 powr real_of_int (kfloat_exp MyInt3))"

definition unpackK_float :: "string \<Rightarrow> real" where
  "unpackK_float PartString =
     (let chr1 = byte_at PartString 0; chr2 = byte_at PartString 1; chr3 = byte_at PartString 2;
          NegBit = (if 128 \<le> chr1 then -1 else 1 :: real);
          chr1 = (if 128 \<le> chr1 then chr1 - 128 else chr1);
          K_float = real (chr1 * 256);
          K_float = K_float + real chr2;
          K_float = NegBit * K_float;
          K_float = K_float / 32768
      in K_float * exp (real_of_int (kfloat_exp chr3) * ln 2))"

text \<open>
  \<^verbatim>\<open>convertNumberToBinaryStr(double v, unsigned int &error)\<close>: the three bytes
  (each \<^verbatim>\<open>int\<close> stored into an \<^verbatim>\<open>unsigned char\<close>, i.e. modulo 256, which
  \<^const>\<open>char_of\<close> does) and the updated error mask.
\<close>

definition convertNumberToBinaryStr :: "real \<Rightarrow> errmask \<Rightarrow> string \<times> errmask" where
  "convertNumberToBinaryStr v0 error =
     (if v0 = 0 then ([char_of (0::int), char_of (0::int), char_of (0::int)], error) else
      let NegBit = (if v0 < 0 then -1 else 1 :: int);
          v = (if v0 < 0 then - v0 else v0);
          TempReal = ln v / ln 2;
          expReal = c_trunc TempReal + 1;
          fractionReal = exp (real_of_int expReal * ln 2);
          fractionReal = v / fractionReal;
          fractionReal = real_of_int (c_trunc (fractionReal * 128 * 256 + 0.5));
          (fractionReal, expReal) =
            (if 128 * 256 \<le> fractionReal then (fractionReal / 2, expReal + 1)
             else (fractionReal, expReal));
          chr1 = c_trunc (fractionReal / 256);
          chr2 = c_trunc fractionReal - 256 * chr1;
          chr3 = expReal;
          chr1 = (if NegBit < 0 then chr1 + 128 else chr1);
          chr3 = (if chr3 < 0 then chr3 + 256 else chr3);
          error = (if 256 < chr1 \<or> chr1 < 0 \<or> 256 < chr2 \<or> chr2 < 0 \<or> 256 < chr3 \<or> chr3 < 0
                   then error OR CAL_CONVERT_BINARY else error)
      in ([char_of chr1, char_of chr2, char_of chr3], error))"

definition kfloat_sign :: "nat \<Rightarrow> real" where
  "kfloat_sign b = (if 128 \<le> b then -1 else 1)"

definition kfloat_frac :: "string \<Rightarrow> nat" where
  "kfloat_frac s = (byte_at s 0 mod 128) * 256 + byte_at s 1"

section \<open>Black-level matrix\<close>

record BlackMatrix =
  bm_range :: "real list list"
  bm_therm :: real
  bm_errorcode :: errmask

text \<open>The big-endian 16-bit value \<open>i\<close> of a black-matrix reply (after the 2-byte echo).\<close>

definition black_value :: "string \<Rightarrow> nat \<Rightarrow> nat" where
  "black_value read i = byte_at read ((i + 1) * 2) * 256 + byte_at read ((i + 1) * 2 + 1)"

text \<open>
  The parsing loop of \<^verbatim>\<open>BlackMatrix(const std::string &read, unsigned int error)\<close>:
  a value outside \<open>500..2500\<close> ends the loop (\<^verbatim>\<open>i = 19\<close>) and zeroes the whole
  matrix; the flag returned is the \<^verbatim>\<open>BLACK_PARSING_ROM\<close> condition.
\<close>

function black_scan :: "string \<Rightarrow> nat \<Rightarrow> real list \<Rightarrow> real list \<times> bool" where
  "black_scan read i matrix =
     (if i < 19 then
        (let v = black_value read i in
         if v < 500 \<or> 2500 < v then (replicate 19 0, True)
         else black_scan read (Suc i) (matrix[i := real v]))
      else (matrix, False))"
  by pat_completeness auto
termination
  by (relation "measure (\<lambda>(read, i, matrix). 19 - i)") auto

declare black_scan.simps [simp del]

text \<open>\<^verbatim>\<open>fromMatrix\<close>: rows 5 down to 0 from consecutive triples, then the temperature.\<close>

definition fromMatrix :: "real list \<Rightarrow> real list list \<times> real" where
  "fromMatrix matrix = (map (\<lambda>k. map (\<lambda>i. matrix ! ((5 - k) * 3 + i)) [0, 1, 2]) [0..<6], matrix ! 18)"

text \<open>
  The constructor: the local \<^verbatim>\<open>double matrix[19]\<close> starts uninitialised (every
  entry is written on success and zeroed on failure, so the start value does not
  matter); the \<^verbatim>\<open>errorcode |= BLACK_PARSING_ROM\<close> of the loop is overwritten by
  the final assignment \<^verbatim>\<open>errorcode = error | getErrorCodeFromKlein(read.substr(41, 1))\<close>.
\<close>

definition BlackMatrix_parse :: "string \<Rightarrow> errmask \<Rightarrow> BlackMatrix" where
  "BlackMatrix_parse read error =
     (let (matrix, _) = black_scan read 0 (replicate 19 0);
          (rng, th) = fromMatrix matrix
      in \<lparr>bm_range = rng, bm_therm = th,
          bm_errorcode = error OR getErrorCodeFromKlein (substr read 41 1)\<rparr>)"

text \<open>A well-formed black-matrix reply with every value 1000 (\<open>0x03E8\<close>).\<close>

definition black_reply_1000 :: string where
  "black_reply_1000 = ''B4'' @ concat (replicate 19 [CHR 0x03, CHR 0xE8]) @ ''<0>''"

section \<open>Counts\<close>

record Counts =
  th1 :: int
  th2 :: int
  therm :: int
  redrange :: int
  greenrange :: int
  bluerange :: int
  theCounts :: "int list list"
  counts_errorcode :: errmask

definition be16 :: "string \<Rightarrow> nat \<Rightarrow> int" where
  "be16 s i = int (byte_at s i) * 256 + int (byte_at s (Suc i))"

text \<open>\<^verbatim>\<open>Counts(const std::string &s)\<close> (src/Counts.cpp).\<close>

definition Counts_parse :: "string \<Rightarrow> Counts" where
  "Counts_parse s =
     (let cts = [[be16 s 0, be16 s 2, be16 s 4], [be16 s 6, be16 s 8, be16 s 10]];
          ranges = parsingRange (of_nat (byte_at s 16))
      in \<lparr>th1 = int (byte_at s 14), th2 = int (byte_at s 15), therm = be16 s 12,
          redrange = ranges ! 0, greenrange = ranges ! 1, bluerange = ranges ! 2,
          theCounts = cts, counts_errorcode = getErrorCodeFromKlein (substr s 18 1)\<rparr>)"

text \<open>
  The layout of a counts reply as the device sends it (the reference the
  decoder is checked against): six big-endian counts, the thermal reading,
  the two threshold bytes, the range byte, one unused byte and the error
  character.
\<close>

definition be16_enc :: "int \<Rightarrow> string" where
  "be16_enc v = [char_of (nat (v div 256)), char_of (nat (v mod 256))]"

definition counts_reply :: "int list \<Rightarrow> int \<Rightarrow> nat \<Rightarrow> nat \<Rightarrow> char \<Rightarrow> char \<Rightarrow> string" where
  "counts_reply cs t a b rb e =
     concat (map be16_enc cs) @ be16_enc t @ [char_of a, char_of b, rb, CHR 0x00, e]"

section \<open>Properties\<close>

text \<open>
  C33. the K-float decoder of calibration files (\<^verbatim>\<open>unpackK_float\<close>,
  fraction over \<open>2^15\<close>) gives exactly twice the value of the decoder of live
  measurements (\<^verbatim>\<open>parseK_float\<close>, fraction over \<open>2^16\<close>) on every input.
\<close>

theorem unpackK_float_twice: "unpackK_float s = 2 * parseK_float s"
  by (simp add: unpackK_float_def parseK_float_def Let_def)

lemma byte_sub_128: "128 \<le> b \<Longrightarrow> b < 256 \<Longrightarrow> b - 128 = b mod (128::nat)"
proof -
  assume "128 \<le> b" "b < 256"
  then have "b - 128 < 128" by arith
  with \<open>128 \<le> b\<close> show ?thesis by (simp add: le_mod_geq)
qed

lemma real_fraction_zero: "real a * 256 + real b = 0 \<longleftrightarrow> a = 0 \<and> b = 0"
  by (auto simp: add_nonneg_eq_0_iff)

lemma parseK_float_eq:
  "parseK_float s =
     kfloat_sign (byte_at s 0) * real (kfloat_frac s) / 65536 * 2 powr real_of_int (kfloat_exp (byte_at s 2))"
proof -
  have "byte_at s 0 < 256" by simp
  then have "127 < byte_at s 0 \<Longrightarrow> byte_at s 0 - 128 = byte_at s 0 mod 128"
    by (simp add: byte_sub_128)
  then show ?thesis
    by (simp add: parseK_float_def kfloat_sign_def kfloat_frac_def Let_def)
qed

text \<open>
  A K-float decodes to 0 exactly when its 15-bit fraction is 0,
  whatever the sign bit and exponent; in particular the all-zero field is 0.
\<close>

theorem parseK_float_zero_iff:
  "parseK_float s = 0 \<longleftrightarrow> byte_at s 0 mod 128 = 0 \<and> byte_at s 1 = 0"
  by (simp add: parseK_float_eq kfloat_sign_def kfloat_frac_def real_fraction_zero)

lemma black_scan_ok:
  "list_all (\<lambda>j. 500 \<le> black_value read j \<and> black_value read j \<le> 2500) [i..<19] \<Longrightarrow>
   black_scan read i m = (foldl (\<lambda>m j. m[j := real (black_value read j)]) m [i..<19], False)"
proof (induction read i m rule: black_scan.induct)
  case (1 read i m)
  show ?case
  proof (cases "i < 19")
    case True
    then have "[i..<19] = i # [Suc i..<19]" by (simp add: upt_rec)
    with "1" True show ?thesis by (simp add: black_scan.simps [of read i])
  next
    case False
    then show ?thesis by (simp add: black_scan.simps [of read i])
  qed
qed

lemma black_scan_bad:
  "\<not> list_all (\<lambda>j. 500 \<le> black_value read j \<and> black_value read j \<le> 2500) [i..<19] \<Longrightarrow>
   black_scan read i m = (replicate 19 0, True)"
proof (induction read i m rule: black_scan.induct)
  case (1 read i m)
  show ?case
  proof (cases "i < 19")
    case True
    then have "[i..<19] = i # [Suc i..<19]" by (simp add: upt_rec)
    with "1" True show ?thesis by (auto simp: black_scan.simps [of read i] Let_def)
  next
    case False
    with "1.prems" show ?thesis by simp
  qed
qed


lemma foldl_update_nth:
  "k < length m \<Longrightarrow>
   foldl (\<lambda>m j. m[j := f j]) m [i..<n] ! k = (if i \<le> k \<and> k < n then f k else m ! k)"
proof (induction n)
  case 0
  then show ?case by simp
next
  case (Suc n)
  then show ?case
    by (cases "i \<le> n"; cases "k = n") (auto simp: nth_list_update)
qed

lemma fromMatrix_replicate_0:
  "fromMatrix (replicate 19 0) = (replicate 6 [0, 0, 0], 0)"
  by (simp add: fromMatrix_def upt_rec eval_nat_numeral)

text \<open>
  C34. when all 19 values of a black-matrix reply are in 500..2500,
  range row \<open>k\<close> holds the big-endian values \<open>3(5-k)\<dots>3(5-k)+2\<close> and the
  temperature is value 18.
\<close>

theorem BlackMatrix_parse_layout:
  "list_all (\<lambda>j. 500 \<le> black_value read j \<and> black_value read j \<le> 2500) [0..<19] \<Longrightarrow>
   k < 6 \<Longrightarrow> i < 3 \<Longrightarrow>
   bm_range (BlackMatrix_parse read error) ! k ! i = real (black_value read ((5 - k) * 3 + i)) \<and>
   bm_therm (BlackMatrix_parse read error) = real (black_value read 18)"
proof -
  assume ok: "list_all (\<lambda>j. 500 \<le> black_value read j \<and> black_value read j \<le> 2500) [0..<19]"
    and k: "k < 6" and i: "i < 3"
  let ?m = "foldl (\<lambda>m j. m[j := real (black_value read j)]) (replicate 19 0) [0..<19]"
  have scan: "black_scan read 0 (replicate 19 0) = (?m, False)"
    using ok by (rule black_scan_ok)
  have "(5 - k) * 3 + i < 19" using k i by arith
  moreover have "i = 0 \<or> i = 1 \<or> i = 2" using i by arith
  ultimately show ?thesis
    using k by (auto simp: BlackMatrix_parse_def scan fromMatrix_def foldl_update_nth)
qed

text \<open>
  C35. when some value of a black-matrix reply is outside
  500..2500 the matrix is zeroed, but the \<^verbatim>\<open>BLACK_PARSING_ROM\<close> flag set by the
  loop is overwritten: the error mask is only the caller's mask and the token.
\<close>

theorem BlackMatrix_parse_bad:
  "\<not> list_all (\<lambda>j. 500 \<le> black_value read j \<and> black_value read j \<le> 2500) [0..<19] \<Longrightarrow>
   bm_range (BlackMatrix_parse read error) = replicate 6 [0, 0, 0] \<and>
   bm_therm (BlackMatrix_parse read error) = 0 \<and>
   bm_errorcode (BlackMatrix_parse read error) = error OR getErrorCodeFromKlein (substr read 41 1)"
  by (simp add: BlackMatrix_parse_def black_scan_bad fromMatrix_replicate_0)

theorem BlackMatrix_parse_bad_witness:
  "\<not> list_all (\<lambda>j. 500 \<le> black_value (replicate 43 (CHR 0x00)) j \<and>
                   black_value (replicate 43 (CHR 0x00)) j \<le> 2500) [0..<19] \<and>
   bm_range (BlackMatrix_parse (replicate 43 (CHR 0x00)) 0) = replicate 6 [0, 0, 0] \<and>
   bm_errorcode (BlackMatrix_parse (replicate 43 (CHR 0x00)) 0) = NONE"
  using BlackMatrix_parse_bad [of "replicate 43 (CHR 0x00)" 0]
  by (simp add: black_value_def getErrorCodeFromKlein_def substr_def errcode_defs upt_rec byte_at_def)

theorem BlackMatrix_parse_layout_witness:
  "list_all (\<lambda>j. 500 \<le> black_value black_reply_1000 j \<and> black_value black_reply_1000 j \<le> 2500)
     [0..<19] \<and>
   bm_range (BlackMatrix_parse black_reply_1000 0) ! 0 ! 2 = 1000 \<and>
   bm_therm (BlackMatrix_parse black_reply_1000 0) = 1000"
proof -
  have ok: "list_all (\<lambda>j. 500 \<le> black_value black_reply_1000 j \<and> black_value black_reply_1000 j \<le> 2500)
     [0..<19]"
    by code_simp
  have v: "black_value black_reply_1000 17 = 1000" "black_value black_reply_1000 18 = 1000"
    by code_simp+
  show ?thesis
    using ok BlackMatrix_parse_layout [OF ok, of 0 2 0] v by simp
qed

lemma be16_enc_at:
  "0 \<le> v \<Longrightarrow> v < 65536 \<Longrightarrow> be16 (xs @ be16_enc v @ ys) (length xs) = v"
proof -
  assume v: "0 \<le> v" "v < 65536"
  then have "nat (v div 256) < 256" "nat (v mod 256) < 256" "0 \<le> v div 256" by simp_all
  then show ?thesis using v
    by (simp add: be16_def be16_enc_def byte_at_def nth_append of_char_of div_mult_mod_eq)
qed

lemma length_be16_enc [simp]: "length (be16_enc v) = 2"
  by (simp add: be16_enc_def)

lemma length_concat_be16 [simp]: "length (concat (map be16_enc cs)) = 2 * length cs"
  by (induction cs) simp_all

text \<open>
  C36. decoding a counts reply laid out by the device gives back every
  field: the six counts and the thermal reading from the big-endian pairs at
  offsets 0 to 13, the thresholds from bytes 14 and 15, the ranges from byte
  16 and the error from byte 18.
\<close>

theorem Counts_parse_roundtrip:
  assumes "length cs = 6" "\<forall>v\<in>set (t # cs). 0 \<le> v \<and> v < 65536" "a < 256" "b < 256"
  shows "Counts_parse (counts_reply cs t a b rb e) =
           \<lparr>th1 = int a, th2 = int b, therm = t,
            redrange = parsingRange (of_nat (of_char rb)) ! 0, greenrange = parsingRange (of_nat (of_char rb)) ! 1,
            bluerange = parsingRange (of_nat (of_char rb)) ! 2,
            theCounts = [take 3 cs, drop 3 cs], counts_errorcode = getErrorCodeFromKlein [e]\<rparr>"
proof -
  obtain c0 c1 c2 c3 c4 c5 where cs: "cs = [c0, c1, c2, c3, c4, c5]"
    using assms(1) by (auto simp: length_Suc_conv numeral_eq_Suc)
  define r where "r = counts_reply cs t a b rb e"
  have r: "r = be16_enc c0 @ be16_enc c1 @ be16_enc c2 @ be16_enc c3 @ be16_enc c4 @ be16_enc c5 @
               be16_enc t @ [char_of a, char_of b, rb, CHR 0x00, e]"
    by (simp add: r_def counts_reply_def cs)
  have ok: "\<forall>v\<in>{c0, c1, c2, c3, c4, c5, t}. 0 \<le> v \<and> v < 65536" using assms(2) cs by simp
  have "be16 r 0 = c0" using be16_enc_at [of c0 "[]"] ok unfolding r by simp
  moreover have "be16 r 2 = c1" using be16_enc_at [of c1 "be16_enc c0"] ok unfolding r by simp
  moreover have "be16 r 4 = c2" using be16_enc_at [of c2 "be16_enc c0 @ be16_enc c1"] ok unfolding r by simp
  moreover have "be16 r 6 = c3"
    using be16_enc_at [of c3 "be16_enc c0 @ be16_enc c1 @ be16_enc c2"] ok unfolding r by simp
  moreover have "be16 r 8 = c4"
    using be16_enc_at [of c4 "be16_enc c0 @ be16_enc c1 @ be16_enc c2 @ be16_enc c3"] ok unfolding r by simp
  moreover have "be16 r 10 = c5"
    using be16_enc_at [of c5 "be16_enc c0 @ be16_enc c1 @ be16_enc c2 @ be16_enc c3 @ be16_enc c4"] ok
    unfolding r by simp
  moreover have "be16 r 12 = t"
    using be16_enc_at [of t "be16_enc c0 @ be16_enc c1 @ be16_enc c2 @ be16_enc c3 @ be16_enc c4 @ be16_enc c5"] ok
    unfolding r by simp
  moreover have "byte_at r 14 = a" "byte_at r 15 = b" "byte_at r 16 = of_char rb"
    using assms(3,4) unfolding r by (simp_all add: byte_at_def nth_append be16_enc_def)
  moreover have "substr r 18 1 = [e]" unfolding r by (simp add: substr_def be16_enc_def)
  ultimately show ?thesis using cs unfolding r_def by (simp add: Counts_parse_def Let_def)
qed

subsection \<open>Witnesses\<close>

theorem Counts_parse_roundtrip_witness:
  "Counts_parse (counts_reply [1000, 2, 300, 65535, 0, 4660] 513 7 255 (CHR 0x40) (CHR ''L'')) =
     \<lparr>th1 = 7, th2 = 255, therm = 513, redrange = 1, greenrange = 2, bluerange = 1,
      theCounts = [[1000, 2, 300], [65535, 0, 4660]], counts_errorcode = AIMING_LIGHTS\<rparr>"
  using Counts_parse_roundtrip [of "[1000, 2, 300, 65535, 0, 4660]" 513 7 255 "CHR 0x40" "CHR ''L''"]
  by (simp add: parsingRange_def numeral_2_eq_2 getErrorCodeFromKlein_def)

end
