(* ===== verification/Protocol.thy ===== *)
theory Protocol
  imports ErrorCodes
begin

text \<open>
  The request/response layer of src/KClmtr.cpp: the command table
  (\<^verbatim>\<open>KClmtr::command\<close>, lines 40-67), \<^verbatim>\<open>sendMessageToSerialPort\<close> and
  \<^verbatim>\<open>readFromSerialPort\<close>.  The serial port (src/SerialPort.cpp) is operating
  system I/O; it is replaced by a scripted environment: the port is open or
  not, and each \<^verbatim>\<open>readExisting()\<close> returns the next scripted chunk of bytes
  (the empty string when nothing is pending) or observes the device being
  unplugged, which closes the port.  \<^verbatim>\<open>writePort\<close> records what was sent.
  The polling loop of \<^verbatim>\<open>readFromSerialPort\<close> sleeps 50 ms per iteration and
  runs at most \<open>timeout * 30\<close> iterations, so it is bounded recursion on the
  number of polls left.
\<close>

section \<open>Commands\<close>

text \<open>\<^verbatim>\<open>struct command { commandString; expected; timeout; }\<close> (src/KClmtr.h).\<close>

record command =
  commandString :: string
  cmd_expected :: int
  cmd_timeout :: int

definition mk_command :: "string \<Rightarrow> int \<Rightarrow> int \<Rightarrow> command" where
  "mk_command s e t = \<lparr>commandString = s, cmd_expected = e, cmd_timeout = t\<rparr>"

definition BLACKCAL_RAM :: command where "BLACKCAL_RAM = mk_command ''B4'' 43 2"
definition BLACKCAL_STORE :: command where "BLACKCAL_STORE = mk_command ''B7'' 2 1"
definition BLACKCAL_FLASH :: command where "BLACKCAL_FLASH = mk_command ''B8'' 43 2"
definition BLACKCAL_NEW_RAM :: command where "BLACKCAL_NEW_RAM = mk_command ''B9'' 43 8"
definition BLACKCAL_COEFFICIENTMATRIX :: command where
  "BLACKCAL_COEFFICIENTMATRIX = mk_command ''S0'' 133 2"
definition CALFILE_INCOMING :: command where "CALFILE_INCOMING = mk_command ''D1'' 2 2"
definition CALFILE_FILELIST :: command where "CALFILE_FILELIST = mk_command ''D7'' 1925 6"
definition CALFILE_SAVING :: command where "CALFILE_SAVING = mk_command ''D9'' 2 2"
definition AIMINGLIGHTS_OFF :: command where "AIMINGLIGHTS_OFF = mk_command ''L0'' 0 0"
definition AIMINGLIGHTS_ON :: command where "AIMINGLIGHTS_ON = mk_command ''L1'' 0 0"
definition COUNTS_4PERSECOND :: command where "COUNTS_4PERSECOND = mk_command ''M6'' 20 2"
definition COLOR_2PERSECOND :: command where "COLOR_2PERSECOND = mk_command ''N7'' 15 1"
definition COLOR_4PERSECOND :: command where "COLOR_4PERSECOND = mk_command ''N6'' 15 1"
definition COLOR_8PERSECOND :: command where "COLOR_8PERSECOND = mk_command ''N5'' 15 1"
definition COLOR_16PERSECOND :: command where "COLOR_16PERSECOND = mk_command ''N4'' 15 1"
definition DEVICE_INFO :: command where "DEVICE_INFO = mk_command ''P0'' 21 1"
definition FLICKER_INFO :: command where "FLICKER_INFO = mk_command ''P4'' 613 5"
definition FLICKER_256PERSECOND :: command where "FLICKER_256PERSECOND = mk_command ''T2'' (-1) 2"
definition FLICKER_384PERSECOND :: command where "FLICKER_384PERSECOND = mk_command ''T1'' (-1) 2"
definition RANGE_FIX1 :: command where "RANGE_FIX1 = mk_command ''J1'' 1 2"
definition RANGE_FIX2 :: command where "RANGE_FIX2 = mk_command ''J2'' 1 2"
definition RANGE_FIX3 :: command where "RANGE_FIX3 = mk_command ''J3'' 1 2"
definition RANGE_FIX4 :: command where "RANGE_FIX4 = mk_command ''J4'' 1 2"
definition RANGE_FIX5 :: command where "RANGE_FIX5 = mk_command ''J5'' 1 2"
definition RANGE_FIX6 :: command where "RANGE_FIX6 = mk_command ''J6'' 1 2"
definition RANGE_FIXCURRENT :: command where "RANGE_FIXCURRENT = mk_command ''J7'' 1 2"
definition RANGE_AUTO :: command where "RANGE_AUTO = mk_command ''J8'' 1 2"
definition DUMMY :: command where "DUMMY = mk_command ''X9'' (-1) 1"

definition command_table :: "command list" where
  "command_table =
     [BLACKCAL_RAM, BLACKCAL_STORE, BLACKCAL_FLASH, BLACKCAL_NEW_RAM, BLACKCAL_COEFFICIENTMATRIX,
      CALFILE_INCOMING, CALFILE_FILELIST, CALFILE_SAVING, AIMINGLIGHTS_OFF, AIMINGLIGHTS_ON,
      COUNTS_4PERSECOND, COLOR_2PERSECOND, COLOR_4PERSECOND, COLOR_8PERSECOND, COLOR_16PERSECOND,
      DEVICE_INFO, FLICKER_INFO, FLICKER_256PERSECOND, FLICKER_384PERSECOND, RANGE_FIX1, RANGE_FIX2,
      RANGE_FIX3, RANGE_FIX4, RANGE_FIX5, RANGE_FIX6, RANGE_FIXCURRENT, RANGE_AUTO, DUMMY]"

section \<open>The serial port as an environment\<close>

datatype rx_event = Chunk string | Unplug

record serial =
  sp_open :: bool
  sp_rx :: "rx_event list"
  sp_tx :: "string list"

text \<open>\<^verbatim>\<open>SerialPort::readExisting()\<close>: what is pending, or nothing.\<close>

definition readExisting :: "serial \<Rightarrow> string \<times> serial" where
  "readExisting port =
     (case sp_rx port of
        [] \<Rightarrow> ([], port)
      | Chunk c # rest \<Rightarrow> (c, port\<lparr>sp_rx := rest\<rparr>)
      | Unplug # rest \<Rightarrow> ([], port\<lparr>sp_open := False, sp_rx := rest\<rparr>))"

definition writePort :: "serial \<Rightarrow> string \<Rightarrow> serial" where
  "writePort port buf = port\<lparr>sp_tx := sp_tx port @ [buf]\<rparr>"

section \<open>Sending and receiving\<close>

text \<open>
  The loop of \<^verbatim>\<open>readFromSerialPort\<close>,
  \<^verbatim>\<open>while(comPort.isOpen() && i < timeOut_Sec) { sleep(50); readString += comPort.readExisting();\<close>
  \<^verbatim>\<open>if((int)readString.length() < expected) ++i; else return NONE; }\<close>,
  followed by the two returns after it; \<open>n\<close> is the number of iterations left.
\<close>

fun read_poll :: "nat \<Rightarrow> int \<Rightarrow> serial \<Rightarrow> string \<Rightarrow> errmask \<times> string \<times> serial" where
  "read_poll 0 expected port readString =
     ((if sp_open port then TIMED_OUT else LOST_CONNECTION), readString, port)"
| "read_poll (Suc n) expected port readString =
     (if sp_open port then
        (let (c, port) = readExisting port;
             readString = readString @ c
         in if int (length readString) < expected then read_poll n expected port readString
            else (NONE, readString, port))
      else (LOST_CONNECTION, readString, port))"

definition readFromSerialPort :: "serial \<Rightarrow> int \<Rightarrow> int \<Rightarrow> string \<Rightarrow> errmask \<times> string \<times> serial" where
  "readFromSerialPort comPort expected timeOut_Sec readString =
     (if sp_open comPort then
        (let (c, comPort) = readExisting comPort
         in read_poll (nat (timeOut_Sec * 30)) expected comPort (readString @ c))
      else (LOST_CONNECTION, readString, comPort))"

text \<open>
  \<^verbatim>\<open>sendMessageToSerialPort(comPort, strMsg, expected, timeOut_Sec, readString)\<close>:
  flush what is pending, send the command with its carriage return, and wait
  for the reply only when one is expected.
\<close>

definition sendMessageToSerialPort ::
  "serial \<Rightarrow> string \<Rightarrow> int \<Rightarrow> int \<Rightarrow> errmask \<times> string \<times> serial" where
  "sendMessageToSerialPort comPort strMsg expected timeOut_Sec =
     (if sp_open comPort then
        (let (_, comPort) = readExisting comPort;
             comPort = writePort comPort (strMsg @ [CHR 0x0D])
         in if 0 < expected then readFromSerialPort comPort expected timeOut_Sec []
            else (NONE, [], comPort))
      else (NOT_OPEN, [], comPort))"

definition send_command :: "serial \<Rightarrow> command \<Rightarrow> errmask \<times> string \<times> serial" where
  "send_command comPort m = sendMessageToSerialPort comPort (commandString m) (cmd_expected m) (cmd_timeout m)"

section \<open>Properties\<close>

lemma readExisting_rx: "\<exists>k \<le> 1. sp_rx (snd (readExisting p)) = drop k (sp_rx p)"
  by (auto simp: readExisting_def split: list.splits rx_event.splits)

lemma readExisting_tx [simp]: "sp_tx (snd (readExisting p)) = sp_tx p"
  by (auto simp: readExisting_def split: list.splits rx_event.splits)

lemma readExisting_tx_eq: "readExisting p = (c, p') \<Longrightarrow> sp_tx p' = sp_tx p"
  using readExisting_tx [of p] by simp

lemma readExisting_chunks:
  "readExisting (p\<lparr>sp_rx := map Chunk cs\<rparr>) =
     (case cs of [] \<Rightarrow> ([], p\<lparr>sp_rx := []\<rparr>) | c # cs' \<Rightarrow> (c, p\<lparr>sp_rx := map Chunk cs'\<rparr>))"
  by (cases cs) (auto simp: readExisting_def)

lemma read_poll_result:
  "fst (read_poll n e p s) \<in> {NONE, TIMED_OUT, LOST_CONNECTION}"
  by (induction n e p s rule: read_poll.induct) (auto split: prod.splits simp: Let_def)

lemma read_poll_success:
  "fst (read_poll n e p s) = NONE \<Longrightarrow> e \<le> int (length (fst (snd (read_poll n e p s))))"
  by (induction n e p s rule: read_poll.induct) (auto split: prod.splits if_splits simp: errcode_defs Let_def)

lemma read_poll_tx [simp]: "sp_tx (snd (snd (read_poll n e p s))) = sp_tx p"
  by (induction n e p s rule: read_poll.induct)
    (auto split: prod.splits simp: Let_def dest: readExisting_tx_eq)

lemma read_poll_rx: "\<exists>k \<le> n. sp_rx (snd (snd (read_poll n e p s))) = drop k (sp_rx p)"
proof (induction n e p s rule: read_poll.induct)
  case (1 e p s)
  then show ?case by auto
next
  case (2 n e p s)
  obtain c p' where r: "readExisting p = (c, p')" by fastforce
  obtain k where k: "k \<le> 1" "sp_rx p' = drop k (sp_rx p)"
    using readExisting_rx [of p] r by auto
  show ?case
  proof (cases "sp_open p \<and> int (length (s @ c)) < e")
    case True
    then obtain j where j: "j \<le> n" "sp_rx (snd (snd (read_poll n e p' (s @ c)))) = drop j (sp_rx p')"
      using "2" r by fastforce
    then show ?thesis using True r k by (intro exI [of _ "j + k"]) (auto simp: add.commute)
  next
    case False
    then show ?thesis using r k by (auto intro: exI [of _ k] exI [of _ 0])
  qed
qed

lemma read_poll_chunks:
  "sp_open q \<Longrightarrow> sp_rx q = map Chunk cs \<Longrightarrow>
   fst (read_poll n e q s) =
     (if 0 < n \<and> e \<le> int (length s + length (concat (take n cs))) then NONE else TIMED_OUT)"
proof (induction n arbitrary: q s cs)
  case 0
  then show ?case by simp
next
  case (Suc n)
  show ?case
  proof (cases cs)
    case Nil
    then show ?thesis
      using Suc.IH [where s = s and cs = "[]" and q = q] Suc.prems by (auto simp: readExisting_def)
  next
    case (Cons c cs')
    then show ?thesis
      using Suc.IH [where s = "s @ c" and cs = cs' and q = "q\<lparr>sp_rx := map Chunk cs'\<rparr>"] Suc.prems
      by (cases n) (auto simp: readExisting_def Let_def)
  qed
qed

lemma readFromSerialPort_result:
  "fst (readFromSerialPort p e t s) \<in> {NONE, TIMED_OUT, LOST_CONNECTION}"
  using read_poll_result by (auto simp: readFromSerialPort_def split: prod.splits)

lemma readFromSerialPort_success:
  "fst (readFromSerialPort p e t s) = NONE \<Longrightarrow> e \<le> int (length (fst (snd (readFromSerialPort p e t s))))"
  using read_poll_success by (auto simp: readFromSerialPort_def errcode_defs split: prod.splits if_splits)

lemma readFromSerialPort_tx [simp]: "sp_tx (snd (snd (readFromSerialPort p e t s))) = sp_tx p"
  by (auto simp: readFromSerialPort_def split: prod.splits dest: readExisting_tx_eq)

lemma readFromSerialPort_rx:
  "\<exists>k \<le> nat (t * 30) + 1. sp_rx (snd (snd (readFromSerialPort p e t s))) = drop k (sp_rx p)"
proof (cases "sp_open p")
  case True
  obtain c p' where r: "readExisting p = (c, p')" by fastforce
  obtain k where k: "k \<le> 1" "sp_rx p' = drop k (sp_rx p)"
    using readExisting_rx [of p] r by auto
  obtain j where j: "j \<le> nat (t * 30)"
    "sp_rx (snd (snd (read_poll (nat (t * 30)) e p' (s @ c)))) = drop j (sp_rx p')"
    using read_poll_rx by blast
  show ?thesis
    using True r k j by (intro exI [of _ "j + k"]) (auto simp: readFromSerialPort_def add.commute)
qed (auto simp: readFromSerialPort_def)

lemma writePort_rx [simp]: "sp_rx (writePort p b) = sp_rx p"
  by (simp add: writePort_def)

lemma writePort_open [simp]: "sp_open (writePort p b) = sp_open p"
  by (simp add: writePort_def)

text \<open>
  C14. on an open port the command is written once, with its carriage
  return appended, and a successful exchange that expects a reply returns at
  least the expected number of bytes.
\<close>

theorem sendMessageToSerialPort_sent:
  "sp_open p \<Longrightarrow>
   sp_tx (snd (snd (sendMessageToSerialPort p msg e t))) = sp_tx p @ [msg @ [CHR 0x0D]] \<and>
   (fst (sendMessageToSerialPort p msg e t) = NONE \<longrightarrow> 0 < e \<longrightarrow>
      e \<le> int (length (fst (snd (sendMessageToSerialPort p msg e t)))))"
  using readFromSerialPort_success
  by (auto simp: sendMessageToSerialPort_def writePort_def Let_def split: prod.splits
      dest: readExisting_tx_eq)

text \<open>
  C17. on a closed port the exchange reports NOT_OPEN, writes nothing
  and returns an empty reply.
\<close>

theorem sendMessageToSerialPort_not_open:
  "\<not> sp_open p \<Longrightarrow> sendMessageToSerialPort p msg e t = (NOT_OPEN, [], p)"
  by (simp add: sendMessageToSerialPort_def)

text \<open>
  C15. an exchange reads the port at most \<open>timeout * 30 + 2\<close> times
  (one flush, one read before the loop, one per poll): the wait is bounded.
\<close>

theorem sendMessageToSerialPort_rx:
  "\<exists>k \<le> nat (t * 30) + 2. sp_rx (snd (snd (sendMessageToSerialPort p msg e t))) = drop k (sp_rx p)"
proof (cases "sp_open p")
  case True
  obtain c p' where r: "readExisting p = (c, p')" by fastforce
  obtain k where k: "k \<le> 1" "sp_rx p' = drop k (sp_rx p)"
    using readExisting_rx [of p] r by auto
  obtain j where j: "j \<le> nat (t * 30) + 1"
    "sp_rx (snd (snd (readFromSerialPort (writePort p' (msg @ [CHR 0x0D])) e t []))) =
       drop j (sp_rx p')"
    using readFromSerialPort_rx [of t "writePort p' (msg @ [CHR 0x0D])" e "[]"] by auto
  show ?thesis
  proof (cases "0 < e")
    case True
    with \<open>sp_open p\<close> r k j show ?thesis
      by (intro exI [of _ "j + k"]) (auto simp: sendMessageToSerialPort_def add.commute)
  next
    case False
    with \<open>sp_open p\<close> r k show ?thesis
      by (intro exI [of _ k]) (auto simp: sendMessageToSerialPort_def)
  qed
qed (auto simp: sendMessageToSerialPort_def)

text \<open>
  C13. for a device that stays connected, the exchange discards what
  was pending before the command, succeeds at once when no reply is expected,
  and otherwise succeeds exactly when the first \<open>timeout * 30 + 1\<close> reads
  deliver the expected bytes and the timeout is positive; else it times out.
\<close>

theorem sendMessageToSerialPort_chunks:
  "fst (sendMessageToSerialPort (p\<lparr>sp_open := True, sp_rx := map Chunk (c0 # cs)\<rparr>) msg e t) =
     (if e \<le> 0 then NONE
      else if 0 < t \<and> e \<le> int (length (concat (take (nat (t * 30) + 1) cs))) then NONE
      else TIMED_OUT)"
proof -
  let ?q = "writePort (p\<lparr>sp_open := True, sp_rx := map Chunk cs\<rparr>) (msg @ [CHR 0x0D])"
  have r: "fst (readFromSerialPort ?q e t []) =
       (if 0 < t \<and> e \<le> int (length (concat (take (nat (t * 30) + 1) cs))) then NONE else TIMED_OUT)"
  proof (cases cs)
    case Nil
    then show ?thesis
      using read_poll_chunks [where n = "nat (t * 30)" and e = e and q = ?q and cs = "[]" and s = "[]"]
      by (simp add: readFromSerialPort_def readExisting_def)
  next
    case (Cons c cs')
    then show ?thesis
      using read_poll_chunks [where n = "nat (t * 30)" and e = e and
          q = "?q\<lparr>sp_rx := map Chunk cs'\<rparr>" and cs = cs' and s = c]
      by (auto simp: readFromSerialPort_def readExisting_def)
  qed
  show ?thesis
    using r by (simp add: sendMessageToSerialPort_def readExisting_def)
qed

text \<open>
  C16. when the device is unplugged while a reply is awaited, the
  exchange reports LOST_CONNECTION, whatever the timeout.
\<close>

theorem sendMessageToSerialPort_unplug:
  "0 < e \<Longrightarrow>
   fst (sendMessageToSerialPort (p\<lparr>sp_open := True, sp_rx := Chunk c # Unplug # rest\<rparr>) msg e t) =
     LOST_CONNECTION"
  by (cases "nat (t * 30)")
    (simp_all add: sendMessageToSerialPort_def readFromSerialPort_def readExisting_def writePort_def)


theorem sendMessageToSerialPort_sent_witness:
  "sp_open \<lparr>sp_open = True, sp_rx = [Chunk ''<0>''], sp_tx = []\<rparr> \<and>
   sp_tx (snd (snd (sendMessageToSerialPort \<lparr>sp_open = True, sp_rx = [Chunk ''<0>''], sp_tx = []\<rparr>
      ''L0'' 0 0))) = [''L0'' @ [CHR 0x0D]]"
  using sendMessageToSerialPort_sent [of "\<lparr>sp_open = True, sp_rx = [Chunk ''<0>''], sp_tx = []\<rparr>" "''L0''" 0 0]
  by simp

theorem sendMessageToSerialPort_not_open_witness:
  "\<not> sp_open \<lparr>sp_open = False, sp_rx = [], sp_tx = []\<rparr> \<and>
   sendMessageToSerialPort \<lparr>sp_open = False, sp_rx = [], sp_tx = []\<rparr> ''N5'' 15 1 =
     (NOT_OPEN, [], \<lparr>sp_open = False, sp_rx = [], sp_tx = []\<rparr>)"
  using sendMessageToSerialPort_not_open [of "\<lparr>sp_open = False, sp_rx = [], sp_tx = []\<rparr>" "''N5''" 15 1]
  by simp

theorem sendMessageToSerialPort_unplug_witness:
  "(0::int) < 15 \<and>
   fst (sendMessageToSerialPort (\<lparr>sp_open = False, sp_rx = [], sp_tx = []\<rparr>
          \<lparr>sp_open := True, sp_rx := [Chunk [], Unplug]\<rparr>) ''N5'' 15 1) = LOST_CONNECTION"
  using sendMessageToSerialPort_unplug [where e = 15 and p = "\<lparr>sp_open = False, sp_rx = [], sp_tx = []\<rparr>"
      and c = "[]" and rest = "[]" and msg = "''N5''" and t = 1]
  by simp

end
