(* ===== verification/Acquisition.thy ===== *)
theory Acquisition
  imports KPrelude
begin

text \<open>
  The worker-thread handshake of src/KClmtr.cpp: \<^verbatim>\<open>startThread2\<close> (lines
  508-538), \<^verbatim>\<open>stopThread2\<close> (484-507), the worker \<^verbatim>\<open>threadStuff\<close> (385-476)
  and \<^verbatim>\<open>endThread\<close> (477-483).  The controller (the caller's thread) and every
  worker thread ever created run concurrently and share \<^verbatim>\<open>threadModeParent\<close>,
  \<^verbatim>\<open>threadModeChild\<close>, \<^verbatim>\<open>measureMode\<close> and \<^verbatim>\<open>threadId\<close>.  Each step of the
  relation \<open>acq_step\<close> is one access to shared state by one thread, so every
  interleaving of the real program is a sequence of steps.  Busy-wait loops
  (\<^verbatim>\<open>while(...) sleep(1);\<close>) are steps enabled only when their exit condition
  holds: a thread spinning forever is a thread with no enabled step.  The
  exchange of one loop iteration of the worker succeeds or fails
  nondeterministically (its effect on the handshake is the
  \<^verbatim>\<open>threadModeParent = STOP\<close> of the failure branch).  The stop request issued
  by a worker on itself (through \<^verbatim>\<open>sendMessageToKColorimeter\<close>'s guard) is
  not part of this relation; the session theory treats it.
\<close>

section \<open>State\<close>

datatype ThreadMode = NOT_RUNNING | RUN | STOP

datatype MeasureMode = MEASURE | FLICKER | COUNTS

text \<open>
  Program points of a worker: before \<^verbatim>\<open>threadModeChild = RUN\<close>, at the test of
  \<^verbatim>\<open>while(threadModeParent == RUN)\<close>, in the loop body, in \<^verbatim>\<open>endThread\<close> before
  \<^verbatim>\<open>threadModeChild = NOT_RUNNING\<close>, before \<^verbatim>\<open>threadId = 0\<close>, and returned.
\<close>

datatype wpc = WBegin | WTest | WBody | WEnd | WClear | WDone

text \<open>
  Program points of the controller (\<open>CJoin\<close> reads \<^verbatim>\<open>threadId\<close> for
  \<^verbatim>\<open>pthread_join\<close>, \<open>CJoinWait i\<close> blocks until thread \<open>i\<close> has returned);
  the last argument says what the pending
  \<^verbatim>\<open>stopThread2\<close> returns to: \<open>Some m\<close> inside \<^verbatim>\<open>startThread2(m)\<close>, \<open>None\<close>
  for a plain stop.
\<close>

datatype cpc =
    CIdle
  | CStopTest "MeasureMode option"
  | CStopWait "MeasureMode option"
  | CJoin "MeasureMode option"
  | CJoinWait nat "MeasureMode option"
  | CStopReset "MeasureMode option"
  | CStartWait

text \<open>
  \<^verbatim>\<open>threadId\<close> is \<open>None\<close> for 0 and \<open>Some i\<close> for the \<open>i\<close>-th worker created;
  \<open>workers\<close> lists the program point of every worker created so far;
  \<open>bad_join\<close> records that \<^verbatim>\<open>pthread_join\<close> was called on thread id 0.
\<close>

record acq =
  threadModeParent :: ThreadMode
  threadModeChild :: ThreadMode
  measureMode :: MeasureMode
  threadId :: "nat option"
  workers :: "wpc list"
  ctl :: cpc
  bad_join :: bool

text \<open>The constructor \<^verbatim>\<open>KClmtr()\<close> (lines 114-189; \<^verbatim>\<open>measureMode\<close> is left unset there).\<close>

definition acq_init :: acq where
  "acq_init = \<lparr>threadModeParent = NOT_RUNNING, threadModeChild = NOT_RUNNING, measureMode = MEASURE,
               threadId = None, workers = [], ctl = CIdle, bad_join = False\<rparr>"

section \<open>Steps\<close>

text \<open>
  The body of \<^verbatim>\<open>startThread2\<close> after its \<^verbatim>\<open>stopThread2()\<close>: reset the id, set
  the mode and the flags, create the worker, and enter the wait for it.
\<close>

definition spawn :: "MeasureMode \<Rightarrow> acq \<Rightarrow> acq" where
  "spawn m s = s\<lparr>threadId := Some (length (workers s)), measureMode := m, threadModeParent := RUN,
                  threadModeChild := NOT_RUNNING, workers := workers s @ [WBegin], ctl := CStartWait\<rparr>"

definition after_stop :: "MeasureMode option \<Rightarrow> acq \<Rightarrow> acq" where
  "after_stop k s = (case k of None \<Rightarrow> s\<lparr>ctl := CIdle\<rparr> | Some m \<Rightarrow> spawn m s)"

inductive ctl_step :: "acq \<Rightarrow> acq \<Rightarrow> bool" where
  start: "ctl s = CIdle \<Longrightarrow> ctl_step s (s\<lparr>ctl := CStopTest (Some m)\<rparr>)"
| stop: "ctl s = CIdle \<Longrightarrow> ctl_step s (s\<lparr>ctl := CStopTest None\<rparr>)"
| stop_early: "ctl s = CStopTest k \<Longrightarrow> threadModeChild s = NOT_RUNNING \<Longrightarrow> ctl_step s (after_stop k s)"
| stop_request: "ctl s = CStopTest k \<Longrightarrow> threadModeChild s \<noteq> NOT_RUNNING \<Longrightarrow>
    ctl_step s (s\<lparr>threadModeParent := STOP, ctl := CStopWait k\<rparr>)"
| stop_seen: "ctl s = CStopWait k \<Longrightarrow> threadModeChild s = NOT_RUNNING \<Longrightarrow> ctl_step s (s\<lparr>ctl := CJoin k\<rparr>)"
| join: "ctl s = CJoin k \<Longrightarrow> threadId s = Some i \<Longrightarrow> ctl_step s (s\<lparr>ctl := CJoinWait i k\<rparr>)"
| joined: "ctl s = CJoinWait i k \<Longrightarrow> i < length (workers s) \<Longrightarrow> workers s ! i = WDone \<Longrightarrow>
    ctl_step s (s\<lparr>ctl := CStopReset k\<rparr>)"
| join_invalid: "ctl s = CJoin k \<Longrightarrow> threadId s = None \<Longrightarrow>
    ctl_step s (s\<lparr>bad_join := True, ctl := CStopReset k\<rparr>)"
| stop_reset: "ctl s = CStopReset k \<Longrightarrow> ctl_step s (after_stop k (s\<lparr>threadModeParent := NOT_RUNNING\<rparr>))"
| started: "ctl s = CStartWait \<Longrightarrow> threadModeChild s \<noteq> NOT_RUNNING \<Longrightarrow> ctl_step s (s\<lparr>ctl := CIdle\<rparr>)"

definition set_worker :: "nat \<Rightarrow> wpc \<Rightarrow> acq \<Rightarrow> acq" where
  "set_worker i w s = s\<lparr>workers := (workers s)[i := w]\<rparr>"

inductive wk_step :: "nat \<Rightarrow> acq \<Rightarrow> acq \<Rightarrow> bool" where
  set_run: "i < length (workers s) \<Longrightarrow> workers s ! i = WBegin \<Longrightarrow>
    wk_step i s (set_worker i WTest (s\<lparr>threadModeChild := RUN\<rparr>))"
| test_run: "i < length (workers s) \<Longrightarrow> workers s ! i = WTest \<Longrightarrow> threadModeParent s = RUN \<Longrightarrow>
    wk_step i s (set_worker i WBody s)"
| test_exit: "i < length (workers s) \<Longrightarrow> workers s ! i = WTest \<Longrightarrow> threadModeParent s \<noteq> RUN \<Longrightarrow>
    wk_step i s (set_worker i WEnd s)"
| body_ok: "i < length (workers s) \<Longrightarrow> workers s ! i = WBody \<Longrightarrow> wk_step i s (set_worker i WTest s)"
| body_error: "i < length (workers s) \<Longrightarrow> workers s ! i = WBody \<Longrightarrow>
    wk_step i s (set_worker i WTest (s\<lparr>threadModeParent := STOP\<rparr>))"
| end_thread: "i < length (workers s) \<Longrightarrow> workers s ! i = WEnd \<Longrightarrow>
    wk_step i s (set_worker i WClear (s\<lparr>threadModeChild := NOT_RUNNING\<rparr>))"
| clear_id: "i < length (workers s) \<Longrightarrow> workers s ! i = WClear \<Longrightarrow>
    wk_step i s (set_worker i WDone (s\<lparr>threadId := None\<rparr>))"

inductive acq_step :: "acq \<Rightarrow> acq \<Rightarrow> bool" where
  controller: "ctl_step s t \<Longrightarrow> acq_step s t"
| worker: "wk_step i s t \<Longrightarrow> acq_step s t"

inductive reachable :: "acq \<Rightarrow> bool" where
  init: "reachable acq_init"
| step: "reachable s \<Longrightarrow> acq_step s t \<Longrightarrow> reachable t"

section \<open>An executable scheduler\<close>

text \<open>
  The controller is deterministic once the caller's request is fixed, and a
  worker once the outcome of its exchange is fixed; \<open>run\<close> replays a schedule
  of such events and fails (\<open>None\<close>) when an event is not enabled.
\<close>

datatype event = Start MeasureMode | Stop | Ctl | Wk nat | WkErr nat

fun ctl_next :: "acq \<Rightarrow> acq option" where
  "ctl_next s =
     (case ctl s of
        CIdle \<Rightarrow> None
      | CStopTest k \<Rightarrow>
          if threadModeChild s = NOT_RUNNING then Some (after_stop k s)
          else Some (s\<lparr>threadModeParent := STOP, ctl := CStopWait k\<rparr>)
      | CStopWait k \<Rightarrow> if threadModeChild s = NOT_RUNNING then Some (s\<lparr>ctl := CJoin k\<rparr>) else None
      | CJoin k \<Rightarrow>
          (case threadId s of
             None \<Rightarrow> Some (s\<lparr>bad_join := True, ctl := CStopReset k\<rparr>)
           | Some i \<Rightarrow> Some (s\<lparr>ctl := CJoinWait i k\<rparr>))
      | CJoinWait i k \<Rightarrow>
          if i < length (workers s) \<and> workers s ! i = WDone then Some (s\<lparr>ctl := CStopReset k\<rparr>) else None
      | CStopReset k \<Rightarrow> Some (after_stop k (s\<lparr>threadModeParent := NOT_RUNNING\<rparr>))
      | CStartWait \<Rightarrow> if threadModeChild s \<noteq> NOT_RUNNING then Some (s\<lparr>ctl := CIdle\<rparr>) else None)"

fun wk_next :: "bool \<Rightarrow> nat \<Rightarrow> acq \<Rightarrow> acq option" where
  "wk_next err i s =
     (if i < length (workers s) then
        (case workers s ! i of
           WBegin \<Rightarrow> Some (set_worker i WTest (s\<lparr>threadModeChild := RUN\<rparr>))
         | WTest \<Rightarrow> if threadModeParent s = RUN then Some (set_worker i WBody s)
                   else Some (set_worker i WEnd s)
         | WBody \<Rightarrow> if err then Some (set_worker i WTest (s\<lparr>threadModeParent := STOP\<rparr>))
                   else Some (set_worker i WTest s)
         | WEnd \<Rightarrow> Some (set_worker i WClear (s\<lparr>threadModeChild := NOT_RUNNING\<rparr>))
         | WClear \<Rightarrow> Some (set_worker i WDone (s\<lparr>threadId := None\<rparr>))
         | WDone \<Rightarrow> None)
      else None)"

fun event_step :: "event \<Rightarrow> acq \<Rightarrow> acq option" where
  "event_step (Start m) s = (if ctl s = CIdle then Some (s\<lparr>ctl := CStopTest (Some m)\<rparr>) else None)"
| "event_step Stop s = (if ctl s = CIdle then Some (s\<lparr>ctl := CStopTest None\<rparr>) else None)"
| "event_step Ctl s = ctl_next s"
| "event_step (Wk i) s = wk_next False i s"
| "event_step (WkErr i) s = wk_next True i s"

fun run :: "acq \<Rightarrow> event list \<Rightarrow> acq option" where
  "run s [] = Some s"
| "run s (e # es) = (case event_step e s of None \<Rightarrow> None | Some t \<Rightarrow> run t es)"

section \<open>Predicates\<close>

definition active :: "wpc \<Rightarrow> bool" where
  "active w \<longleftrightarrow> w = WBegin \<or> w = WTest \<or> w = WBody \<or> w = WEnd"

text \<open>The controller waits in \<^verbatim>\<open>startThread2\<close> for a worker that has already finished.\<close>

definition hung :: "acq \<Rightarrow> bool" where
  "hung s \<longleftrightarrow> ctl s = CStartWait \<and> threadModeChild s = NOT_RUNNING \<and> list_all (\<lambda>w. w = WDone) (workers s)"

text \<open>The controller is between seeing the worker stop and resetting \<^verbatim>\<open>threadModeParent\<close>.\<close>

fun joining :: "cpc \<Rightarrow> bool" where
  "joining (CJoin _) = True"
| "joining (CJoinWait _ _) = True"
| "joining (CStopReset _) = True"
| "joining _ = False"

text \<open>The handshake invariant.\<close>

definition acq_inv :: "acq \<Rightarrow> bool" where
  "acq_inv s \<longleftrightarrow>
     threadModeChild s \<noteq> STOP \<and>
     list_all (\<lambda>w. \<not> active w) (butlast (workers s)) \<and>
     (workers s = [] \<longrightarrow> threadModeChild s = NOT_RUNNING \<and> ctl s \<noteq> CStartWait) \<and>
     (workers s \<noteq> [] \<longrightarrow>
        (last (workers s) = WBegin \<longrightarrow> ctl s = CStartWait \<and> threadModeChild s = NOT_RUNNING) \<and>
        (last (workers s) \<in> {WTest, WBody, WEnd} \<longrightarrow> threadModeChild s = RUN)) \<and>
     (joining (ctl s) \<longrightarrow> threadModeChild s = NOT_RUNNING) \<and>
     (\<forall>i. threadId s = Some i \<longrightarrow> i = length (workers s) - 1 \<and> workers s \<noteq> [])"

section \<open>Schedules\<close>

text \<open>
  Concrete interleavings replayed by \<open>run\<close> from the constructor's state.
  \<open>sched_start\<close>: \<^verbatim>\<open>startThread2(MEASURE)\<close> returns normally;
  \<open>sched_stop\<close>: then \<^verbatim>\<open>stopThread2\<close> reads \<^verbatim>\<open>threadId\<close> before the worker
  clears it and joins the worker;
  \<open>hang_schedule\<close>: the first exchange of the worker fails (as every exchange
  does while the port is closed) before the controller has seen
  \<^verbatim>\<open>threadModeChild == RUN\<close>;
  \<open>sched_bad_join\<close>: the worker clears \<^verbatim>\<open>threadId\<close> before the controller
  reads it for \<^verbatim>\<open>pthread_join\<close>;
  \<open>sched_stale_clear\<close>: a worker that stopped itself is still finishing
  \<^verbatim>\<open>endThread\<close> when \<^verbatim>\<open>startThread2(COUNTS)\<close> creates the next worker,
  and its \<^verbatim>\<open>threadId = 0\<close> erases the new worker's id.
\<close>

definition sched_start :: "event list" where
  "sched_start = [Start MEASURE, Ctl, Wk 0, Ctl]"

definition sched_stop :: "event list" where
  "sched_stop = sched_start @ [Stop, Ctl, Wk 0, Wk 0, Ctl, Ctl, Wk 0, Ctl]"

definition hang_schedule :: "event list" where
  "hang_schedule = [Start MEASURE, Ctl, Wk 0, Wk 0, WkErr 0, Wk 0, Wk 0, Wk 0]"

definition sched_bad_join :: "event list" where
  "sched_bad_join = sched_start @ [Stop, Ctl, Wk 0, Wk 0, Wk 0, Ctl, Ctl]"

definition sched_stale_clear :: "event list" where
  "sched_stale_clear = [Start MEASURE, Ctl, Wk 0, Ctl, Wk 0, WkErr 0, Wk 0, Wk 0, Start COUNTS, Ctl, Wk 1, Wk 0]"

section \<open>The handshake invariant\<close>

lemmas sched_defs = sched_start_def sched_stop_def hang_schedule_def sched_bad_join_def sched_stale_clear_def
  acq_init_def after_stop_def spawn_def set_worker_def

lemma spawn_inv:
  "list_all (\<lambda>w. \<not> active w) (workers s) \<Longrightarrow> acq_inv (spawn m s)"
  by (simp add: acq_inv_def spawn_def)

lemma inv_quiet:
  "acq_inv s \<Longrightarrow> threadModeChild s = NOT_RUNNING \<Longrightarrow> ctl s \<noteq> CStartWait \<Longrightarrow>
   list_all (\<lambda>w. \<not> active w) (workers s)"
proof (cases "workers s" rule: rev_cases)
  case (snoc ws w)
  assume "acq_inv s" "threadModeChild s = NOT_RUNNING" "ctl s \<noteq> CStartWait"
  with snoc show ?thesis
    by (cases w) (auto simp: acq_inv_def active_def)
qed simp

lemma ctl_step_inv: "ctl_step s t \<Longrightarrow> acq_inv s \<Longrightarrow> acq_inv t"
proof (induction rule: ctl_step.induct)
  case (stop_early s k)
  then show ?case
    using inv_quiet [of s] spawn_inv
    by (cases k) (auto simp: acq_inv_def after_stop_def)
next
  case (stop_reset s k)
  then have q: "list_all (\<lambda>w. \<not> active w) (workers s)"
    using inv_quiet [of s] by (auto simp: acq_inv_def)
  then show ?case
    using stop_reset spawn_inv [of "s\<lparr>threadModeParent := NOT_RUNNING\<rparr>"]
    by (cases k) (auto simp: acq_inv_def after_stop_def)
qed (auto simp: acq_inv_def)


lemma inv_not_last:
  "acq_inv s \<Longrightarrow> Suc i < length (workers s) \<Longrightarrow> \<not> active (workers s ! i)"
  by (auto simp: acq_inv_def list_all_length nth_butlast)

lemma update_last:
  "Suc i = length ws \<Longrightarrow> ws[i := w] = butlast ws @ [w]"
  by (cases ws rule: rev_cases) auto

lemma update_not_last:
  "Suc i < length ws \<Longrightarrow> ws[i := w] = (butlast ws)[i := w] @ [last ws]"
  by (cases ws rule: rev_cases) (auto simp: list_update_append1)

lemma nth_last: "Suc i = length ws \<Longrightarrow> ws ! i = last ws"
  by (cases ws rule: rev_cases) auto

lemma wk_last_cases:
  assumes "i < length (workers s)"
  obtains (last) "Suc i = length (workers s)" | (old) "Suc i < length (workers s)"
  using assms by linarith

lemma set_worker_inv_old:
  assumes "acq_inv s" "Suc i < length (workers s)" "\<not> active w"
      and "threadModeChild t = threadModeChild s" "ctl t = ctl s"
      and "workers t = (workers s)[i := w]" "threadId t = None \<or> threadId t = threadId s"
  shows "acq_inv t"
  using assms update_not_last [of i "workers s" w]
  by (auto simp: acq_inv_def list_all_length nth_list_update)

lemma set_worker_inv_last:
  assumes "acq_inv s" "Suc i = length (workers s)"
      and "workers t = butlast (workers s) @ [w]"
      and "threadModeChild t \<noteq> STOP"
      and "w = WBegin \<Longrightarrow> ctl t = CStartWait \<and> threadModeChild t = NOT_RUNNING"
      and "w \<in> {WTest, WBody, WEnd} \<Longrightarrow> threadModeChild t = RUN"
      and "joining (ctl t) \<Longrightarrow> threadModeChild t = NOT_RUNNING"
      and "threadId t = None \<or> threadId t = threadId s"
  shows "acq_inv t"
  using assms by (auto simp: acq_inv_def)

lemma inv_last:
  assumes "acq_inv s" "Suc i = length (workers s)"
  shows "workers s ! i = WBegin \<Longrightarrow> ctl s = CStartWait \<and> threadModeChild s = NOT_RUNNING"
    and "workers s ! i \<in> {WTest, WBody, WEnd} \<Longrightarrow> threadModeChild s = RUN"
proof -
  have "workers s \<noteq> []" "workers s ! i = last (workers s)"
    using assms(2) nth_last [of i "workers s"] by auto
  then show "workers s ! i = WBegin \<Longrightarrow> ctl s = CStartWait \<and> threadModeChild s = NOT_RUNNING"
    and "workers s ! i \<in> {WTest, WBody, WEnd} \<Longrightarrow> threadModeChild s = RUN"
    using assms(1) unfolding acq_inv_def by simp_all
qed

lemma inv_child_not_stop: "acq_inv s \<Longrightarrow> threadModeChild s \<noteq> STOP"
  by (simp add: acq_inv_def)

lemma inv_ctl_join:
  "acq_inv s \<Longrightarrow> joining (ctl s) \<Longrightarrow> threadModeChild s = NOT_RUNNING"
  by (simp add: acq_inv_def)

lemma inv_last_running:
  assumes "acq_inv s" "Suc i = length (workers s)" "workers s ! i \<in> {WTest, WBody, WEnd}"
      and "w \<in> {WTest, WBody, WEnd}" "workers t = (workers s)[i := w]"
      and "threadModeChild t = threadModeChild s" "ctl t = ctl s" "threadId t = threadId s"
  shows "acq_inv t"
proof -
  have run: "threadModeChild s = RUN"
    using inv_last(2) [OF assms(1,2,3)] .
  have nj: "\<not> joining (ctl s)"
    using assms(1) run by (auto simp: acq_inv_def)
  show ?thesis
    by (rule set_worker_inv_last [where s = s and w = w and i = i])
       (use assms run nj in \<open>auto simp: update_last\<close>)
qed

lemma wk_step_inv: "wk_step i s t \<Longrightarrow> acq_inv s \<Longrightarrow> acq_inv t"
proof (induction rule: wk_step.induct)
  case (set_run i s)
  then show ?case
  proof (cases rule: wk_last_cases)
    case last
    have "ctl s = CStartWait"
      using set_run last inv_last(1) [of s i] by simp
    show ?thesis
      by (rule set_worker_inv_last [where s = s and w = WTest and i = i])
         (use set_run last \<open>ctl s = CStartWait\<close> in \<open>simp_all add: set_worker_def update_last\<close>)
  qed (use set_run inv_not_last [of s i] in \<open>simp add: active_def\<close>)
next
  case (test_run i s)
  then show ?case
  proof (cases rule: wk_last_cases)
    case last
    show ?thesis
      by (rule inv_last_running [where s = s and i = i and w = WBody])
         (use test_run last in \<open>simp_all add: set_worker_def\<close>)
  qed (use test_run inv_not_last [of s i] in \<open>simp add: active_def\<close>)
next
  case (test_exit i s)
  then show ?case
  proof (cases rule: wk_last_cases)
    case last
    show ?thesis
      by (rule inv_last_running [where s = s and i = i and w = WEnd])
         (use test_exit last in \<open>simp_all add: set_worker_def\<close>)
  qed (use test_exit inv_not_last [of s i] in \<open>simp add: active_def\<close>)
next
  case (body_ok i s)
  then show ?case
  proof (cases rule: wk_last_cases)
    case last
    show ?thesis
      by (rule inv_last_running [where s = s and i = i and w = WTest])
         (use body_ok last in \<open>simp_all add: set_worker_def\<close>)
  qed (use body_ok inv_not_last [of s i] in \<open>simp add: active_def\<close>)
next
  case (body_error i s)
  then show ?case
  proof (cases rule: wk_last_cases)
    case last
    show ?thesis
      by (rule inv_last_running [where s = s and i = i and w = WTest])
         (use body_error last in \<open>simp_all add: set_worker_def\<close>)
  qed (use body_error inv_not_last [of s i] in \<open>simp add: active_def\<close>)
next
  case (end_thread i s)
  then show ?case
  proof (cases rule: wk_last_cases)
    case last
    show ?thesis
      by (rule set_worker_inv_last [where s = s and w = WClear and i = i])
         (use end_thread last in \<open>simp_all add: set_worker_def update_last\<close>)
  qed (use end_thread inv_not_last [of s i] in \<open>simp add: active_def\<close>)
next
  case (clear_id i s)
  then show ?case
  proof (cases rule: wk_last_cases)
    case last
    show ?thesis
      by (rule set_worker_inv_last [where s = s and w = WDone and i = i])
         (use clear_id last inv_ctl_join [of s] inv_child_not_stop [of s] in \<open>simp_all add: set_worker_def update_last\<close>)
  next
    case old
    show ?thesis
      by (rule set_worker_inv_old [where s = s and i = i and w = WDone])
         (use clear_id old in \<open>simp_all add: set_worker_def active_def\<close>)
  qed
qed

lemma acq_inv_init: "acq_inv acq_init"
  by (simp add: acq_inv_def acq_init_def)

lemma acq_step_inv: "acq_step s t \<Longrightarrow> acq_inv s \<Longrightarrow> acq_inv t"
  by (induction rule: acq_step.induct) (auto intro: ctl_step_inv wk_step_inv)

lemma reachable_inv: "reachable s \<Longrightarrow> acq_inv s"
  by (induction rule: reachable.induct) (auto intro: acq_inv_init acq_step_inv)

section \<open>The scheduler is sound\<close>

lemma ctl_next_step: "ctl_next s = Some t \<Longrightarrow> ctl_step s t"
  by (auto simp: ctl_step.simps split: cpc.splits if_splits option.splits)

lemma wk_next_step: "wk_next err i s = Some t \<Longrightarrow> wk_step i s t"
  by (auto simp: wk_step.simps split: wpc.splits if_splits)

lemma event_step_sound: "event_step e s = Some t \<Longrightarrow> acq_step s t"
  by (cases e)
     (auto simp del: ctl_next.simps wk_next.simps split: if_splits
           intro: acq_step.intros ctl_step.intros ctl_next_step wk_next_step)

lemma run_reachable: "run s es = Some t \<Longrightarrow> reachable s \<Longrightarrow> reachable t"
proof (induction es arbitrary: s)
  case (Cons e es)
  then obtain u where u: "event_step e s = Some u" "run u es = Some t"
    by (auto split: option.splits)
  then have "reachable u"
    using Cons.prems(2) event_step_sound reachable.step by blast
  with u Cons.IH show ?case
    by blast
qed simp

lemma hung_no_step: "hung s \<Longrightarrow> \<not> acq_step s t"
  by (auto simp: hung_def list_all_length elim!: acq_step.cases ctl_step.cases wk_step.cases)

section \<open>Properties of the handshake\<close>

lemma inv_single_active:
  "acq_inv s \<Longrightarrow> length (filter active (workers s)) \<le> 1"
proof (cases "workers s" rule: rev_cases)
  case (snoc ws w)
  assume "acq_inv s"
  then have "list_all (\<lambda>w. \<not> active w) ws"
    using snoc by (simp add: acq_inv_def)
  then have "filter active ws = []"
    by (simp add: list_all_iff filter_empty_conv)
  with snoc show ?thesis
    by simp
qed simp

lemma inv_stop_quiet:
  "acq_inv s \<Longrightarrow> ctl s = CStopTest k \<or> joining (ctl s) \<Longrightarrow> threadModeChild s = NOT_RUNNING \<Longrightarrow>
   list_all (\<lambda>w. \<not> active w) (workers s)"
  by (rule inv_quiet) auto

lemma thread_mode_RUN: "m \<noteq> NOT_RUNNING \<Longrightarrow> m \<noteq> STOP \<Longrightarrow> m = RUN"
  by (cases m) auto

text \<open>
  C7.  In every reachable state at most one worker thread is inside its
  acquisition loop (between \<^verbatim>\<open>threadModeChild = RUN\<close> and
  \<^verbatim>\<open>threadModeChild = NOT_RUNNING\<close>): the handshake of
  \<^verbatim>\<open>startThread2\<close>/\<^verbatim>\<open>stopThread2\<close> never lets two acquisition loops run
  at once.
\<close>

lemma single_worker: "reachable s \<Longrightarrow> length (filter active (workers s)) \<le> 1"
  by (rule inv_single_active [OF reachable_inv])

lemma single_worker_witness:
  "reachable (the (run acq_init sched_start)) \<and>
   length (filter active (workers (the (run acq_init sched_start)))) \<le> 1"
proof -
  obtain s where s: "run acq_init sched_start = Some s"
    by (simp add: sched_defs)
  then have "reachable s"
    using run_reachable [OF _ reachable.init] by blast
  with s show ?thesis
    using single_worker [of s] by simp
qed

text \<open>
  C9.  When \<^verbatim>\<open>stopThread2\<close> returns to its caller (the early return on
  \<^verbatim>\<open>threadModeChild == NOT_RUNNING\<close>, or after the join and the reset of
  \<^verbatim>\<open>threadModeParent\<close>), no worker is inside its acquisition loop.
\<close>

lemma stop_returns_quiet:
  "reachable s \<Longrightarrow> ctl_step s t \<Longrightarrow> ctl s = CStopTest None \<or> ctl s = CStopReset None \<Longrightarrow> ctl t = CIdle \<Longrightarrow>
   list_all (\<lambda>w. \<not> active w) (workers t)"
proof -
  assume r: "reachable s" and st: "ctl_step s t" and c: "ctl s = CStopTest None \<or> ctl s = CStopReset None"
    and i: "ctl t = CIdle"
  have inv: "acq_inv s"
    using r by (rule reachable_inv)
  from st c i have "workers t = workers s \<and> threadModeChild s = NOT_RUNNING"
    using inv_ctl_join [OF inv]
    by (cases rule: ctl_step.cases) (auto simp: after_stop_def)
  then show ?thesis
    using inv_stop_quiet [OF inv] c by auto
qed

lemma stop_returns_quiet_witness:
  "list_all (\<lambda>w. \<not> active w)
     (workers (after_stop None ((the (run acq_init sched_stop))\<lparr>threadModeParent := NOT_RUNNING\<rparr>)))"
proof -
  obtain s where s: "run acq_init sched_stop = Some s" "ctl s = CStopReset None"
    by (simp add: sched_defs)
  then have "reachable s"
    using run_reachable [OF _ reachable.init] by blast
  moreover have "ctl_step s (after_stop None (s\<lparr>threadModeParent := NOT_RUNNING\<rparr>))"
    using s(2) by (rule ctl_step.stop_reset)
  ultimately have "list_all (\<lambda>w. \<not> active w) (workers (after_stop None (s\<lparr>threadModeParent := NOT_RUNNING\<rparr>)))"
    by (rule stop_returns_quiet) (simp_all add: s(2) after_stop_def)
  with s(1) show ?thesis
    by simp
qed

text \<open>
  C11.  When \<^verbatim>\<open>startThread2\<close> leaves its wait loop, the new worker has
  started: \<^verbatim>\<open>threadModeChild\<close> is \<^verbatim>\<open>RUN\<close> and the newest worker is past its
  first statement.
\<close>

lemma start_returns_running:
  "reachable s \<Longrightarrow> ctl s = CStartWait \<Longrightarrow> ctl_step s t \<Longrightarrow>
   ctl t = CIdle \<and> threadModeChild t = RUN \<and> workers t \<noteq> [] \<and> last (workers t) \<noteq> WBegin"
proof -
  assume r: "reachable s" and c: "ctl s = CStartWait" and st: "ctl_step s t"
  have inv: "acq_inv s"
    using r by (rule reachable_inv)
  from st c have t: "t = s\<lparr>ctl := CIdle\<rparr>" "threadModeChild s \<noteq> NOT_RUNNING"
    by (auto elim: ctl_step.cases)
  with inv c show ?thesis
    by (auto simp: acq_inv_def intro: thread_mode_RUN)
qed

lemma start_returns_running_witness:
  "threadModeChild (the (run acq_init sched_start)) = RUN"
proof -
  obtain s where s: "run acq_init (butlast sched_start) = Some s" "ctl s = CStartWait"
    "run acq_init sched_start = Some (s\<lparr>ctl := CIdle\<rparr>)" "threadModeChild s = RUN"
    by (simp add: sched_defs)
  then have "reachable s"
    using run_reachable [OF _ reachable.init] by blast
  moreover have "ctl_step s (s\<lparr>ctl := CIdle\<rparr>)"
    using s(2,4) by (intro ctl_step.started) simp_all
  ultimately show ?thesis
    using start_returns_running [of s "s\<lparr>ctl := CIdle\<rparr>"] s by simp
qed

text \<open>
  C8.  \<^verbatim>\<open>startThread2\<close> can hang forever: if the worker's first exchange
  fails (for instance because the port is not open) and the worker runs to
  its end before the controller polls \<^verbatim>\<open>threadModeChild\<close>, the controller
  waits in \<^verbatim>\<open>while(threadModeChild == NOT_RUNNING)\<close> and no thread can take
  another step.
\<close>

theorem startThread2_can_hang:
  "\<exists>s. reachable s \<and> ctl s = CStartWait \<and> (\<forall>t. \<not> acq_step s t)"
proof -
  obtain s where s: "run acq_init hang_schedule = Some s" "hung s"
    by (simp add: sched_defs hung_def)
  then show ?thesis
    using run_reachable [OF s(1) reachable.init] hung_no_step [OF s(2)] by (auto simp: hung_def)
qed

text \<open>
  C10.  \<^verbatim>\<open>stopThread2\<close> can call \<^verbatim>\<open>pthread_join\<close> on thread id 0: the
  worker's \<^verbatim>\<open>endThread\<close> sets \<^verbatim>\<open>threadId = 0\<close> right after
  \<^verbatim>\<open>threadModeChild = NOT_RUNNING\<close>, which is what the controller waits for
  before it reads \<^verbatim>\<open>threadId\<close>.
\<close>

theorem stopThread2_joins_cleared_id:
  "\<exists>s. reachable s \<and> bad_join s"
proof -
  obtain s where s: "run acq_init sched_bad_join = Some s" "bad_join s"
    by (simp add: sched_defs)
  then show ?thesis
    using run_reachable [OF s(1) reachable.init] by auto
qed

text \<open>
  C12.  A worker that stopped itself may still be in \<^verbatim>\<open>endThread\<close> when the
  next \<^verbatim>\<open>startThread2\<close> creates a new worker (the early return of
  \<^verbatim>\<open>stopThread2\<close> does not wait for it); its \<^verbatim>\<open>threadId = 0\<close> then
  erases the id of the running new worker.
\<close>

theorem stale_worker_clears_threadId:
  "\<exists>s. reachable s \<and> workers s = [WDone, WTest] \<and> threadId s = None"
proof -
  obtain s where s: "run acq_init sched_stale_clear = Some s" "workers s = [WDone, WTest] \<and> threadId s = None"
    by (simp add: sched_defs)
  then show ?thesis
    using run_reachable [OF s(1) reachable.init] by auto
qed

end
