(* ===== verification/BoxCar.thy ===== *)
theory BoxCar
  imports Codec
begin

unbundle bit_operations_syntax

text \<open>
  The colour path of src/KClmtr.cpp: the speed-mode and model multipliers
  (\<^verbatim>\<open>speedModeSamples\<close>, \<^verbatim>\<open>speedModeMultiplier\<close>, \<^verbatim>\<open>modelSensitivity\<close>,
  \<^verbatim>\<open>modelSensitivityMultiplier\<close>, \<^verbatim>\<open>multiplierForAveraging\<close>, lines 685-720),
  the box-car averager \<^verbatim>\<open>boxCarAvg\<close> (721-812) over the three averaging arrays
  \<^verbatim>\<open>m_AvgX/m_AvgY/m_AvgZ\<close> used as a ring indexed by
  \<^verbatim>\<open>m_AvgLast % m_MaxAvgNumber\<close>, and the frame decoder \<^verbatim>\<open>parseAndPrintXYZ\<close>
  (813-906) with its noise check and \<^verbatim>\<open>correctXYZCalFile\<close> (626-644).
  The averaging loop is a \<^theory_text>\<open>function\<close> whose measure is the number of
  samples the ring still holds; its body \<open>bc_body\<close> returns \<open>Inl\<close> for the
  loop's two \<^verbatim>\<open>break\<close>s and \<open>Inr\<close> to continue.  The abstract specification
  \<open>boxcar_spec\<close> runs the same body over the list of past samples, newest
  first; the refinement lemma shows that the ring holds exactly that list.
  \<^verbatim>\<open>Measurement::fromXYZ\<close> has no implementation in the repository: the model
  stops at the arguments \<^verbatim>\<open>parseAndPrintXYZ\<close> passes to it and the fields it
  sets afterwards.
\<close>

section \<open>Speed mode and model sensitivity\<close>

datatype SpeedMode = SPEEDMODE_SLOWEST | SPEEDMODE_SLOW | SPEEDMODE_NORMAL | SPEEDMODE_FAST

definition speedModeMultiplier :: "SpeedMode \<Rightarrow> real" where
  "speedModeMultiplier m =
     (case m of SPEEDMODE_SLOWEST \<Rightarrow> 1 / 4 | SPEEDMODE_SLOW \<Rightarrow> 1 / 2 | SPEEDMODE_FAST \<Rightarrow> 2
              | SPEEDMODE_NORMAL \<Rightarrow> 1)"

definition speedModeSamples :: "SpeedMode \<Rightarrow> real" where
  "speedModeSamples m = 1 / speedModeMultiplier m * 32"

definition modelSensitivity :: "string \<Rightarrow> real" where
  "modelSensitivity model =
     (if model = ''K-1'' then 30
      else if model = ''K-10-A'' \<or> model = ''K-10A'' then 3
      else if model = ''K-8'' then 1 / 8
      else if model = ''K-80'' then 2
      else 1)"

definition modelSensitivityMultiplier :: "string \<Rightarrow> real" where
  "modelSensitivityMultiplier model = 1 / modelSensitivity model"

definition multiplierForAveraging :: "string \<Rightarrow> SpeedMode \<Rightarrow> real" where
  "multiplierForAveraging model speed = modelSensitivityMultiplier model * speedModeMultiplier speed"

section \<open>The averaging ring\<close>

text \<open>
  The three arrays of \<^verbatim>\<open>m_MaxAvgNumber\<close> doubles and the sample counter
  \<^verbatim>\<open>m_AvgLast\<close> (an \<^verbatim>\<open>int\<close>, modelled unbounded: it counts the samples since
  the last reset).
\<close>

record avg_ring =
  AvgX :: "real list"
  AvgY :: "real list"
  AvgZ :: "real list"
  AvgLast :: int
  MaxAvgNumber :: int

text \<open>The variables of the averaging loop other than \<^verbatim>\<open>avgLastI\<close>.\<close>

record bc_loop =
  avgNumber :: int
  bc_data :: "real list"
  bc_minMax :: "(real \<times> real) list"
  thresholdMet :: bool
  bc_error :: errmask

definition ring_read :: "avg_ring \<Rightarrow> int \<Rightarrow> real list" where
  "ring_read r i = (let k = nat (i mod MaxAvgNumber r) in [AvgX r ! k, AvgY r ! k, AvgZ r ! k])"

definition ring_write :: "avg_ring \<Rightarrow> real list \<Rightarrow> avg_ring" where
  "ring_write r d =
     (let k = nat (AvgLast r mod MaxAvgNumber r)
      in r\<lparr>AvgX := (AvgX r)[k := d ! 0], AvgY := (AvgY r)[k := d ! 1], AvgZ := (AvgZ r)[k := d ! 2]\<rparr>)"

definition min_max_update :: "real \<times> real \<Rightarrow> real \<Rightarrow> real \<times> real" where
  "min_max_update mm t = ((if t < fst mm then t else fst mm), (if snd mm < t then t else snd mm))"

text \<open>One iteration of the averaging loop on the sample \<open>tempData\<close>.\<close>

definition bc_body :: "bool \<Rightarrow> real \<Rightarrow> real list \<Rightarrow> bc_loop \<Rightarrow> bc_loop + bc_loop" where
  "bc_body autoAvg mult tempData l =
     (let runningSum = sum_list (bc_data l) / of_int (avgNumber l - 1)
      in if avgNumber l \<noteq> 1 \<and> c_div_gt \<bar>runningSum - sum_list tempData\<bar> (runningSum + 1) (3 / 100)
         then Inl (l\<lparr>bc_error := bc_error l OR AVERAGING_LOW_LIGHT\<rparr>)
         else
           (let data = map2 (+) (bc_data l) tempData;
                l = l\<lparr>bc_data := data, bc_minMax := map2 min_max_update (bc_minMax l) tempData\<rparr>;
                threshold = of_int (avgNumber l) * 3 * 16 / (of_int (avgNumber l) + 1) * mult
            in if autoAvg \<and> threshold < sum_list data
               then Inl (l\<lparr>thresholdMet := True, avgNumber := avgNumber l + 1\<rparr>)
               else Inr (l\<lparr>avgNumber := avgNumber l + 1\<rparr>)))"

function boxCarAvg_loop :: "avg_ring \<Rightarrow> bool \<Rightarrow> real \<Rightarrow> int \<Rightarrow> bc_loop \<Rightarrow> bc_loop" where
  "boxCarAvg_loop r autoAvg mult avgLastI l =
     (if avgNumber l \<le> MaxAvgNumber r \<and> 0 \<le> avgLastI then
        (case bc_body autoAvg mult (ring_read r avgLastI) l of
           Inl l' \<Rightarrow> l'
         | Inr l' \<Rightarrow> boxCarAvg_loop r autoAvg mult (avgLastI - 1) l')
      else l)"
  by pat_completeness auto
termination
  by (relation "measure (\<lambda>(r, a, m, i, l). nat (MaxAvgNumber r + 1 - avgNumber l))")
     (auto simp: bc_body_def Let_def split: if_splits)

declare boxCarAvg_loop.simps [simp del]

definition bc_init :: "errmask \<Rightarrow> bc_loop" where
  "bc_init error = \<lparr>avgNumber = 1, bc_data = [0, 0, 0], bc_minMax = replicate 3 (10000, -10000),
                     thresholdMet = False, bc_error = error\<rparr>"

text \<open>After the loop: step back one, divide, and flag low light unless a stop condition was met.\<close>

definition bc_finish :: "int \<Rightarrow> bc_loop \<Rightarrow> real list \<times> (real \<times> real) list \<times> int \<times> errmask" where
  "bc_finish maxAvg l =
     (let avgNumber = avgNumber l - 1
      in (map (\<lambda>x. x / of_int avgNumber) (bc_data l), bc_minMax l, avgNumber,
          if \<not> (thresholdMet l \<or> avgNumber = maxAvg) then bc_error l OR AVERAGING_LOW_LIGHT else bc_error l))"

definition boxCarAvg ::
  "avg_ring \<Rightarrow> string \<Rightarrow> SpeedMode \<Rightarrow> real list \<Rightarrow> bool \<Rightarrow> errmask \<Rightarrow>
   avg_ring \<times> real list \<times> (real \<times> real) list \<times> int \<times> errmask" where
  "boxCarAvg r model speed data autoAvg error =
     (let r = ring_write r data;
          l = boxCarAvg_loop r autoAvg (multiplierForAveraging model speed) (AvgLast r) (bc_init error)
      in (r, bc_finish (MaxAvgNumber r) l))"

section \<open>Decoding a colour frame\<close>

text \<open>
  The members of \<^verbatim>\<open>KClmtr\<close> that \<^verbatim>\<open>parseAndPrintXYZ\<close> reads besides the ring:
  the model name, the speed mode, the zero-noise switch and the loaded
  calibration file (its id and its 3x3 matrix \<^verbatim>\<open>m_CalMatrix.v\<close>).
\<close>

record xyz_cfg =
  m_Model :: string
  m_speedMode :: SpeedMode
  m_ZeroNoise :: bool
  m_CalFileID :: int
  m_CalMatrix :: "real list list"

definition correctXYZCalFile :: "xyz_cfg \<Rightarrow> real list \<Rightarrow> real list" where
  "correctXYZCalFile c d =
     (if m_CalFileID c \<noteq> 0 then
        (let v = m_CalMatrix c
         in [d ! 0 * v ! 0 ! 0 + d ! 1 * v ! 0 ! 1 + d ! 2 * v ! 0 ! 2,
             d ! 0 * v ! 1 ! 0 + d ! 1 * v ! 1 ! 1 + d ! 2 * v ! 1 ! 2,
             d ! 0 * v ! 2 ! 0 + d ! 1 * v ! 2 ! 1 + d ! 2 * v ! 2 ! 2])
      else d)"

text \<open>The negative-value threshold of channel \<open>i\<close> after averaging \<open>avgNum\<close> readings.\<close>

definition noise_threshold :: "xyz_cfg \<Rightarrow> int \<Rightarrow> nat \<Rightarrow> real" where
  "noise_threshold c avgNum i =
     (let samples = speedModeSamples (m_speedMode c) * of_int avgNum;
          samples = (if 512 < samples then 512 else samples);
          muiti = modelSensitivityMultiplier (m_Model c) * 1 / sqrt (samples / 32);
          muiti = (if i \<noteq> 1 then muiti * 3 else muiti)
      in - (2 / 100) * muiti)"

definition noise_step :: "xyz_cfg \<Rightarrow> int \<Rightarrow> real list \<times> errmask \<Rightarrow> nat \<Rightarrow> real list \<times> errmask" where
  "noise_step c avgNum de i =
     (let (data, error) = de; theshold = noise_threshold c avgNum i
      in if m_ZeroNoise c \<and> data ! i < 0 \<and> theshold < data ! i then (data[i := 0], error)
         else if data ! i \<le> theshold then (data, error OR NEGATIVE_VALUES)
         else (data, error))"

definition noise_check :: "xyz_cfg \<Rightarrow> int \<Rightarrow> real list \<Rightarrow> errmask \<Rightarrow> real list \<times> errmask" where
  "noise_check c avgNum data error = foldl (noise_step c avgNum) (data, error) [0, 1, 2]"

text \<open>
  What \<^verbatim>\<open>parseAndPrintXYZ\<close> determines of the returned \<^verbatim>\<open>Measurement\<close>: the
  corrected XYZ and the error passed to \<^verbatim>\<open>Measurement::fromXYZ\<close>, and the
  ranges, raw values, averaging count and min/max set afterwards.
\<close>

record xyz_result =
  fromXYZ_args :: "real list"
  xyz_errorcode :: errmask
  xyz_ranges :: "int list"
  xyz_raw :: "real list"
  averagingby :: int
  xyz_minMax :: "(real \<times> real) list"

definition parseAndPrintXYZ :: "xyz_cfg \<Rightarrow> avg_ring \<Rightarrow> string \<Rightarrow> bool \<Rightarrow> avg_ring \<times> xyz_result" where
  "parseAndPrintXYZ c r ReadString autoAvg =
     (let data = [parseK_float (substr ReadString 2 3), parseK_float (substr ReadString 5 3),
                  parseK_float (substr ReadString 8 3)];
          ranges = parsingRange (of_nat (byte_at (substr ReadString 11 1) 0));
          error = getErrorCodeFromKlein (substr ReadString 13 1);
          (r, data, minMax, avgNum, error) = boxCarAvg r (m_Model c) (m_speedMode c) data autoAvg error;
          r = r\<lparr>AvgLast := AvgLast r + 1\<rparr>;
          (data, error) = noise_check c avgNum data error
      in (r, \<lparr>fromXYZ_args = correctXYZCalFile c data, xyz_errorcode = error, xyz_ranges = ranges,
              xyz_raw = data, averagingby = avgNum, xyz_minMax = minMax\<rparr>))"

text \<open>
  The constructor's colour settings (\<^verbatim>\<open>KClmtr()\<close>: no model yet, normal
  speed, no zero-noise, factory calibration with a zero 3x3 matrix), and the
  ring \<^verbatim>\<open>startMeasuring\<close> allocates (\<^verbatim>\<open>new double[m_MaxAvgNumber]\<close>, whose
  contents C leaves unspecified; the model fills them with 0, and no lemma
  depends on them).
\<close>

definition xyz_cfg_init :: xyz_cfg where
  "xyz_cfg_init = \<lparr>m_Model = '''', m_speedMode = SPEEDMODE_NORMAL, m_ZeroNoise = False, m_CalFileID = 0,
                     m_CalMatrix = replicate 3 (replicate 3 0)\<rparr>"

definition ring_alloc :: "int \<Rightarrow> avg_ring" where
  "ring_alloc maxAvg = \<lparr>AvgX = replicate (nat maxAvg) 0, AvgY = replicate (nat maxAvg) 0,
                         AvgZ = replicate (nat maxAvg) 0, AvgLast = 0, MaxAvgNumber = maxAvg\<rparr>"

text \<open>The sample frame of the comment in \<^verbatim>\<open>parseAndPrintXYZ\<close> (line 820).\<close>

definition n5_frame :: string where
  "n5_frame = map char_of [78, 53, 93, 90, 7, 102, 173, 7, 77, 42, 7, 128, 60, 48, 62 :: nat]"

section \<open>Specification: averaging over the sample history\<close>

fun avg_spec_loop :: "bool \<Rightarrow> real \<Rightarrow> real list list \<Rightarrow> bc_loop \<Rightarrow> bc_loop" where
  "avg_spec_loop autoAvg mult [] l = l"
| "avg_spec_loop autoAvg mult (t # ts) l =
     (case bc_body autoAvg mult t l of Inl l' \<Rightarrow> l' | Inr l' \<Rightarrow> avg_spec_loop autoAvg mult ts l')"

text \<open>The average over the newest \<open>maxAvg\<close> samples of \<open>hist\<close> (newest first).\<close>

definition boxcar_spec ::
  "int \<Rightarrow> real list list \<Rightarrow> bool \<Rightarrow> real \<Rightarrow> errmask \<Rightarrow> real list \<times> (real \<times> real) list \<times> int \<times> errmask" where
  "boxcar_spec maxAvg hist autoAvg mult error =
     bc_finish maxAvg (avg_spec_loop autoAvg mult (take (nat maxAvg) hist) (bc_init error))"

text \<open>The ring holds the newest \<open>m_MaxAvgNumber\<close> samples of \<open>hist\<close>.\<close>

definition ring_inv :: "avg_ring \<Rightarrow> real list list \<Rightarrow> bool" where
  "ring_inv r hist \<longleftrightarrow>
     1 \<le> MaxAvgNumber r \<and> AvgLast r = int (length hist) \<and>
     length (AvgX r) = nat (MaxAvgNumber r) \<and> length (AvgY r) = nat (MaxAvgNumber r) \<and>
     length (AvgZ r) = nat (MaxAvgNumber r) \<and>
     (\<forall>j < min (nat (MaxAvgNumber r)) (length hist). ring_read r (AvgLast r - 1 - int j) = hist ! j)"

text \<open>A two-slot ring holding one sample, used by the witnesses.\<close>

definition ring2 :: avg_ring where
  "ring2 = \<lparr>AvgX = [1, 0], AvgY = [1, 0], AvgZ = [1, 0], AvgLast = 1, MaxAvgNumber = 2\<rparr>"

section \<open>The ring refines the history\<close>

lemma bc_body_Inr: "bc_body a m t l = Inr l' \<Longrightarrow> avgNumber l' = avgNumber l + 1"
  by (auto simp: bc_body_def Let_def split: if_splits)

lemma boxCarAvg_loop_refines:
  "length ts = min (nat (MaxAvgNumber r + 1 - avgNumber l)) (nat (i + 1)) \<Longrightarrow>
   (\<forall>j < length ts. ring_read r (i - int j) = ts ! j) \<Longrightarrow>
   boxCarAvg_loop r a m i l = avg_spec_loop a m ts l"
proof (induction r a m i l arbitrary: ts rule: boxCarAvg_loop.induct)
  case (1 r a m i l)
  show ?case
  proof (cases "avgNumber l \<le> MaxAvgNumber r \<and> 0 \<le> i")
    case False
    with "1.prems"(1) have "ts = []"
      by auto
    then show ?thesis
      by (subst boxCarAvg_loop.simps) (simp only: if_not_P [OF False] avg_spec_loop.simps(1))
  next
    case True
    with "1.prems"(1) obtain t ts' where ts: "ts = t # ts'"
      by (cases ts) auto
    have t: "ring_read r i = t"
      using "1.prems"(2) ts by (auto dest: spec [of _ 0])
    show ?thesis
    proof (cases "bc_body a m (ring_read r i) l")
      case (Inl l')
      with True ts t show ?thesis
        by (simp add: boxCarAvg_loop.simps)
    next
      case (Inr l')
      have n: "avgNumber l' = avgNumber l + 1"
        using Inr by (rule bc_body_Inr)
      have "boxCarAvg_loop r a m (i - 1) l' = avg_spec_loop a m ts' l'"
      proof (rule "1.IH" [OF True Inr])
        show "length ts' = min (nat (MaxAvgNumber r + 1 - avgNumber l')) (nat (i - 1 + 1))"
          using "1.prems"(1) ts n True by auto
        show "\<forall>j < length ts'. ring_read r (i - 1 - int j) = ts' ! j"
        proof (intro allI impI)
          fix j assume "j < length ts'"
          then have "Suc j < length ts"
            using ts by simp
          then have "ring_read r (i - int (Suc j)) = ts ! Suc j"
            using "1.prems"(2) by blast
          then show "ring_read r (i - 1 - int j) = ts' ! j"
            using ts by (simp add: algebra_simps)
        qed
      qed
      with True ts t Inr show ?thesis
        by (simp add: boxCarAvg_loop.simps)
    qed
  qed
qed

lemma list3_eq: "length d = 3 \<Longrightarrow> [d ! 0, d ! Suc 0, d ! 2] = d"
  by (cases d; cases "tl d"; cases "tl (tl d)") auto

lemma mod_shift_ne:
  fixes L M :: int
  assumes "0 < j" "j < M"
  shows "(L - j) mod M \<noteq> L mod M"
proof
  assume "(L - j) mod M = L mod M"
  then have "M dvd (L - j) - L"
    by (simp add: mod_eq_dvd_iff)
  then have "M dvd j"
    by simp
  with assms show False
    using zdvd_imp_le by fastforce
qed

lemma ring_write_read:
  assumes inv: "ring_inv r hist" and d: "length d = 3"
    and j: "j < min (nat (MaxAvgNumber r)) (length hist + 1)"
  shows "ring_read (ring_write r d) (AvgLast r - int j) = (d # hist) ! j"
proof -
  let ?M = "MaxAvgNumber r" and ?L = "AvgLast r"
  have M: "1 \<le> ?M" and len: "length (AvgX r) = nat ?M" "length (AvgY r) = nat ?M" "length (AvgZ r) = nat ?M"
    using inv by (auto simp: ring_inv_def)
  have k: "nat (?L mod ?M) < nat ?M"
    using M by (simp add: nat_less_iff)
  show ?thesis
  proof (cases j)
    case 0
    with k len d show ?thesis
      by (simp add: ring_read_def ring_write_def Let_def list3_eq)
  next
    case (Suc j')
    have jM: "int j < ?M"
      using j by (simp add: zless_nat_eq_int_zless)
    have "(?L - int j) mod ?M \<noteq> ?L mod ?M"
      by (rule mod_shift_ne) (use Suc jM in auto)
    then have ne: "nat ((?L - int j) mod ?M) \<noteq> nat (?L mod ?M)"
      using M by (simp add: eq_nat_nat_iff)
    have "ring_read r (?L - 1 - int j') = hist ! j'"
      using inv j Suc by (auto simp: ring_inv_def)
    with ne Suc show ?thesis
      by (simp add: ring_read_def ring_write_def Let_def algebra_simps)
  qed
qed

lemma ring_read_AvgLast [simp]: "ring_read (r\<lparr>AvgLast := x\<rparr>) i = ring_read r i"
  by (simp add: ring_read_def)

lemma ring_write_fields [simp]:
  "AvgLast (ring_write r d) = AvgLast r" "MaxAvgNumber (ring_write r d) = MaxAvgNumber r"
  "length (AvgX (ring_write r d)) = length (AvgX r)" "length (AvgY (ring_write r d)) = length (AvgY r)"
  "length (AvgZ (ring_write r d)) = length (AvgZ r)"
  by (simp_all add: ring_write_def Let_def)

lemma boxCarAvg_loop_history:
  assumes "ring_inv r hist" "length d = 3" and that: "avgNumber l = 1"
  shows "boxCarAvg_loop (ring_write r d) a m (AvgLast r) l =
         avg_spec_loop a m (take (nat (MaxAvgNumber r)) (d # hist)) l"
proof (rule boxCarAvg_loop_refines)
  show "length (take (nat (MaxAvgNumber r)) (d # hist)) =
        min (nat (MaxAvgNumber (ring_write r d) + 1 - avgNumber l)) (nat (AvgLast r + 1))"
    using assms(1) that by (simp add: ring_inv_def nat_int_add)
  show "\<forall>j < length (take (nat (MaxAvgNumber r)) (d # hist)).
          ring_read (ring_write r d) (AvgLast r - int j) = take (nat (MaxAvgNumber r)) (d # hist) ! j"
    using ring_write_read [OF assms(1,2)] by simp
qed

lemma boxCarAvg_output:
  "ring_inv r hist \<Longrightarrow> length d = 3 \<Longrightarrow>
   snd (boxCarAvg r model speed d autoAvg e) =
   boxcar_spec (MaxAvgNumber r) (d # hist) autoAvg (multiplierForAveraging model speed) e"
  by (simp add: boxCarAvg_def boxcar_spec_def Let_def boxCarAvg_loop_history bc_init_def)

lemma ring_inv_push:
  assumes "ring_inv r hist" "length d = 3"
  shows "ring_inv ((ring_write r d)\<lparr>AvgLast := AvgLast r + 1\<rparr>) (d # hist)"
proof -
  have "ring_read (ring_write r d) (AvgLast r + 1 - 1 - int j) = (d # hist) ! j"
    if "j < min (nat (MaxAvgNumber r)) (length (d # hist))" for j
    using ring_write_read [OF assms, of j] that by simp
  with assms show ?thesis
    by (simp add: ring_inv_def)
qed

lemma bc_body_Inl:
  "bc_body a m t l = Inl l' \<Longrightarrow>
   avgNumber l \<le> avgNumber l' \<and> avgNumber l' \<le> avgNumber l + 1 \<and> (avgNumber l = 1 \<longrightarrow> avgNumber l' = 2)"
  by (auto simp: bc_body_def Let_def split: if_splits)

lemma avg_spec_loop_count:
  "avgNumber l \<le> avgNumber (avg_spec_loop a m ts l) \<and>
   avgNumber (avg_spec_loop a m ts l) \<le> avgNumber l + int (length ts)"
proof (induction ts arbitrary: l)
  case (Cons t ts)
  show ?case
  proof (cases "bc_body a m t l")
    case (Inl l')
    then show ?thesis
      using bc_body_Inl [OF Inl] by simp
  next
    case (Inr l')
    then show ?thesis
      using bc_body_Inr [OF Inr] Cons.IH [of l'] by simp
  qed
qed simp

lemma avg_spec_loop_first:
  "avgNumber l = 1 \<Longrightarrow> ts \<noteq> [] \<Longrightarrow> 2 \<le> avgNumber (avg_spec_loop a m ts l)"
proof (cases ts)
  case (Cons t ts')
  assume "avgNumber l = 1"
  show ?thesis
  proof (cases "bc_body a m t l")
    case (Inl l')
    then show ?thesis
      using bc_body_Inl [OF Inl] \<open>avgNumber l = 1\<close> Cons by simp
  next
    case (Inr l')
    then show ?thesis
      using bc_body_Inr [OF Inr] avg_spec_loop_count [of l' a m ts'] \<open>avgNumber l = 1\<close> Cons by simp
  qed
qed simp

lemma boxcar_spec_count:
  assumes "1 \<le> maxAvg"
  shows "case boxcar_spec maxAvg (d # hist) a m e of (data, mm, n, err) \<Rightarrow>
           1 \<le> n \<and> n \<le> min maxAvg (int (length hist) + 1)"
proof -
  let ?ts = "take (nat maxAvg) (d # hist)"
  have ne: "?ts \<noteq> []"
    using assms by simp
  have "2 \<le> avgNumber (avg_spec_loop a m ?ts (bc_init e))"
    using avg_spec_loop_first [OF _ ne] by (simp add: bc_init_def)
  moreover have "avgNumber (avg_spec_loop a m ?ts (bc_init e)) \<le> 1 + int (length ?ts)"
    using avg_spec_loop_count [of "bc_init e" a m ?ts] by (simp add: bc_init_def)
  ultimately show ?thesis
    using assms by (auto simp: boxcar_spec_def bc_finish_def Let_def)
qed

lemma map2_map_same: "map2 f (map g xs) xs = map (\<lambda>x. f (g x) x) xs"
  by (induction xs) auto

text \<open>One iteration on a sample equal to the running mean: no divergence, no threshold.\<close>

lemma bc_body_const:
  assumes "1 \<le> avgNumber l" "bc_data l = map (\<lambda>x. of_int (avgNumber l - 1) * x) d"
  shows "bc_body False m d l =
         Inr (l\<lparr>bc_data := map (\<lambda>x. of_int (avgNumber l) * x) d,
                bc_minMax := map2 min_max_update (bc_minMax l) d, avgNumber := avgNumber l + 1\<rparr>)"
proof -
  have "avgNumber l \<noteq> 1 \<Longrightarrow> sum_list (bc_data l) / of_int (avgNumber l - 1) = sum_list d"
    using assms by (simp add: sum_list_const_mult)
  moreover have "map (\<lambda>x. of_int (avgNumber l - 1) * x + x) d = map (\<lambda>x. of_int (avgNumber l) * x) d"
    by (simp add: algebra_simps)
  ultimately show ?thesis
    using assms by (auto simp: bc_body_def Let_def map2_map_same)
qed

lemma avg_spec_const:
  assumes "1 \<le> avgNumber l" "bc_data l = map (\<lambda>x. of_int (avgNumber l - 1) * x) d"
  shows "\<exists>l'. (\<forall>ys. avg_spec_loop False m (replicate k d @ ys) l = avg_spec_loop False m ys l') \<and>
              avgNumber l' = avgNumber l + int k \<and>
              bc_data l' = map (\<lambda>x. of_int (avgNumber l' - 1) * x) d \<and>
              thresholdMet l' = thresholdMet l \<and> bc_error l' = bc_error l"
  using assms
proof (induction k arbitrary: l)
  case (Suc k)
  let ?l1 = "l\<lparr>bc_data := map (\<lambda>x. of_int (avgNumber l) * x) d,
                bc_minMax := map2 min_max_update (bc_minMax l) d, avgNumber := avgNumber l + 1\<rparr>"
  have "1 \<le> avgNumber ?l1" "bc_data ?l1 = map (\<lambda>x. of_int (avgNumber ?l1 - 1) * x) d"
    using Suc.prems by simp_all
  then obtain l' where "\<forall>ys. avg_spec_loop False m (replicate k d @ ys) ?l1 = avg_spec_loop False m ys l'"
    "avgNumber l' = avgNumber ?l1 + int k" "bc_data l' = map (\<lambda>x. of_int (avgNumber l' - 1) * x) d"
    "thresholdMet l' = thresholdMet ?l1" "bc_error l' = bc_error ?l1"
    using Suc.IH by blast
  then show ?case
    using bc_body_const [OF Suc.prems] by (intro exI [of _ l']) auto
qed auto

lemma bc_init_const: "length d = 3 \<Longrightarrow> bc_data (bc_init e) = map (\<lambda>x. of_int (avgNumber (bc_init e) - 1) * x) d"
  by (cases d; cases "tl d"; cases "tl (tl d)") (auto simp: bc_init_def)

lemma take_window:
  "1 \<le> maxAvg \<Longrightarrow> take (nat maxAvg) (d # hist) = d # take (nat maxAvg - 1) hist"
  by (cases "nat maxAvg") auto

lemma bc_body_diverge:
  assumes "2 \<le> avgNumber l" "bc_data l = map (\<lambda>x. of_int (avgNumber l - 1) * x) d"
    and "c_div_gt \<bar>sum_list d - sum_list h\<bar> (sum_list d + 1) (3 / 100)"
  shows "bc_body a m h l = Inl (l\<lparr>bc_error := bc_error l OR AVERAGING_LOW_LIGHT\<rparr>)"
proof -
  have "sum_list (bc_data l) / of_int (avgNumber l - 1) = sum_list d"
    using assms(1,2) by (simp add: sum_list_const_mult)
  with assms show ?thesis
    by (simp add: bc_body_def Let_def)
qed

lemma mean_of_copies: "0 < k \<Longrightarrow> map (\<lambda>x. x / of_int k) (map (\<lambda>x. of_int k * x) d) = (d :: real list)"
  by (induction d) auto

text \<open>
  C19.  Box-car averaging of a constant signal without auto mode returns the
  signal itself, averaged over all the samples the ring holds (up to
  \<^verbatim>\<open>m_MaxAvgNumber\<close>), and flags \<^verbatim>\<open>AVERAGING_LOW_LIGHT\<close> exactly while
  the ring is not yet full.
\<close>

theorem boxCarAvg_constant:
  assumes inv: "ring_inv r hist" and d: "length d = 3"
    and same: "set (take (nat (MaxAvgNumber r) - 1) hist) \<subseteq> {d}"
  shows "case snd (boxCarAvg r model speed d False e) of (data', mm, n, e') \<Rightarrow>
           data' = d \<and> n = min (MaxAvgNumber r) (int (length hist) + 1) \<and>
           e' = (if n = MaxAvgNumber r then e else e OR AVERAGING_LOW_LIGHT)"
proof -
  let ?M = "MaxAvgNumber r"
  let ?w = "take (nat ?M) (d # hist)"
  have M: "1 \<le> ?M"
    using inv by (simp add: ring_inv_def)
  have w: "?w = replicate (length ?w) d"
    using same by (intro replicate_eqI) (auto simp: take_window [OF M])
  have lw: "int (length ?w) = min ?M (int (length hist) + 1)"
    using M by auto
  have i: "1 \<le> avgNumber (bc_init e)"
    by (simp add: bc_init_def)
  obtain l' where l': "\<forall>ys. avg_spec_loop False (multiplierForAveraging model speed) (replicate (length ?w) d @ ys)
                             (bc_init e) = avg_spec_loop False (multiplierForAveraging model speed) ys l'"
    "avgNumber l' = avgNumber (bc_init e) + int (length ?w)" "bc_data l' = map (\<lambda>x. of_int (avgNumber l' - 1) * x) d"
    "thresholdMet l' = thresholdMet (bc_init e)" "bc_error l' = bc_error (bc_init e)"
    using avg_spec_const [OF i bc_init_const [OF d]] by blast
  have "avg_spec_loop False (multiplierForAveraging model speed) ?w (bc_init e) = l'"
    using spec [OF l'(1), of "[]"] w by simp
  then have "snd (boxCarAvg r model speed d False e) = bc_finish ?M l'"
    using boxCarAvg_output [OF inv d, of model speed False e] by (simp add: boxcar_spec_def)
  moreover have "map (\<lambda>x. x / of_int (avgNumber l' - 1)) (bc_data l') = d"
  proof -
    have "0 < avgNumber l' - 1"
      using l'(2) M by (simp add: bc_init_def)
    then show ?thesis
      unfolding l'(3) by (rule mean_of_copies)
  qed
  ultimately have "snd (boxCarAvg r model speed d False e) =
    (d, bc_minMax l', avgNumber l' - 1,
     if \<not> (thresholdMet l' \<or> avgNumber l' - 1 = ?M) then bc_error l' OR AVERAGING_LOW_LIGHT else bc_error l')"
    unfolding bc_finish_def Let_def by simp
  then show ?thesis
    using l'(2,4,5) lw by (simp add: bc_init_def)
qed

text \<open>
  C20.  When the newest \<open>k + 1\<close> samples are equal and the next older one
  differs from their mean by more than 3% (relative to the mean + 1), the
  average stops after those \<open>k + 1\<close> samples, before the window is used
  up, and \<^verbatim>\<open>AVERAGING_LOW_LIGHT\<close> is set.
\<close>

theorem boxCarAvg_diverge:
  assumes inv: "ring_inv r hist" and d: "length d = 3"
    and hist: "hist = replicate k d @ h # rest" and k: "int k + 1 < MaxAvgNumber r"
    and div: "c_div_gt \<bar>sum_list d - sum_list h\<bar> (sum_list d + 1) (3 / 100)"
  shows "case snd (boxCarAvg r model speed d False e) of (data', mm, n, e') \<Rightarrow>
           data' = d \<and> n = int k + 1 \<and> n < MaxAvgNumber r \<and> e' = e OR AVERAGING_LOW_LIGHT"
proof -
  let ?M = "MaxAvgNumber r" and ?m = "multiplierForAveraging model speed"
  let ?rest = "take (nat ?M - Suc (Suc k)) rest"
  have w: "take (nat ?M) (d # hist) = replicate (Suc k) d @ h # ?rest"
  proof -
    have "Suc k < nat ?M"
      using k by linarith
    then show ?thesis
      using hist by (simp add: take_Cons' take_append Suc_diff_Suc)
  qed
  have i: "1 \<le> avgNumber (bc_init e)"
    by (simp add: bc_init_def)
  obtain l' where l': "\<forall>ys. avg_spec_loop False ?m (replicate (Suc k) d @ ys) (bc_init e) = avg_spec_loop False ?m ys l'"
    "avgNumber l' = avgNumber (bc_init e) + int (Suc k)" "bc_data l' = map (\<lambda>x. of_int (avgNumber l' - 1) * x) d"
    "thresholdMet l' = thresholdMet (bc_init e)" "bc_error l' = bc_error (bc_init e)"
    using avg_spec_const [OF i bc_init_const [OF d]] by blast
  have two: "2 \<le> avgNumber l'"
    using l'(2) by (simp add: bc_init_def)
  have "avg_spec_loop False ?m (take (nat ?M) (d # hist)) (bc_init e) =
        l'\<lparr>bc_error := bc_error l' OR AVERAGING_LOW_LIGHT\<rparr>"
    using spec [OF l'(1), of "h # ?rest"] bc_body_diverge [OF two l'(3) div] w by simp
  then have "snd (boxCarAvg r model speed d False e) = bc_finish ?M (l'\<lparr>bc_error := bc_error l' OR AVERAGING_LOW_LIGHT\<rparr>)"
    using boxCarAvg_output [OF inv d, of model speed False e] by (simp add: boxcar_spec_def)
  moreover have "map (\<lambda>x. x / of_int (avgNumber l' - 1)) (bc_data l') = d"
  proof -
    have "0 < avgNumber l' - 1"
      using two by simp
    then show ?thesis
      unfolding l'(3) by (rule mean_of_copies)
  qed
  ultimately have "snd (boxCarAvg r model speed d False e) =
    (d, bc_minMax l', avgNumber l' - 1,
     if \<not> (thresholdMet l' \<or> avgNumber l' - 1 = ?M) then (bc_error l' OR AVERAGING_LOW_LIGHT) OR AVERAGING_LOW_LIGHT
     else bc_error l' OR AVERAGING_LOW_LIGHT)"
    unfolding bc_finish_def Let_def by simp
  then show ?thesis
    using l'(2,4,5) k by (simp add: bc_init_def or.assoc)
qed

text \<open>
  C21.  The number of samples averaged is at least 1 and at most the number
  of samples the ring holds, \<open>min m_MaxAvgNumber (m_AvgLast + 1)\<close>.
\<close>

theorem boxCarAvg_count:
  assumes "ring_inv r hist" "length d = 3"
  shows "case snd (boxCarAvg r model speed d autoAvg e) of (data', mm, n, e') \<Rightarrow>
           1 \<le> n \<and> n \<le> min (MaxAvgNumber r) (int (length hist) + 1)"
  using boxCarAvg_output [OF assms] boxcar_spec_count [where maxAvg = "MaxAvgNumber r" and d = d and hist = hist and a = autoAvg]
    assms(1) by (simp add: ring_inv_def)

lemma ring2_inv: "ring_inv ring2 [[1, 1, 1]]"
  by (simp add: ring_inv_def ring2_def ring_read_def)

lemma n5_bytes:
  "substr n5_frame 2 3 = map char_of [93, 90, 7 :: nat]" "substr n5_frame 5 3 = map char_of [102, 173, 7 :: nat]"
  "substr n5_frame 8 3 = map char_of [77, 42, 7 :: nat]" "byte_at (substr n5_frame 11 1) 0 = 128"
  "substr n5_frame 13 1 = ''0''"
  by (simp_all add: n5_frame_def substr_def) code_simp+

lemma n5_values:
  "parseK_float (map char_of [93, 90, 7 :: nat]) = 23898 / 512"
  "parseK_float (map char_of [102, 173, 7 :: nat]) = 26285 / 512"
  "parseK_float (map char_of [77, 42, 7 :: nat]) = 19754 / 512"
  by (simp_all add: parseK_float_eq kfloat_sign_def kfloat_frac_def kfloat_exp_def powr_numeral)

lemma ring_alloc_inv: "1 \<le> maxAvg \<Longrightarrow> ring_inv (ring_alloc maxAvg) []"
  by (simp add: ring_inv_def ring_alloc_def)

text \<open>
  Decoding the 15-byte sample frame of the source comment with a fresh
  ring and the constructor's settings gives X = 23898/512, Y = 26285/512,
  Z = 19754/512 (no averaging, the threshold is met at once), ranges 2, 1, 1
  and error mask \<^verbatim>\<open>NONE\<close>.
\<close>

theorem parseAndPrintXYZ_n5_frame:
  "snd (parseAndPrintXYZ xyz_cfg_init (ring_alloc 32) n5_frame True) =
   \<lparr>fromXYZ_args = [23898 / 512, 26285 / 512, 19754 / 512], xyz_errorcode = NONE, xyz_ranges = [2, 1, 1],
    xyz_raw = [23898 / 512, 26285 / 512, 19754 / 512], averagingby = 1,
    xyz_minMax = [(23898 / 512, 23898 / 512), (26285 / 512, 26285 / 512), (19754 / 512, 19754 / 512)]\<rparr>"
proof -
  have b: "snd (boxCarAvg (ring_alloc 32) '''' SPEEDMODE_NORMAL [23898 / 512, 26285 / 512, 19754 / 512] True NONE) =
    ([23898 / 512, 26285 / 512, 19754 / 512], [(23898 / 512, 23898 / 512), (26285 / 512, 26285 / 512), (19754 / 512, 19754 / 512)], 1, NONE)"
    using boxCarAvg_output [OF ring_alloc_inv, of 32 "[23898 / 512, 26285 / 512, 19754 / 512]" "''''" SPEEDMODE_NORMAL True NONE]
    by (simp add: ring_alloc_def boxcar_spec_def bc_init_def bc_body_def bc_finish_def min_max_update_def Let_def numeral_3_eq_3
                  multiplierForAveraging_def modelSensitivityMultiplier_def modelSensitivity_def speedModeMultiplier_def)
  have d: "[parseK_float (substr n5_frame 2 3), parseK_float (substr n5_frame 5 3), parseK_float (substr n5_frame 8 3)] =
           [23898 / 512, 26285 / 512, 19754 / 512]"
    by (simp only: n5_bytes n5_values)
  have rg: "parsingRange (of_nat (byte_at (substr n5_frame 11 1) 0)) = [2, 1, 1]"
    unfolding n5_bytes by code_simp
  have er: "getErrorCodeFromKlein (substr n5_frame 13 1) = NONE"
    unfolding n5_bytes by code_simp
  obtain r' where b': "boxCarAvg (ring_alloc 32) '''' SPEEDMODE_NORMAL [23898 / 512, 26285 / 512, 19754 / 512] True NONE =
    (r', [23898 / 512, 26285 / 512, 19754 / 512], [(23898 / 512, 23898 / 512), (26285 / 512, 26285 / 512),
     (19754 / 512, 19754 / 512)], 1, NONE)"
    using b by (metis prod.collapse)
  show ?thesis
    unfolding parseAndPrintXYZ_def Let_def d rg er xyz_cfg_init_def xyz_cfg.simps b'
    by (simp add: noise_check_def noise_step_def noise_threshold_def correctXYZCalFile_def speedModeSamples_def
                  speedModeMultiplier_def modelSensitivityMultiplier_def modelSensitivity_def)
qed

text \<open>
  C18.  Refinement of the averaging ring: for a ring that holds the newest
  samples of a history, \<^verbatim>\<open>boxCarAvg\<close> on a new sample returns what
  averaging the history extended by that sample returns, and the ring
  after the \<^verbatim>\<open>++m_AvgLast\<close> of \<^verbatim>\<open>parseAndPrintXYZ\<close> holds the extended
  history.
\<close>

theorem boxCarAvg_simulation:
  "ring_inv r hist \<Longrightarrow> length d = 3 \<Longrightarrow>
   (case boxCarAvg r model speed d autoAvg e of (r', res) \<Rightarrow>
      res = boxcar_spec (MaxAvgNumber r) (d # hist) autoAvg (multiplierForAveraging model speed) e \<and>
      ring_inv (r'\<lparr>AvgLast := AvgLast r' + 1\<rparr>) (d # hist))"
  using boxCarAvg_output [of r hist d model speed autoAvg e] ring_inv_push [of r hist d]
  by (simp add: boxCarAvg_def Let_def split: prod.splits)

lemma boxCarAvg_simulation_witness:
  "case boxCarAvg ring2 ''K-10'' SPEEDMODE_NORMAL [5, 5, 5] True NONE of (r', res) \<Rightarrow>
     res = boxcar_spec (MaxAvgNumber ring2) [[5, 5, 5], [1, 1, 1]] True (multiplierForAveraging ''K-10'' SPEEDMODE_NORMAL) NONE \<and>
     ring_inv (r'\<lparr>AvgLast := AvgLast r' + 1\<rparr>) [[5, 5, 5], [1, 1, 1]]"
  by (rule boxCarAvg_simulation [OF ring2_inv]) simp

lemma boxCarAvg_count_witness:
  "case snd (boxCarAvg ring2 ''K-10'' SPEEDMODE_NORMAL [5, 5, 5] True NONE) of (data', mm, n, e') \<Rightarrow>
     1 \<le> n \<and> n \<le> min (MaxAvgNumber ring2) (int (length [[1, 1, 1 :: real]]) + 1)"
  by (rule boxCarAvg_count [OF ring2_inv]) simp

lemma boxCarAvg_constant_witness:
  "case snd (boxCarAvg ring2 ''K-10'' SPEEDMODE_NORMAL [1, 1, 1] False NONE) of (data', mm, n, e') \<Rightarrow>
     data' = [1, 1, 1] \<and> n = min (MaxAvgNumber ring2) (int (length [[1, 1, 1 :: real]]) + 1) \<and>
     e' = (if n = MaxAvgNumber ring2 then NONE else NONE OR AVERAGING_LOW_LIGHT)"
  by (rule boxCarAvg_constant [OF ring2_inv]) (simp_all add: ring2_def)

lemma boxCarAvg_diverge_witness:
  "case snd (boxCarAvg ring2 ''K-10'' SPEEDMODE_NORMAL [5, 5, 5] False NONE) of (data', mm, n, e') \<Rightarrow>
     data' = [5, 5, 5] \<and> n = int 0 + 1 \<and> n < MaxAvgNumber ring2 \<and> e' = NONE OR AVERAGING_LOW_LIGHT"
  by (rule boxCarAvg_diverge [OF ring2_inv, where h = "[1, 1, 1]" and rest = "[]"])
     (simp_all add: ring2_def c_div_gt_def)

end
