(* ===== verification/RangeCal.thy ===== *)
theory RangeCal
  imports ErrorCodes
begin

unbundle bit_operations_syntax

text \<open>
  The flicker range calibration the device sends in its start-up string
  (reply to \<^verbatim>\<open>P4\<close>): src/KClmtr.cpp \<^verbatim>\<open>printStartupString\<close> (1821-1835),
  \<^verbatim>\<open>loadFFTRangeCal\<close> (1836-1899) and \<^verbatim>\<open>checkThreeFFT_Validity\<close>
  (1927-1952).  Each of the three 128-byte blocks holds 64 big-endian 16-bit
  values; \<^verbatim>\<open>loadFFTRangeCal\<close> turns them into a 129-entry table of
  multipliers (reciprocals, interpolated at the even indices, straightened at
  100/101 and zeroed from 102 when small) and validates the three tables.
  The loops over the table are folds over their index lists with list
  updates, as the code writes them.  The least-squares fit
  \<^verbatim>\<open>polyFit\<close> that \<^verbatim>\<open>caluclateCoef\<close> applies afterwards (through
  src/Matrix.cpp) is not modelled: the model keeps the table
  (\<^verbatim>\<open>m_FFTCalRangeCoeff1\<close>) and records that the fitted coefficients
  \<^verbatim>\<open>m_FFTCalRangeCoeff2\<close> replaced their sentinel -1.
\<close>

section \<open>One calibration table\<close>

text \<open>\<^verbatim>\<open>MyArray[i][j + 1] = 1 / MySin * 256 * 128\<close> for the 16-bit value at byte \<open>j\<close>.\<close>

definition cal_point :: "string \<Rightarrow> nat \<Rightarrow> real" where
  "cal_point MyBStr j =
     (let MySin = real (byte_at MyBStr j) * 256 + real (byte_at MyBStr (j + 1));
          MySin = (if MySin = 0 then 1 / 10000000 else MySin)
      in 1 / MySin * 256 * 128)"

definition cal_row :: "string \<Rightarrow> real list" where
  "cal_row MyBStr =
     (let row = replicate 129 0;
          row = foldl (\<lambda>row j. row[j + 1 := cal_point MyBStr j]) row (map (\<lambda>k. 2 * k) [0 ..< 64]);
          row = row[0 := row ! 1];
          row = foldl (\<lambda>row j. row[j + 1 := (row ! j + row ! (j + 2)) / 2]) row (map (\<lambda>k. 2 * k + 1) [0 ..< 63]);
          MySin = 2 * row ! 99 - row ! 98;
          row = (if MySin \<noteq> 0 \<and> 2 / 100 < \<bar>(row ! 100 - MySin) / MySin\<bar>
                 then row[100 := MySin, 101 := 2 * MySin - row ! 99] else row);
          row = (if row ! 102 < 1 then foldl (\<lambda>row j. row[j := 0]) row [102 ..< 129] else row)
      in row[128 := row ! 127])"

text \<open>The checks of one table: starts at 1, ends in 25..150, rises within 1%.\<close>

fun rises :: "real \<Rightarrow> real list \<Rightarrow> bool" where
  "rises OldValue [] = True"
| "rises OldValue (v # vs) = (if v \<le> OldValue * (99 / 100) then False else rises v vs)"

definition row_valid :: "real list \<Rightarrow> bool" where
  "row_valid row \<longleftrightarrow> row ! 1 = 1 \<and> \<not> (150 < row ! 99 \<or> row ! 99 < 25) \<and> rises (row ! 1) (map (\<lambda>j. row ! j) [2 ..< 100])"

definition checkThreeFFT_Validity :: "real list list \<Rightarrow> errmask" where
  "checkThreeFFT_Validity rows = (if list_all row_valid (take 3 rows) then NONE else FFT_RANGE_CAL)"

section \<open>Loading\<close>

text \<open>
  The result of \<^verbatim>\<open>loadFFTRangeCal\<close>: its error, and on success the three
  tables whose first 71 entries \<^verbatim>\<open>caluclateCoef\<close> copies into
  \<^verbatim>\<open>m_FFTCalRangeCoeff1\<close>.
\<close>

definition loadFFTRangeCal :: "string \<Rightarrow> errmask \<times> real list list option" where
  "loadFFTRangeCal readString =
     (if length readString \<noteq> 128 * 3 then (FFT_RANGE_CAL, None)
      else
        (let MyArray = map (\<lambda>i. cal_row (substr readString (i * 128) 128)) [0 ..< 3];
             error = checkThreeFFT_Validity MyArray
         in if error \<noteq> NONE then (error, None) else (NONE, Some (map (take 71) MyArray))))"

text \<open>\<^verbatim>\<open>printStartupString\<close>: the firmware version at 19..25 and the tables at 26..409.\<close>

definition printStartupString :: "string \<Rightarrow> string \<times> errmask \<times> real list list option" where
  "printStartupString read =
     (let m_firmware = substr read 19 7;
          (error, coeff1) = loadFFTRangeCal (substr read 26 384)
      in (m_firmware, error, coeff1))"

section \<open>The table in closed form, and a sample start-up string\<close>

text \<open>
  Entry \<open>j < 100\<close> of a table as the loops leave it: the reciprocal of a
  16-bit value at the odd entries (and at 0), the midpoint of its
  neighbours at the even ones.  The sample block has the value 0x8000
  everywhere except 0x0444 at byte 98; the sample start-up string carries it
  three times at offset 26.
\<close>

definition cal_interp :: "string \<Rightarrow> nat \<Rightarrow> real" where
  "cal_interp B j = (if j = 0 then cal_point B 0 else if odd j then cal_point B (j - 1)
                     else (cal_point B (j - 2) + cal_point B j) / 2)"

definition cal_block :: string where
  "cal_block = concat (map (\<lambda>k. if k = 49 then [CHR 0x04, CHR 0x44] else [CHR 0x80, CHR 0x00]) [0 ..< 64])"

definition startup_reply :: string where
  "startup_reply = replicate 26 (CHR ''x'') @ cal_block @ cal_block @ cal_block @ replicate 203 (CHR ''y'')"

section \<open>Properties\<close>

lemma cal_row_tail:
  assumes "length r = 129" "j < 100"
  shows "(let MySin = 2 * r ! 99 - r ! 98;
              r = (if MySin \<noteq> 0 \<and> 2 / 100 < \<bar>(r ! 100 - MySin) / MySin\<bar>
                   then r[100 := MySin, 101 := 2 * MySin - r ! 99] else r);
              r = (if r ! 102 < 1 then foldl (\<lambda>row j. row[j := 0]) r [102 ..< 129] else r)
          in r[128 := r ! 127]) ! j = r ! j"
proof -
  have "\<forall>k \<in> set [102 ..< 129]. k \<noteq> j"
    using assms(2) by simp
  then show ?thesis
    using assms by (simp add: Let_def foldl_update_other [where idx = "\<lambda>k. k"] nth_list_update)
qed

lemma foldl_update_frozen:
  assumes "\<forall>j \<in> set js. odd j"
  shows "foldl (\<lambda>row j. row[j + 1 := (row ! j + row ! (j + 2)) / 2]) r js =
         foldl (\<lambda>row j. row[j + 1 := (r ! j + r ! (j + 2)) / 2]) r js"
  using assms
proof (induction js arbitrary: r)
  case (Cons a js)
  let ?r = "r[a + 1 := (r ! a + r ! (a + 2)) / 2]"
  have "\<forall>j \<in> set js. a + 1 \<noteq> j \<and> a + 1 \<noteq> j + 2"
  proof
    fix j
    assume "j \<in> set js"
    then have "odd j" "even (a + 1)"
      using Cons.prems by simp_all
    then show "a + 1 \<noteq> j \<and> a + 1 \<noteq> j + 2"
      by auto
  qed
  then have "\<forall>j \<in> set js. ?r ! j = r ! j \<and> ?r ! (j + 2) = r ! (j + 2)"
    by (simp add: nth_list_update)
  then have "foldl (\<lambda>row j. row[j + 1 := (?r ! j + ?r ! (j + 2)) / 2]) ?r js =
             foldl (\<lambda>row j. row[j + 1 := (r ! j + r ! (j + 2)) / 2]) ?r js"
    by (intro foldl_cong) auto
  with Cons show ?case
    by simp
qed simp

lemma cal_row_interp:
  assumes j: "j < 100"
  shows "cal_row B ! j = cal_interp B j"
proof -
  let ?E = "map (\<lambda>k. 2 * k) [0 ..< 64]" and ?O = "map (\<lambda>k. 2 * k + 1) [0 ..< 63]"
  define r1 where "r1 = foldl (\<lambda>row j. row[j + 1 := cal_point B j]) (replicate 129 0) ?E"
  have len1: "length r1 = 129"
    by (simp add: r1_def)
  have r1: "r1 ! i = cal_point B (i - 1)" if "odd i" "i < 129" for i
  proof -
    from that(1) obtain k where k: "i = 2 * k + 1"
      by (auto elim: oddE)
    have "distinct (map Suc ?E)"
      by (simp add: distinct_map inj_on_def)
    then show ?thesis
      using foldl_update_in [of Suc ?E "2 * k" "replicate 129 0" "cal_point B"] k that(2)
      by (simp add: r1_def)
  qed
  define r1' where "r1' = r1[0 := r1 ! 1]"
  define r2 where "r2 = foldl (\<lambda>row j. row[j + 1 := (row ! j + row ! (j + 2)) / 2]) r1' ?O"
  have len2: "length r2 = 129"
    by (simp add: r2_def r1'_def len1)
  have odd_O: "\<forall>k \<in> set ?O. odd k"
    by auto
  have r2o: "r2 ! i = cal_point B (i - 1)" if "odd i" "i < 129" for i
  proof -
    have "\<forall>i' \<in> set ?O. Suc i' \<noteq> i" "i \<noteq> 0"
      using that(1) by (auto intro: odd_pos)
    then show ?thesis
      using r1 [OF that] by (simp add: r2_def r1'_def foldl_update_other [where idx = Suc] nth_list_update)
  qed
  have r20: "r2 ! 0 = cal_point B 0"
  proof -
    have "\<forall>i \<in> set ?O. Suc i \<noteq> 0"
      by auto
    then show ?thesis
      using r1 [of 1] len1 by (simp add: r2_def r1'_def foldl_update_other [where idx = Suc])
  qed
  have r2e: "r2 ! (2 * k + 2) = (cal_point B (2 * k) + cal_point B (2 * k + 2)) / 2" if "k < 63" for k
  proof -
    have "distinct (map Suc ?O)"
      by (simp add: distinct_map inj_on_def)
    moreover have "2 * k + 1 \<in> set ?O"
      using that by auto
    ultimately have "r2 ! Suc (2 * k + 1) = (r1' ! (2 * k + 1) + r1' ! (2 * k + 1 + 2)) / 2"
      unfolding r2_def foldl_update_frozen [OF odd_O]
      using foldl_update_in [of Suc ?O "2 * k + 1" r1' "\<lambda>j. (r1' ! j + r1' ! (j + 2)) / 2"] that len1
      by (simp add: r1'_def)
    then show ?thesis
      using r1 [of "2 * k + 1"] r1 [of "2 * k + 1 + 2"] that by (simp add: r1'_def)
  qed
  have eq: "cal_row B ! j = r2 ! j"
    unfolding cal_row_def r2_def r1'_def r1_def Let_def
    using cal_row_tail [OF len2 [unfolded r2_def r1'_def r1_def] j] by (simp only: Let_def)
  show ?thesis
  proof (cases "j = 0")
    case True
    then show ?thesis
      using eq r20 by (simp add: cal_interp_def)
  next
    case False
    show ?thesis
    proof (cases "odd j")
      case True
      then show ?thesis
        using eq r2o [of j] j by (simp add: cal_interp_def)
    next
      case even: False
      then obtain k' where j2: "j = 2 * k'"
        by (auto elim: evenE)
      with \<open>j \<noteq> 0\<close> obtain k where "k' = Suc k"
        using not0_implies_Suc by fastforce
      with j2 have k: "j = 2 * k + 2"
        by simp
      then show ?thesis
        using eq r2e [of k] j even by (simp add: cal_interp_def)
    qed
  qed
qed

lemma cal_row_1: "cal_row B ! 1 = cal_point B 0"
  using cal_row_interp [of 1 B] by (simp add: cal_interp_def)

lemma be16_eq_8000:
  assumes "b < 256"
  shows "a * 256 + b = (32768::nat) \<longleftrightarrow> a = 128 \<and> b = 0"
proof
  assume h: "a * 256 + b = 32768"
  have "(a * 256 + b) mod 256 = b" "(a * 256 + b) div 256 = a"
    using assms by simp_all
  with h show "a = 128 \<and> b = 0"
    by simp
qed simp

lemma cal_point_0_eq_1:
  "cal_point B 0 = 1 \<longleftrightarrow> byte_at B 0 = 128 \<and> byte_at B 1 = 0"
proof -
  define n where "n = byte_at B 0 * 256 + byte_at B 1"
  have "cal_point B 0 = 32768 / (if real n = 0 then 1 / 10000000 else real n)"
    unfolding n_def by (simp add: cal_point_def Let_def)
  then have "cal_point B 0 = 1 \<longleftrightarrow> n = 32768"
    by (simp add: divide_eq_1_iff)
  then show ?thesis
    unfolding n_def using be16_eq_8000 [OF byte_at_lt] by simp
qed
lemma row_valid_first: "row_valid (cal_row B) \<Longrightarrow> byte_at B 0 = 128 \<and> byte_at B 1 = 0"
proof -
  assume "row_valid (cal_row B)"
  then have "cal_row B ! 1 = 1"
    unfolding row_valid_def by blast
  then show ?thesis
    by (simp only: cal_row_1 cal_point_0_eq_1)
qed

text \<open>
  C22.  A calibration block is accepted only if its first 16-bit value is
  0x8000: \<^verbatim>\<open>checkThreeFFT_Validity\<close> requires entry 1 of each table to be 1,
  and entry 1 is \<open>32768 / v\<close> for that value \<open>v\<close>; any other first value makes
  \<^verbatim>\<open>loadFFTRangeCal\<close> report \<^verbatim>\<open>FFT_RANGE_CAL\<close> and load nothing.
\<close>

theorem loadFFTRangeCal_needs_8000:
  "(\<exists>i < 3. byte_at readString (128 * i) \<noteq> 128 \<or> byte_at readString (128 * i + 1) \<noteq> 0) \<Longrightarrow>
   loadFFTRangeCal readString = (FFT_RANGE_CAL, None)"
proof (cases "length readString = 128 * 3")
  case True
  assume "\<exists>i < 3. byte_at readString (128 * i) \<noteq> 128 \<or> byte_at readString (128 * i + 1) \<noteq> 0"
  then obtain i where i: "i < 3" "byte_at readString (128 * i) \<noteq> 128 \<or> byte_at readString (128 * i + 1) \<noteq> 0"
    by blast
  let ?B = "substr readString (i * 128) 128"
  have "byte_at ?B 0 = byte_at readString (128 * i)" "byte_at ?B 1 = byte_at readString (128 * i + 1)"
    using True i(1) by (simp_all add: mult.commute)
  then have "\<not> row_valid (cal_row ?B)"
    using i(2) row_valid_first by metis
  moreover have "cal_row ?B \<in> set (take 3 (map (\<lambda>i. cal_row (substr readString (i * 128) 128)) [0 ..< 3]))"
    using i(1) by auto
  ultimately have "checkThreeFFT_Validity (map (\<lambda>i. cal_row (substr readString (i * 128) 128)) [0 ..< 3]) = FFT_RANGE_CAL"
    unfolding checkThreeFFT_Validity_def list_all_iff by metis
  with True show ?thesis
    by (simp add: loadFFTRangeCal_def Let_def NONE_def FFT_RANGE_CAL_def)
qed (simp add: loadFFTRangeCal_def)

lemma loadFFTRangeCal_needs_8000_witness:
  "(\<exists>i < 3. byte_at (replicate 384 (CHR 0x00)) (128 * i) \<noteq> 128 \<or> byte_at (replicate 384 (CHR 0x00)) (128 * i + 1) \<noteq> 0) \<and>
   loadFFTRangeCal (replicate 384 (CHR 0x00)) = (FFT_RANGE_CAL, None)"
proof -
  have h: "\<exists>i < 3. byte_at (replicate 384 (CHR 0x00)) (128 * i) \<noteq> 128 \<or> byte_at (replicate 384 (CHR 0x00)) (128 * i + 1) \<noteq> 0"
    by (rule exI [of _ 0]) (simp add: byte_at_def)
  show ?thesis
    using h loadFFTRangeCal_needs_8000 [OF h] by simp
qed

lemma length_cal_block [simp]: "length cal_block = 128"
proof -
  have "\<forall>k. length (if k = (49::nat) then [CHR 0x04, CHR 0x44] else [CHR 0x80, CHR 0x00]) = 2"
    by simp
  then have "length cal_block = sum_list (map (\<lambda>k. 2) [0 ..< 64 :: nat])"
    unfolding cal_block_def length_concat map_map comp_def by simp
  then show ?thesis
    by (simp add: sum_list_triv)
qed

lemma cal_point_cal_block:
  assumes "even i" "i < 128"
  shows "cal_point cal_block i = (if i = 98 then 8192 / 273 else 1)"
proof -
  obtain k where k: "i = 2 * k" "k < 64"
    using assms by (auto elim: evenE)
  let ?f = "\<lambda>k. if k = (49::nat) then [CHR 0x04, CHR 0x44] else [CHR 0x80, CHR 0x00]"
  have l: "\<forall>k < 64. length (?f k) = 2"
    by simp
  have b: "cal_block ! (2 * k + 0) = ?f k ! 0" "cal_block ! (2 * k + 1) = ?f k ! 1"
    unfolding cal_block_def by (rule concat_pairs_nth [OF l k(2)], simp)+
  have "byte_at cal_block i = (if k = 49 then 4 else 128)" "byte_at cal_block (i + 1) = (if k = 49 then 68 else 0)"
    using b k by simp_all
  then show ?thesis
    using k by (simp add: cal_point_def Let_def)
qed

lemma row_valid_cal_block: "row_valid (cal_row cal_block)"
proof -
  have m: "map (\<lambda>j. cal_row cal_block ! j) [2 ..< 100] = map (cal_interp cal_block) [2 ..< 100]"
    by (simp add: cal_row_interp)
  show ?thesis
    unfolding row_valid_def m
    by (simp add: cal_row_interp cal_interp_def cal_point_cal_block)
qed

lemma loadFFTRangeCal_startup:
  "loadFFTRangeCal (substr startup_reply 26 384) = (NONE, Some (replicate 3 (take 71 (cal_row cal_block))))"
proof -
  have sub: "substr startup_reply 26 384 = cal_block @ cal_block @ cal_block"
    by (simp add: substr_def startup_reply_def)
  have "map (\<lambda>i. cal_row (substr (cal_block @ cal_block @ cal_block) (i * 128) 128)) [0 ..< 3] =
        replicate 3 (cal_row cal_block)"
    by (simp add: substr_def upt_rec numeral_3_eq_3)
  then show ?thesis
    by (simp add: loadFFTRangeCal_def sub checkThreeFFT_Validity_def row_valid_cal_block numeral_3_eq_3)
qed

lemma printStartupString_startup:
  "printStartupString startup_reply = (substr startup_reply 19 7, NONE, Some (replicate 3 (take 71 (cal_row cal_block))))"
  by (simp add: printStartupString_def loadFFTRangeCal_startup)

lemma length_startup_reply: "length startup_reply = 613"
  by (simp add: startup_reply_def)

end
