(* ===== verification/Session.thy ===== *)
theory Session
  imports Protocol BoxCar RangeCal Acquisition "HOL-Library.List_Lexorder" "HOL-Library.Char_ord"
begin

unbundle bit_operations_syntax

text \<open>
  The session facade of src/KClmtr.cpp: the mode flags \<^verbatim>\<open>m_MeasuringN5\<close>,
  \<^verbatim>\<open>m_MeasuringM6\<close> and \<^verbatim>\<open>m_Flickering\<close>, the guard of
  \<^verbatim>\<open>sendMessageToKColorimeter\<close> (2202-2218) that stops a mode before any
  other command goes out, the public start/stop operations of the three
  modes (\<^verbatim>\<open>startMeasuring\<close>, \<^verbatim>\<open>stopMeasuring\<close>, \<^verbatim>\<open>startMeasureCounts\<close>,
  \<^verbatim>\<open>stopMeasureCounts\<close>, \<^verbatim>\<open>startFlicker\<close>, \<^verbatim>\<open>stopFlicker\<close>,
  \<^verbatim>\<open>resetFlicker\<close>, \<^verbatim>\<open>endFlicker\<close>), \<^verbatim>\<open>getNextMeasurement\<close>,
  \<^verbatim>\<open>setMaxAverageCount\<close>, the polling getters, and the iterations of the
  worker \<^verbatim>\<open>threadStuff\<close> in colour and counts mode.

  Here a call of the public API runs to completion, and the worker thread
  runs between calls: the session's events are API calls and worker steps
  (\<open>sess_step\<close>).  The handshake of \<^verbatim>\<open>startThread2\<close>/\<^verbatim>\<open>stopThread2\<close> is
  collapsed to its outcome: a stop makes the worker finish the code before
  its loop, leave the loop and run \<^verbatim>\<open>endThread\<close>; theory \<open>Acquisition\<close>
  models the interleavings of that handshake itself.  The code runs the
  guard's stop functions on two threads with different effects, and the
  model keeps them apart: called by the controller they stop the worker
  and wait for it (\<open>_c\<close>), called by the worker on itself
  (\<^verbatim>\<open>threadId == currentThreadID\<close>) they only end its loop (\<open>_w\<close>).
  Serial exchanges go through \<open>sendMessageToSerialPort\<close> of theory
  \<open>Protocol\<close> on the session's port, colour frames through
  \<open>parseAndPrintXYZ\<close> of theory \<open>BoxCar\<close> on the session's averaging ring.

  Not modelled here: the flicker loop body (after the worker's start
  command; see the flicker theories), baud-rate changes
  (\<^verbatim>\<open>setSetting\<close>) and sleeps, the flicker settings written on start
  (\<^verbatim>\<open>m_flickerSettings.speed\<close>), and \<^verbatim>\<open>polyFit\<close>: \<open>coef_loaded\<close> stands for
  \<^verbatim>\<open>checkCoef()\<close>, i.e. that \<^verbatim>\<open>caluclateCoef\<close> replaced the -1 sentinels of
  \<^verbatim>\<open>m_FFTCalRangeCoeff2\<close>, which it does whenever \<^verbatim>\<open>loadFFTRangeCal\<close>
  succeeds (the fit is assumed never to produce exactly -1).
\<close>

section \<open>State\<close>

text \<open>\<^verbatim>\<open>m_measure\<close>: the default \<^verbatim>\<open>Measurement()\<close>, \<^verbatim>\<open>Measurement::fromError\<close> or a decoded frame.\<close>

datatype measurement_pub = NoMeasurement | MeasError errmask | MeasXYZ xyz_result

text \<open>
  The members of \<^verbatim>\<open>KClmtr\<close> the facade uses, on top of the colour settings
  of \<open>xyz_cfg\<close>.  \<open>avg\<close> is the averaging ring and \<open>avg_alloc\<close> says whether
  \<^verbatim>\<open>m_AvgX/Y/Z\<close> are allocated (not \<^verbatim>\<open>NULL\<close>).  \<open>worker\<close> is the mode of the
  running worker thread (\<^verbatim>\<open>measureMode\<close> while \<^verbatim>\<open>threadModeChild\<close> is not
  \<^verbatim>\<open>NOT_RUNNING\<close>), \<open>worker_prefix\<close> that it has not yet run the code before
  its loop, \<open>parent_run\<close> that \<^verbatim>\<open>threadModeParent == RUN\<close>.
\<close>

record session = xyz_cfg +
  m_CommPort :: serial
  avg :: avg_ring
  avg_alloc :: bool
  m_MeasuringN5 :: bool
  m_MeasuringM6 :: bool
  m_Flickering :: bool
  m_FFTCalRangeCoeff1 :: "real list list"
  coef_loaded :: bool
  m_firmware :: string
  m_DeviceFlickerSpeed :: bool
  worker :: "MeasureMode option"
  worker_prefix :: bool
  parent_run :: bool
  m_measure :: measurement_pub
  m_counts :: Counts
  m_isMeasurefresh :: bool
  m_isCountsfresh :: bool
  m_isFlickerfresh :: bool

text \<open>\<^verbatim>\<open>Counts()\<close> (src/Counts.cpp 35-41; the ranges it leaves unset are 0 here).\<close>

definition counts_default :: Counts where
  "counts_default = \<lparr>th1 = 0, th2 = 0, therm = 0, redrange = 0, greenrange = 0, bluerange = 0,
                      theCounts = replicate 2 (replicate 3 0), counts_errorcode = 0\<rparr>"

text \<open>
  The constructor \<^verbatim>\<open>KClmtr()\<close> on a given port.  It leaves the freshness
  flags and \<^verbatim>\<open>m_measure\<close>/\<^verbatim>\<open>m_counts\<close> to their defaults; the flags,
  which C leaves uninitialised, start false here.
\<close>

definition session_init :: "serial \<Rightarrow> session" where
  "session_init port =
     \<lparr>m_Model = '''', m_speedMode = SPEEDMODE_NORMAL, m_ZeroNoise = False, m_CalFileID = 0,
      m_CalMatrix = replicate 3 (replicate 3 0),
      m_CommPort = port, avg = \<lparr>AvgX = [], AvgY = [], AvgZ = [], AvgLast = 0, MaxAvgNumber = 32\<rparr>,
      avg_alloc = False, m_MeasuringN5 = False, m_MeasuringM6 = False, m_Flickering = False,
      m_FFTCalRangeCoeff1 = replicate 3 (replicate 71 (-1)), coef_loaded = False, m_firmware = '''',
      m_DeviceFlickerSpeed = True, worker = None, worker_prefix = False, parent_run = False,
      m_measure = NoMeasurement, m_counts = counts_default,
      m_isMeasurefresh = False, m_isCountsfresh = False, m_isFlickerfresh = False\<rparr>"

section \<open>Commands and the guard\<close>

definition getColorMeasurmentCommand :: "SpeedMode \<Rightarrow> command" where
  "getColorMeasurmentCommand m =
     (case m of SPEEDMODE_SLOWEST \<Rightarrow> COLOR_2PERSECOND | SPEEDMODE_SLOW \<Rightarrow> COLOR_4PERSECOND
              | SPEEDMODE_FAST \<Rightarrow> COLOR_16PERSECOND | SPEEDMODE_NORMAL \<Rightarrow> COLOR_8PERSECOND)"

definition is_color_cmd :: "string \<Rightarrow> bool" where
  "is_color_cmd strMsg \<longleftrightarrow>
     strMsg = commandString COLOR_2PERSECOND \<or> strMsg = commandString COLOR_4PERSECOND \<or>
     strMsg = commandString COLOR_8PERSECOND \<or> strMsg = commandString COLOR_16PERSECOND"

definition is_flicker_cmd :: "string \<Rightarrow> bool" where
  "is_flicker_cmd strMsg \<longleftrightarrow>
     strMsg = commandString FLICKER_256PERSECOND \<or> strMsg = commandString FLICKER_384PERSECOND"

text \<open>\<^verbatim>\<open>isFlickerNew\<close>: firmware compared as \<^verbatim>\<open>std::string\<close>, i.e. lexicographically by unsigned byte.\<close>

definition isFlickerNew :: "session \<Rightarrow> bool" where
  "isFlickerNew s \<longleftrightarrow> m_DeviceFlickerSpeed s \<and> ''01.09fh'' < m_firmware s"

definition isKV :: "session \<Rightarrow> bool" where
  "isKV s \<longleftrightarrow> take 3 (m_Model s) = ''KV-''"

text \<open>The exchange on the session's port.\<close>

definition port_send :: "session \<Rightarrow> string \<Rightarrow> int \<Rightarrow> int \<Rightarrow> errmask \<times> string \<times> session" where
  "port_send s strMsg expected timeOut_Sec =
     (let (error, readString, port) = sendMessageToSerialPort (m_CommPort s) strMsg expected timeOut_Sec
      in (error, readString, s\<lparr>m_CommPort := port\<rparr>))"

text \<open>
  The guard of \<^verbatim>\<open>sendMessageToKColorimeter\<close>, given the three stop
  functions of the calling thread.
\<close>

definition send_guard ::
  "(session \<Rightarrow> session) \<Rightarrow> (session \<Rightarrow> session) \<Rightarrow> (session \<Rightarrow> session) \<Rightarrow>
   session \<Rightarrow> string \<Rightarrow> int \<Rightarrow> session" where
  "send_guard stopMeasuring stopMeasureCounts stopFlicker s strMsg expected =
     (let s = (if m_MeasuringN5 s \<and> \<not> is_color_cmd strMsg then stopMeasuring s else s);
          s = (if m_MeasuringM6 s \<and> strMsg \<noteq> commandString COUNTS_4PERSECOND then stopMeasureCounts s else s)
      in if m_Flickering s \<and> expected \<noteq> -1 \<and> \<not> is_flicker_cmd strMsg then stopFlicker s else s)"

definition resetFlicker :: "session \<Rightarrow> session" where
  "resetFlicker s = s\<lparr>m_Flickering := False\<rparr>"

section \<open>The worker thread\<close>

text \<open>
  \<^verbatim>\<open>stopThread2\<close> called by the worker on itself: \<^verbatim>\<open>threadModeChild\<close> is
  \<^verbatim>\<open>RUN\<close>, so it sets \<^verbatim>\<open>threadModeParent\<close> to \<^verbatim>\<open>STOP\<close> and then
  \<^verbatim>\<open>NOT_RUNNING\<close> without waiting; the worker leaves its loop at the next
  test.
\<close>

definition stopThread2_w :: "session \<Rightarrow> session" where
  "stopThread2_w s = s\<lparr>parent_run := False\<rparr>"

definition stopMeasuring_w :: "session \<Rightarrow> session" where
  "stopMeasuring_w s =
     (let s = stopThread2_w s in s\<lparr>avg := (avg s)\<lparr>AvgLast := 0\<rparr>, m_MeasuringN5 := False, avg_alloc := False\<rparr>)"

definition stopMeasureCounts_w :: "session \<Rightarrow> session" where
  "stopMeasureCounts_w s = (stopThread2_w s)\<lparr>m_MeasuringM6 := False\<rparr>"

text \<open>\<^verbatim>\<open>stopFlicker\<close> on the worker: \<^verbatim>\<open>threadModeChild\<close> is not \<^verbatim>\<open>NOT_RUNNING\<close>, so \<^verbatim>\<open>stopFlicker2\<close>.\<close>

definition stopFlicker_w :: "session \<Rightarrow> session" where
  "stopFlicker_w s = stopThread2_w s"

definition send_w :: "session \<Rightarrow> command \<Rightarrow> errmask \<times> string \<times> session" where
  "send_w s m =
     port_send (send_guard stopMeasuring_w stopMeasureCounts_w stopFlicker_w s (commandString m) (cmd_expected m))
       (commandString m) (cmd_expected m) (cmd_timeout m)"

definition endFlicker_w :: "session \<Rightarrow> session" where
  "endFlicker_w s =
     (let (_, _, s) = send_w s DUMMY;
          (_, _, s) = send_w s DUMMY;
          s = (if isFlickerNew s then s else snd (snd (send_w s DUMMY)));
          (_, port) = readExisting (m_CommPort s)
      in resetFlicker (s\<lparr>m_CommPort := port\<rparr>))"

text \<open>\<^verbatim>\<open>endThread\<close>: flicker teardown, then \<^verbatim>\<open>threadModeChild = NOT_RUNNING\<close>.\<close>

definition endThread_w :: "session \<Rightarrow> session" where
  "endThread_w s = (if worker s = Some FLICKER then endFlicker_w s else s)\<lparr>worker := None\<rparr>"

text \<open>The code of \<^verbatim>\<open>threadStuff\<close> before its loop: the flicker start command.\<close>

definition run_prefix :: "session \<Rightarrow> session" where
  "run_prefix s =
     (if worker s = Some FLICKER then
        snd (snd (send_w s (if isFlickerNew s then FLICKER_384PERSECOND else FLICKER_256PERSECOND)))
      else s)\<lparr>worker_prefix := False\<rparr>"

text \<open>
  One iteration of the colour loop.  \<open>None\<close> is the dereference of the
  \<^verbatim>\<open>NULL\<close> averaging arrays by \<^verbatim>\<open>boxCarAvg\<close>.
\<close>

definition measure_iter :: "session \<Rightarrow> session option" where
  "measure_iter s =
     (let (error, measure, s) = send_w s (getColorMeasurmentCommand (m_speedMode s))
      in if error = NONE \<and> parent_run s then
           (if avg_alloc s then
              (let (r, m) = parseAndPrintXYZ (xyz_cfg.truncate s) (avg s) measure True
               in Some (s\<lparr>avg := r, m_measure := MeasXYZ m, m_isMeasurefresh := True\<rparr>))
            else None)
         else if error \<noteq> NONE then
           Some (s\<lparr>m_measure := MeasError error, parent_run := False, m_isMeasurefresh := True\<rparr>)
         else Some s)"

text \<open>One iteration of the counts loop, with its \<^verbatim>\<open>m_isMeasurefresh = true\<close> on the error path.\<close>

definition counts_iter :: "session \<Rightarrow> session" where
  "counts_iter s =
     (let (error, counts, s) = send_w s COUNTS_4PERSECOND
      in if error = NONE \<and> parent_run s then s\<lparr>m_counts := Counts_parse counts, m_isCountsfresh := True\<rparr>
         else if error \<noteq> NONE then
           s\<lparr>m_counts := counts_default\<lparr>counts_errorcode := error\<rparr>, parent_run := False, m_isMeasurefresh := True\<rparr>
         else s)"

text \<open>A step of the worker; \<open>None\<close> when there is none to take or the step is not modelled (the flicker loop).\<close>

definition worker_step :: "session \<Rightarrow> session option" where
  "worker_step s =
     (case worker s of
        None \<Rightarrow> None
      | Some m \<Rightarrow>
          if worker_prefix s then Some (run_prefix s)
          else if \<not> parent_run s then Some (endThread_w s)
          else (case m of MEASURE \<Rightarrow> measure_iter s | COUNTS \<Rightarrow> Some (counts_iter s) | FLICKER \<Rightarrow> None))"

section \<open>The controller\<close>

text \<open>\<^verbatim>\<open>stopThread2\<close> on the controller: the worker finishes, then \<^verbatim>\<open>threadModeParent = NOT_RUNNING\<close>.\<close>

definition stopThread2_c :: "session \<Rightarrow> session" where
  "stopThread2_c s =
     (if worker s = None then s
      else endThread_w ((if worker_prefix s then run_prefix s else s)\<lparr>parent_run := False\<rparr>))"

definition stopMeasuring_c :: "session \<Rightarrow> session" where
  "stopMeasuring_c s =
     (let s = stopThread2_c s in s\<lparr>avg := (avg s)\<lparr>AvgLast := 0\<rparr>, m_MeasuringN5 := False, avg_alloc := False\<rparr>)"

definition stopMeasureCounts_c :: "session \<Rightarrow> session" where
  "stopMeasureCounts_c s = (stopThread2_c s)\<lparr>m_MeasuringM6 := False\<rparr>"

definition stopFlicker_c :: "session \<Rightarrow> session" where
  "stopFlicker_c s = (if worker s = None then resetFlicker s else stopThread2_c s)"

definition send_c :: "session \<Rightarrow> command \<Rightarrow> errmask \<times> string \<times> session" where
  "send_c s m =
     port_send (send_guard stopMeasuring_c stopMeasureCounts_c stopFlicker_c s (commandString m) (cmd_expected m))
       (commandString m) (cmd_expected m) (cmd_timeout m)"

definition startThread2_c :: "MeasureMode \<Rightarrow> session \<Rightarrow> session" where
  "startThread2_c m s = (stopThread2_c s)\<lparr>worker := Some m, worker_prefix := True, parent_run := True\<rparr>"

definition startMeasuring_c :: "session \<Rightarrow> session" where
  "startMeasuring_c s =
     (let s = stopFlicker_c s;
          s = stopMeasureCounts_c s;
          s = s\<lparr>m_MeasuringN5 := True, avg := ring_alloc (MaxAvgNumber (avg s)), avg_alloc := True\<rparr>
      in startThread2_c MEASURE s)"

definition startMeasureCounts_c :: "session \<Rightarrow> session" where
  "startMeasureCounts_c s =
     (let s = stopFlicker_c s; s = stopMeasuring_c s; s = startThread2_c COUNTS s in s\<lparr>m_MeasuringM6 := True\<rparr>)"

text \<open>\<^verbatim>\<open>startFlicker(grabConstantly)\<close>; the start-up string is read only when no calibration is loaded.\<close>

definition load_coef :: "session \<Rightarrow> errmask \<times> session" where
  "load_coef s =
     (if coef_loaded s then (NONE, s)
      else
        (let (error, returnString, s) = send_c s FLICKER_INFO
         in if error \<noteq> NONE then (error, s)
            else
              (let (fw, error, tables) = printStartupString returnString;
                   s = s\<lparr>m_firmware := fw\<rparr>
               in (error, case tables of None \<Rightarrow> s
                                       | Some t \<Rightarrow> s\<lparr>m_FFTCalRangeCoeff1 := t, coef_loaded := True\<rparr>))))"

definition startFlicker_c :: "bool \<Rightarrow> session \<Rightarrow> errmask \<times> session" where
  "startFlicker_c grabConstantly s =
     (let s = resetFlicker s
      in if isKV s then (FFT_NOT_SUPPORTED, s)
         else
           (let s = stopFlicker_c s; (error, s) = load_coef s
            in if error \<noteq> NONE then (error, s)
               else if \<not> coef_loaded s then (FFT_RANGE_CAL, s)
               else
                 (let s = s\<lparr>m_Flickering := True\<rparr>
                  in if grabConstantly then (NONE, startThread2_c FLICKER s)
                     else
                       (let (error, _, s) = send_c s (if isFlickerNew s then FLICKER_384PERSECOND else FLICKER_256PERSECOND)
                        in (error, s)))))"

definition setMaxAverageCount_c :: "int \<Rightarrow> session \<Rightarrow> bool \<times> session" where
  "setMaxAverageCount_c maxAvg s =
     (if MaxAvgNumber (avg s) \<noteq> maxAvg \<and> maxAvg \<le> 128 \<and> 1 \<le> maxAvg then
        (let s = stopMeasuring_c s in (True, s\<lparr>avg := (avg s)\<lparr>MaxAvgNumber := maxAvg\<rparr>\<rparr>))
      else (False, s))"

text \<open>The polling getters: the value and whether it is fresh, which they clear.\<close>

definition getMeasurement_c :: "session \<Rightarrow> (measurement_pub \<times> bool) \<times> session" where
  "getMeasurement_c s = ((m_measure s, m_isMeasurefresh s), s\<lparr>m_isMeasurefresh := False\<rparr>)"

definition getMeasureCounts_c :: "session \<Rightarrow> (Counts \<times> bool) \<times> session" where
  "getMeasureCounts_c s = ((m_counts s, m_isCountsfresh s), s\<lparr>m_isCountsfresh := False\<rparr>)"

text \<open>
  \<^verbatim>\<open>getNextMeasurement(n)\<close> (645-684).  Its do-while loop runs at most
  \<^verbatim>\<open>m_MaxAvgNumber\<close> times; \<open>fuel\<close> is that bound, taken at entry (nothing in
  the loop changes \<^verbatim>\<open>m_MaxAvgNumber\<close>), and the loop's own test is kept.
  An error returns at once, before the code restores \<^verbatim>\<open>m_MaxAvgNumber\<close>
  and frees the arrays.
\<close>

fun gnm_loop :: "nat \<Rightarrow> int \<Rightarrow> int \<Rightarrow> session \<Rightarrow> measurement_pub \<times> session" where
  "gnm_loop 0 n i s = (NoMeasurement, s)"
| "gnm_loop (Suc fuel) n i s =
     (let (error, mstring, s) = send_c s (getColorMeasurmentCommand (m_speedMode s))
      in if error \<noteq> NONE then (MeasError error, s)
         else
           (let (r, m) = parseAndPrintXYZ (xyz_cfg.truncate s) (avg s) mstring (n < 1);
                s = s\<lparr>avg := r\<rparr>;
                i = i + 1
            in if \<not> (xyz_errorcode m AND AVERAGING_LOW_LIGHT = 0 \<and> n < 1) \<and> \<not> MaxAvgNumber (avg s) \<le> i
               then gnm_loop fuel n i s else (MeasXYZ m, s)))"

definition getNextMeasurement_c :: "int \<Rightarrow> session \<Rightarrow> measurement_pub \<times> session" where
  "getNextMeasurement_c n s =
     (let (error, _, s) = send_c s (getColorMeasurmentCommand (m_speedMode s))
      in if error \<noteq> NONE then (MeasError error, s)
         else
           (let tempMaxAvg = MaxAvgNumber (avg s);
                maxAvg = (if n < 1 then tempMaxAvg else n);
                s = s\<lparr>avg := ring_alloc maxAvg, avg_alloc := True\<rparr>;
                (m, s) = gnm_loop (nat maxAvg) n 0 s
            in case m of
                 MeasError e \<Rightarrow> (m, s)
               | _ \<Rightarrow> (m, s\<lparr>avg := (avg s)\<lparr>AvgLast := 0, MaxAvgNumber := tempMaxAvg\<rparr>, avg_alloc := False\<rparr>)))"

definition setMeasureSpeedMode_c :: "SpeedMode \<Rightarrow> session \<Rightarrow> session" where
  "setMeasureSpeedMode_c value s = (let s = (if m_MeasuringN5 s then stopMeasuring_c s else s) in s\<lparr>m_speedMode := value\<rparr>)"

text \<open>\<^verbatim>\<open>getNextMeasureCount\<close> (2471-2484): one exchange to clear the buffer, one for the counts.\<close>

definition getNextMeasureCount_c :: "session \<Rightarrow> Counts \<times> session" where
  "getNextMeasureCount_c s =
     (let (error, _, s) = send_c s COUNTS_4PERSECOND
      in if error \<noteq> NONE then (counts_default\<lparr>counts_errorcode := error\<rparr>, s)
         else
           (let (error, returnString, s) = send_c s COUNTS_4PERSECOND
            in if error \<noteq> NONE then (counts_default\<lparr>counts_errorcode := error\<rparr>, s)
               else (Counts_parse returnString, s)))"

text \<open>
  \<^verbatim>\<open>closePort\<close> (2404-2451): stops colour and flicker (not counts), closes
  the port and forgets the device: calibration file, model (marked
  \<^verbatim>\<open>CLOSED\<close>), matrix and the flicker calibration.
\<close>

definition closePort_c :: "session \<Rightarrow> session" where
  "closePort_c s =
     (let s = (if m_MeasuringN5 s then stopMeasuring_c s else s);
          s = (if m_Flickering s then stopFlicker_c s else resetFlicker s)
      in s\<lparr>m_CommPort := (m_CommPort s)\<lparr>sp_open := False\<rparr>, m_CalFileID := 0,
           m_Model := (if length (m_Model s) < 6 \<or> drop (length (m_Model s) - 6) (m_Model s) \<noteq> ''CLOSED''
                       then m_Model s @ ''CLOSED'' else m_Model s),
           m_FFTCalRangeCoeff1 := replicate 3 (replicate 71 (-1)), coef_loaded := False,
           m_CalMatrix := replicate 3 (replicate 3 0)\<rparr>)"

section \<open>Events\<close>

datatype api =
    StartMeasuring | StopMeasuring | StartMeasureCounts | StopMeasureCounts
  | StartFlicker bool | StopFlicker | SetMaxAverageCount int | GetMeasurement | GetMeasureCounts
  | GetNextMeasurement int | GetNextMeasureCount | SetMeasureSpeedMode SpeedMode | ClosePort
  | SendCommand command

definition api_call :: "api \<Rightarrow> session \<Rightarrow> session" where
  "api_call a s =
     (case a of
        StartMeasuring \<Rightarrow> startMeasuring_c s
      | StopMeasuring \<Rightarrow> stopMeasuring_c s
      | StartMeasureCounts \<Rightarrow> startMeasureCounts_c s
      | StopMeasureCounts \<Rightarrow> stopMeasureCounts_c s
      | StartFlicker g \<Rightarrow> snd (startFlicker_c g s)
      | StopFlicker \<Rightarrow> stopFlicker_c s
      | SetMaxAverageCount n \<Rightarrow> snd (setMaxAverageCount_c n s)
      | GetMeasurement \<Rightarrow> snd (getMeasurement_c s)
      | GetMeasureCounts \<Rightarrow> snd (getMeasureCounts_c s)
      | GetNextMeasurement n \<Rightarrow> snd (getNextMeasurement_c n s)
      | GetNextMeasureCount \<Rightarrow> snd (getNextMeasureCount_c s)
      | SetMeasureSpeedMode v \<Rightarrow> setMeasureSpeedMode_c v s
      | ClosePort \<Rightarrow> closePort_c s
      | SendCommand m \<Rightarrow> snd (snd (send_c s m)))"

inductive sess_step :: "session \<Rightarrow> session \<Rightarrow> bool" where
  call: "sess_step s (api_call a s)"
| work: "worker_step s = Some t \<Longrightarrow> sess_step s t"

inductive sess_reachable :: "session \<Rightarrow> bool" where
  init: "sess_reachable (session_init port)"
| step: "sess_reachable s \<Longrightarrow> sess_step s t \<Longrightarrow> sess_reachable t"

section \<open>Invariant, frame relations and sample sessions\<close>

text \<open>
  The session invariant: never colour and counts at once, and a ring of the
  allocated size.  \<open>stays s t\<close> says that \<open>t\<close> switched no mode on and kept
  the invariant's ring part, \<open>cfg_same s t\<close> that it left the configuration
  alone; the stop and send paths satisfy both.  The sample sessions are the
  inputs of the witnesses.
\<close>

definition ring_shape :: "avg_ring \<Rightarrow> bool" where
  "ring_shape r \<longleftrightarrow> 1 \<le> MaxAvgNumber r \<and> 0 \<le> AvgLast r \<and> length (AvgX r) = nat (MaxAvgNumber r) \<and>
     length (AvgY r) = nat (MaxAvgNumber r) \<and> length (AvgZ r) = nat (MaxAvgNumber r)"

definition avg_ok :: "session \<Rightarrow> bool" where
  "avg_ok s \<longleftrightarrow> 1 \<le> MaxAvgNumber (avg s) \<and> (avg_alloc s \<longrightarrow> ring_shape (avg s))"

definition sess_inv :: "session \<Rightarrow> bool" where
  "sess_inv s \<longleftrightarrow> \<not> (m_MeasuringN5 s \<and> m_MeasuringM6 s) \<and> avg_ok s"

definition stays :: "session \<Rightarrow> session \<Rightarrow> bool" where
  "stays s t \<longleftrightarrow> (m_MeasuringN5 t \<longrightarrow> m_MeasuringN5 s) \<and> (m_MeasuringM6 t \<longrightarrow> m_MeasuringM6 s) \<and> (avg_ok s \<longrightarrow> avg_ok t)"

definition cfg_same :: "session \<Rightarrow> session \<Rightarrow> bool" where
  "cfg_same s t \<longleftrightarrow> coef_loaded t = coef_loaded s \<and> m_Model t = m_Model s \<and> m_speedMode t = m_speedMode s \<and>
     m_firmware t = m_firmware s \<and> m_DeviceFlickerSpeed t = m_DeviceFlickerSpeed s"

definition port_idle :: serial where
  "port_idle = \<lparr>sp_open = True, sp_rx = [], sp_tx = []\<rparr>"

definition sess_measuring :: session where
  "sess_measuring = (session_init port_idle)\<lparr>m_Model := ''K-10'', m_MeasuringN5 := True, coef_loaded := True,
     avg := ring_alloc 32, avg_alloc := True, worker := Some MEASURE, parent_run := True\<rparr>"

definition sess_counting :: session where
  "sess_counting = (session_init port_idle)\<lparr>m_MeasuringM6 := True, worker := Some COUNTS, parent_run := True\<rparr>"

definition port_one_reply :: serial where
  "port_one_reply = \<lparr>sp_open = True, sp_rx = [Chunk [], Chunk (replicate 15 (CHR ''x'')), Chunk [], Unplug], sp_tx = []\<rparr>"

definition port_flicker_info :: serial where
  "port_flicker_info = \<lparr>sp_open = True, sp_rx = [Chunk [], Chunk startup_reply], sp_tx = []\<rparr>"

section \<open>Properties\<close>

lemma stays_refl [simp]: "stays s s"
  by (simp add: stays_def)

lemma stays_upd [simp]:
  "stays s (t\<lparr>m_CommPort := p\<rparr>) = stays s t"
  "stays s (t\<lparr>m_Flickering := b\<rparr>) = stays s t"
  "stays s (t\<lparr>worker := w\<rparr>) = stays s t"
  "stays s (t\<lparr>worker_prefix := b\<rparr>) = stays s t"
  "stays s (t\<lparr>parent_run := b\<rparr>) = stays s t"
  "stays s (t\<lparr>m_measure := m\<rparr>) = stays s t"
  "stays s (t\<lparr>m_counts := c\<rparr>) = stays s t"
  "stays s (t\<lparr>m_isMeasurefresh := b\<rparr>) = stays s t"
  "stays s (t\<lparr>m_isCountsfresh := b\<rparr>) = stays s t"
  "stays s (t\<lparr>m_firmware := f\<rparr>) = stays s t"
  "stays s (t\<lparr>m_FFTCalRangeCoeff1 := cs\<rparr>) = stays s t"
  "stays s (t\<lparr>coef_loaded := b\<rparr>) = stays s t"
  "stays s (t\<lparr>m_speedMode := v\<rparr>) = stays s t"
  "stays s (t\<lparr>m_CalFileID := i\<rparr>) = stays s t"
  "stays s (t\<lparr>m_Model := md\<rparr>) = stays s t"
  "stays s (t\<lparr>m_CalMatrix := cm\<rparr>) = stays s t"
  "stays s (resetFlicker t) = stays s t"
  by (simp_all add: stays_def avg_ok_def resetFlicker_def)

lemma port_send_eq:
  "port_send s msg e t =
     (fst (sendMessageToSerialPort (m_CommPort s) msg e t), fst (snd (sendMessageToSerialPort (m_CommPort s) msg e t)),
      s\<lparr>m_CommPort := snd (snd (sendMessageToSerialPort (m_CommPort s) msg e t))\<rparr>)"
  by (simp add: port_send_def split_def Let_def)

lemma send_guard_stays:
  assumes "\<And>t. stays s t \<Longrightarrow> stays s (f1 t)" "\<And>t. stays s t \<Longrightarrow> stays s (f2 t)"
    "\<And>t. stays s t \<Longrightarrow> stays s (f3 t)" "stays s t"
  shows "stays s (send_guard f1 f2 f3 t m e)"
  using assms by (simp add: send_guard_def Let_def)

lemma stop_w_stays [stays_rules]:
  "stays s t \<Longrightarrow> stays s (stopMeasuring_w t)"
  "stays s t \<Longrightarrow> stays s (stopMeasureCounts_w t)"
  "stays s t \<Longrightarrow> stays s (stopFlicker_w t)"
  by (auto simp: stays_def avg_ok_def stopMeasuring_w_def stopMeasureCounts_w_def stopFlicker_w_def stopThread2_w_def Let_def)

lemma send_w_stays [stays_rules]: "stays s t \<Longrightarrow> stays s (snd (snd (send_w t m)))"
  unfolding send_w_def port_send_eq by (simp add: send_guard_stays stop_w_stays)

lemma endThread_w_stays [stays_rules]: "stays s t \<Longrightarrow> stays s (endThread_w t)"
  by (simp add: endThread_w_def endFlicker_w_def Let_def split_def send_w_stays)

lemma run_prefix_stays [stays_rules]: "stays s t \<Longrightarrow> stays s (run_prefix t)"
  by (simp add: run_prefix_def send_w_stays)

lemma stopThread2_c_stays [stays_rules]: "stays s t \<Longrightarrow> stays s (stopThread2_c t)"
  by (simp add: stopThread2_c_def endThread_w_stays run_prefix_stays)

lemma stop_c_stays [stays_rules]:
  "stays s t \<Longrightarrow> stays s (stopMeasuring_c t)"
  "stays s t \<Longrightarrow> stays s (stopMeasureCounts_c t)"
  "stays s t \<Longrightarrow> stays s (stopFlicker_c t)"
proof -
  assume "stays s t"
  then have "stays s (stopThread2_c t)"
    by (rule stopThread2_c_stays)
  then show "stays s (stopMeasuring_c t)" "stays s (stopMeasureCounts_c t)"
    by (auto simp: stays_def avg_ok_def stopMeasuring_c_def stopMeasureCounts_c_def Let_def)
  show "stays s (stopFlicker_c t)"
    using \<open>stays s t\<close> by (simp add: stopFlicker_c_def stopThread2_c_stays)
qed

lemma send_c_stays [stays_rules]: "stays s t \<Longrightarrow> stays s (snd (snd (send_c t m)))"
  unfolding send_c_def port_send_eq by (simp add: send_guard_stays stop_c_stays)

lemma startThread2_c_stays [stays_rules]: "stays s t \<Longrightarrow> stays s (startThread2_c m t)"
  by (simp add: startThread2_c_def stopThread2_c_stays)

lemma load_coef_stays [stays_rules]: "stays s t \<Longrightarrow> stays s (snd (load_coef t))"
  by (simp add: load_coef_def Let_def split_def send_c_stays split: option.split)

lemma startFlicker_c_stays [stays_rules]: "stays s t \<Longrightarrow> stays s (snd (startFlicker_c g t))"
  by (simp add: startFlicker_c_def Let_def split_def stays_rules)

lemma stopMeasuring_c_alloc [simp]: "avg_alloc (stopMeasuring_c t) = False" "m_MeasuringN5 (stopMeasuring_c t) = False"
  by (simp_all add: stopMeasuring_c_def Let_def)

lemma setMaxAverageCount_c_stays [stays_rules]: "stays s t \<Longrightarrow> stays s (snd (setMaxAverageCount_c n t))"
proof -
  assume "stays s t"
  then have "stays s (stopMeasuring_c t)"
    by (rule stop_c_stays)
  with \<open>stays s t\<close> show ?thesis
    by (auto simp: setMaxAverageCount_c_def stays_def avg_ok_def Let_def)
qed

lemma getters_stays [stays_rules]:
  "stays s t \<Longrightarrow> stays s (snd (getMeasurement_c t))"
  "stays s t \<Longrightarrow> stays s (snd (getMeasureCounts_c t))"
  "stays s t \<Longrightarrow> stays s (setMeasureSpeedMode_c v t)"
  "stays s t \<Longrightarrow> stays s (snd (getNextMeasureCount_c t))"
  "stays s t \<Longrightarrow> stays s (closePort_c t)"
  by (simp_all add: getMeasurement_c_def getMeasureCounts_c_def setMeasureSpeedMode_c_def getNextMeasureCount_c_def
      closePort_c_def Let_def split_def stays_rules)

lemma parseAndPrintXYZ_ring:
  "MaxAvgNumber (fst (parseAndPrintXYZ c r m a)) = MaxAvgNumber r"
  "ring_shape r \<Longrightarrow> ring_shape (fst (parseAndPrintXYZ c r m a))"
  by (simp_all add: parseAndPrintXYZ_def boxCarAvg_def Let_def split_def ring_shape_def)

lemma parse_stays [stays_rules]:
  "stays s t \<Longrightarrow> stays s (t\<lparr>avg := fst (parseAndPrintXYZ c (avg t) m a)\<rparr>)"
  by (auto simp: stays_def avg_ok_def parseAndPrintXYZ_ring)

lemma gnm_loop_stays [stays_rules]: "stays s t \<Longrightarrow> stays s (snd (gnm_loop f n i t))"
proof (induction f arbitrary: i t)
  case (Suc f)
  then show ?case
    by (simp add: Let_def split_def stays_rules)
qed simp

lemma getNextMeasurement_c_stays [stays_rules]: "stays s t \<Longrightarrow> stays s (snd (getNextMeasurement_c n t))"
proof -
  assume t: "stays s t"
  define t1 where "t1 = snd (snd (send_c t (getColorMeasurmentCommand (m_speedMode t))))"
  define M where "M = (if n < 1 then MaxAvgNumber (avg t1) else n)"
  define t2 where "t2 = t1\<lparr>avg := ring_alloc M, avg_alloc := True\<rparr>"
  have t1: "stays s t1"
    unfolding t1_def using t by (rule send_c_stays)
  then have "stays s t2"
    by (auto simp: t2_def M_def stays_def avg_ok_def ring_shape_def ring_alloc_def)
  then have t3: "stays s (snd (gnm_loop (nat M) n 0 t2))"
    by (rule gnm_loop_stays)
  show ?thesis
    using t1 t3 unfolding getNextMeasurement_c_def Let_def split_def t1_def [symmetric] M_def [symmetric] t2_def [symmetric]
    by (auto simp: stays_def avg_ok_def split: measurement_pub.split)
qed

lemma measure_iter_stays: "measure_iter t = Some t' \<Longrightarrow> stays s t \<Longrightarrow> stays s t'"
  by (auto simp: measure_iter_def Let_def split_def stays_rules split: if_splits)

lemma counts_iter_stays [stays_rules]: "stays s t \<Longrightarrow> stays s (counts_iter t)"
  by (simp add: counts_iter_def Let_def split_def stays_rules)

lemma worker_step_stays: "worker_step t = Some t' \<Longrightarrow> stays t t'"
  by (auto simp: worker_step_def stays_rules measure_iter_stays split: option.splits if_splits MeasureMode.splits)

lemma stopThread2_c_worker [simp]: "worker (stopThread2_c t) = None"
  by (simp add: stopThread2_c_def endThread_w_def)

lemma stopThread2_c_idle [simp]: "worker t = None \<Longrightarrow> stopThread2_c t = t"
  by (simp add: stopThread2_c_def)

lemma stop_c_worker [simp]:
  "worker (stopMeasuring_c t) = None" "worker (stopMeasureCounts_c t) = None"
  by (simp_all add: stopMeasuring_c_def stopMeasureCounts_c_def Let_def)

lemma stays_inv: "stays s t \<Longrightarrow> sess_inv s \<Longrightarrow> sess_inv t"
  by (auto simp: stays_def sess_inv_def)

lemma startMeasuring_c_inv: "sess_inv t \<Longrightarrow> sess_inv (startMeasuring_c t)"
proof -
  assume inv: "sess_inv t"
  define t2 where "t2 = stopMeasureCounts_c (stopFlicker_c t)"
  have "stays t t2"
    unfolding t2_def by (intro stays_rules stays_refl)
  then have "1 \<le> MaxAvgNumber (avg t2)"
    using inv by (simp add: stays_def sess_inv_def avg_ok_def)
  moreover have "\<not> m_MeasuringM6 t2" "worker t2 = None"
    by (simp_all add: t2_def stopMeasureCounts_c_def)
  ultimately show ?thesis
    unfolding startMeasuring_c_def Let_def t2_def [symmetric]
    by (simp add: startThread2_c_def sess_inv_def avg_ok_def ring_shape_def ring_alloc_def)
qed

lemma startMeasureCounts_c_inv: "sess_inv t \<Longrightarrow> sess_inv (startMeasureCounts_c t)"
proof -
  assume inv: "sess_inv t"
  define t2 where "t2 = stopMeasuring_c (stopFlicker_c t)"
  have "stays t t2"
    unfolding t2_def by (intro stays_rules stays_refl)
  then have "avg_ok t2"
    using inv by (simp add: stays_def sess_inv_def)
  then show ?thesis
    unfolding startMeasureCounts_c_def Let_def t2_def [symmetric]
    by (simp add: t2_def startThread2_c_def sess_inv_def avg_ok_def)
qed

lemma api_call_stays: "a \<noteq> StartMeasuring \<Longrightarrow> a \<noteq> StartMeasureCounts \<Longrightarrow> stays t (api_call a t)"
  by (cases a) (simp_all add: api_call_def stays_rules)

lemma api_call_inv: "sess_inv t \<Longrightarrow> sess_inv (api_call a t)"
  using api_call_stays [of a t] stays_inv [of t "api_call a t"]
  by (cases "a = StartMeasuring \<or> a = StartMeasureCounts")
     (auto simp: api_call_def startMeasuring_c_inv startMeasureCounts_c_inv)

lemma sess_step_inv: "sess_step s t \<Longrightarrow> sess_inv s \<Longrightarrow> sess_inv t"
  by (induction rule: sess_step.induct) (auto intro: api_call_inv stays_inv worker_step_stays)

text \<open>
  C1.  In every state the session can reach from the constructor, by API
  calls and worker steps in any order, colour and counts acquisition are
  never both on, the maximum average count stays at least 1, and while the
  averaging arrays are allocated they have exactly \<^verbatim>\<open>m_MaxAvgNumber\<close>
  entries and \<^verbatim>\<open>m_AvgLast\<close> is not negative, so every index \<^verbatim>\<open>boxCarAvg\<close>
  computes is inside them.
\<close>

theorem sess_reachable_inv: "sess_reachable s \<Longrightarrow> sess_inv s"
proof (induction rule: sess_reachable.induct)
  case (init port)
  then show ?case
    by (simp add: sess_inv_def avg_ok_def session_init_def)
next
  case (step s t)
  then show ?case
    using sess_step_inv by blast
qed

lemmas session_cmds = mk_command_def COLOR_2PERSECOND_def COLOR_4PERSECOND_def COLOR_8PERSECOND_def
  COLOR_16PERSECOND_def DUMMY_def FLICKER_INFO_def FLICKER_256PERSECOND_def FLICKER_384PERSECOND_def
  COUNTS_4PERSECOND_def

lemma stays_flags: "stays s t \<Longrightarrow> \<not> m_MeasuringN5 s \<Longrightarrow> \<not> m_MeasuringN5 t"
  "stays s t \<Longrightarrow> \<not> m_MeasuringM6 s \<Longrightarrow> \<not> m_MeasuringM6 t"
  by (auto simp: stays_def)

lemma send_c_stops_modes:
  assumes "\<not> is_color_cmd (commandString m)" "commandString m \<noteq> commandString COUNTS_4PERSECOND"
  shows "\<not> m_MeasuringN5 (snd (snd (send_c t m))) \<and> \<not> m_MeasuringM6 (snd (snd (send_c t m)))"
proof -
  define t1 where "t1 = (if m_MeasuringN5 t \<and> \<not> is_color_cmd (commandString m) then stopMeasuring_c t else t)"
  define t2 where "t2 = (if m_MeasuringM6 t1 \<and> commandString m \<noteq> commandString COUNTS_4PERSECOND then stopMeasureCounts_c t1 else t1)"
  define t3 where "t3 = (if m_Flickering t2 \<and> cmd_expected m \<noteq> -1 \<and> \<not> is_flicker_cmd (commandString m) then stopFlicker_c t2 else t2)"
  have "\<not> m_MeasuringN5 t1"
    using assms by (simp add: t1_def)
  moreover have "stays t1 t2" "stays t2 t3"
    by (simp_all add: t2_def t3_def stays_rules)
  moreover have "\<not> m_MeasuringM6 t2"
    using assms by (simp add: t2_def stopMeasureCounts_c_def)
  ultimately have "\<not> m_MeasuringN5 t3 \<and> \<not> m_MeasuringM6 t3"
    by (auto simp: stays_def)
  moreover have "send_c t m = port_send t3 (commandString m) (cmd_expected m) (cmd_timeout m)"
    unfolding send_c_def send_guard_def Let_def t1_def t2_def t3_def by (rule refl)
  ultimately show ?thesis
    by (simp add: port_send_eq)
qed

lemma cmd_facts [simp]:
  "cmd_expected FLICKER_256PERSECOND = -1" "cmd_expected FLICKER_384PERSECOND = -1" "cmd_expected DUMMY = -1"
  "\<not> is_color_cmd (commandString FLICKER_256PERSECOND)" "\<not> is_color_cmd (commandString FLICKER_384PERSECOND)"
  "\<not> is_color_cmd (commandString DUMMY)" "\<not> is_color_cmd (commandString FLICKER_INFO)"
  "is_color_cmd (commandString (getColorMeasurmentCommand sm))"
  "commandString FLICKER_256PERSECOND \<noteq> commandString COUNTS_4PERSECOND"
  "commandString FLICKER_384PERSECOND \<noteq> commandString COUNTS_4PERSECOND"
  "commandString DUMMY \<noteq> commandString COUNTS_4PERSECOND"
  "commandString FLICKER_INFO \<noteq> commandString COUNTS_4PERSECOND"
  "commandString (getColorMeasurmentCommand sm) \<noteq> commandString COUNTS_4PERSECOND"
  by (simp_all add: is_color_cmd_def session_cmds getColorMeasurmentCommand_def split: SpeedMode.split)

lemma send_guard_idle:
  "\<not> (m_MeasuringN5 t \<and> \<not> is_color_cmd msg) \<Longrightarrow> \<not> (m_MeasuringM6 t \<and> msg \<noteq> commandString COUNTS_4PERSECOND) \<Longrightarrow>
   \<not> (m_Flickering t \<and> e \<noteq> -1 \<and> \<not> is_flicker_cmd msg) \<Longrightarrow> send_guard f1 f2 f3 t msg e = t"
  unfolding send_guard_def Let_def by presburger

lemma run_prefix_other [simp]: "worker t \<noteq> Some FLICKER \<Longrightarrow> run_prefix t = t\<lparr>worker_prefix := False\<rparr>"
  by (simp add: run_prefix_def)

lemma endThread_w_other [simp]: "worker t \<noteq> Some FLICKER \<Longrightarrow> endThread_w t = t\<lparr>worker := None\<rparr>"
  by (simp add: endThread_w_def)

lemma send_w_idle:
  "\<not> m_MeasuringN5 t \<Longrightarrow> \<not> m_MeasuringM6 t \<Longrightarrow> cmd_expected m = -1 \<Longrightarrow>
   send_w t m = port_send t (commandString m) (cmd_expected m) (cmd_timeout m)"
  by (simp add: send_w_def send_guard_idle)

lemma endFlicker_w_flags:
  "\<not> m_MeasuringN5 t \<Longrightarrow> \<not> m_MeasuringM6 t \<Longrightarrow>
   \<not> m_Flickering (endFlicker_w t) \<and> worker (endFlicker_w t) = worker t"
  by (simp add: endFlicker_w_def Let_def split_def send_w_idle port_send_eq resetFlicker_def)

text \<open>
  C2.  \<^verbatim>\<open>startFlicker(true)\<close> called while colour acquisition runs and the
  flicker calibration is already loaded stops the colour worker but not the
  colour mode: it reports success with \<^verbatim>\<open>m_MeasuringN5\<close> and
  \<^verbatim>\<open>m_Flickering\<close> both set, and the new flicker worker's first command
  then stops the worker itself through the guard, so it ends without taking
  a single flicker sample.
\<close>

theorem startFlicker_while_measuring:
  assumes "m_MeasuringN5 s" "\<not> m_MeasuringM6 s" "coef_loaded s" "\<not> isKV s" "worker s = Some MEASURE"
  shows "\<exists>t u v. startFlicker_c True s = (NONE, t) \<and> m_MeasuringN5 t \<and> m_Flickering t \<and> worker t = Some FLICKER \<and>
           worker_step t = Some u \<and> \<not> m_MeasuringN5 u \<and> \<not> parent_run u \<and>
           worker_step u = Some v \<and> worker v = None \<and> \<not> m_Flickering v"
proof -
  define t where "t = startThread2_c FLICKER ((stopFlicker_c (resetFlicker s))\<lparr>m_Flickering := True\<rparr>)"
  have start: "startFlicker_c True s = (NONE, t)" and t: "m_MeasuringN5 t" "m_Flickering t" "\<not> m_MeasuringM6 t"
    "worker t = Some FLICKER" "worker_prefix t"
    using assms by (simp_all add: t_def startFlicker_c_def load_coef_def Let_def stopFlicker_c_def stopThread2_c_def
      startThread2_c_def resetFlicker_def isKV_def)
  define c where "c = (if isFlickerNew t then FLICKER_384PERSECOND else FLICKER_256PERSECOND)"
  have "\<not> is_color_cmd (commandString c)" "commandString c \<noteq> commandString COUNTS_4PERSECOND" "cmd_expected c = -1"
    by (simp_all add: c_def)
  then have "send_w t c = port_send (stopMeasuring_w t) (commandString c) (cmd_expected c) (cmd_timeout c)"
    using t by (simp add: send_w_def send_guard_def Let_def stopMeasuring_w_def stopThread2_w_def)
  then have u: "worker_step t = Some (run_prefix t)" "\<not> m_MeasuringN5 (run_prefix t)" "\<not> m_MeasuringM6 (run_prefix t)"
    "\<not> parent_run (run_prefix t)" "\<not> worker_prefix (run_prefix t)" "worker (run_prefix t) = Some FLICKER"
    using t by (simp_all add: worker_step_def run_prefix_def c_def [symmetric] port_send_eq stopMeasuring_w_def
      stopThread2_w_def Let_def)
  then have "worker_step (run_prefix t) = Some (endThread_w (run_prefix t))"
    "worker (endThread_w (run_prefix t)) = None" "\<not> m_Flickering (endThread_w (run_prefix t))"
    using endFlicker_w_flags [of "run_prefix t"] by (simp_all add: worker_step_def endThread_w_def)
  with start t u show ?thesis
    by blast
qed

lemma cfg_same_refl [simp]: "cfg_same s s"
  by (simp add: cfg_same_def)

lemma cfg_same_upd [simp]:
  "cfg_same s (t\<lparr>m_CommPort := p\<rparr>) = cfg_same s t" "cfg_same s (t\<lparr>m_Flickering := b\<rparr>) = cfg_same s t"
  "cfg_same s (t\<lparr>worker := w\<rparr>) = cfg_same s t" "cfg_same s (t\<lparr>worker_prefix := b\<rparr>) = cfg_same s t"
  "cfg_same s (t\<lparr>parent_run := b\<rparr>) = cfg_same s t" "cfg_same s (t\<lparr>m_MeasuringN5 := b\<rparr>) = cfg_same s t"
  "cfg_same s (t\<lparr>m_MeasuringM6 := b\<rparr>) = cfg_same s t" "cfg_same s (resetFlicker t) = cfg_same s t"
  "cfg_same s (t\<lparr>avg := r, m_MeasuringN5 := b, avg_alloc := b'\<rparr>) = cfg_same s t"
  by (simp_all add: cfg_same_def resetFlicker_def)

lemma send_guard_rel:
  assumes "\<And>t. R s t \<Longrightarrow> R s (f1 t)" "\<And>t. R s t \<Longrightarrow> R s (f2 t)" "\<And>t. R s t \<Longrightarrow> R s (f3 t)" "R s t"
  shows "R s (send_guard f1 f2 f3 t m e)"
  using assms by (simp add: send_guard_def Let_def)

lemma cfg_same_stop_w [cfg_rules]:
  "cfg_same s t \<Longrightarrow> cfg_same s (stopMeasuring_w t)" "cfg_same s t \<Longrightarrow> cfg_same s (stopMeasureCounts_w t)"
  "cfg_same s t \<Longrightarrow> cfg_same s (stopFlicker_w t)"
  by (simp_all add: stopMeasuring_w_def stopMeasureCounts_w_def stopFlicker_w_def stopThread2_w_def Let_def)

lemma cfg_same_send_w [cfg_rules]: "cfg_same s t \<Longrightarrow> cfg_same s (snd (snd (send_w t m)))"
  unfolding send_w_def port_send_eq by (simp add: send_guard_rel cfg_same_stop_w)

lemma cfg_same_stopThread2_c [cfg_rules]: "cfg_same s t \<Longrightarrow> cfg_same s (stopThread2_c t)"
  by (simp add: stopThread2_c_def endThread_w_def endFlicker_w_def run_prefix_def Let_def split_def cfg_same_send_w)

lemma cfg_same_stop_c [cfg_rules]:
  "cfg_same s t \<Longrightarrow> cfg_same s (stopMeasuring_c t)" "cfg_same s t \<Longrightarrow> cfg_same s (stopMeasureCounts_c t)"
  "cfg_same s t \<Longrightarrow> cfg_same s (stopFlicker_c t)"
  by (simp_all add: stopMeasuring_c_def stopMeasureCounts_c_def stopFlicker_c_def Let_def cfg_same_stopThread2_c)

lemma cfg_same_send_c [cfg_rules]: "cfg_same s t \<Longrightarrow> cfg_same s (snd (snd (send_c t m)))"
  unfolding send_c_def port_send_eq by (simp add: send_guard_rel cfg_same_stop_c)

lemma stopFlicker_c_worker [simp]: "worker (stopFlicker_c t) = None"
  by (simp add: stopFlicker_c_def resetFlicker_def)

lemma send_c_worker: "worker t = None \<Longrightarrow> worker (snd (snd (send_c t m))) = None"
  by (simp add: send_c_def port_send_eq send_guard_def Let_def)

lemma load_coef_worker: "worker t = None \<Longrightarrow> worker (snd (load_coef t)) = None"
  by (simp add: load_coef_def Let_def split_def send_c_worker split: option.split)

text \<open>
  C3.  When the flicker calibration is not yet loaded, a successful
  \<^verbatim>\<open>startFlicker(true)\<close> has sent \<^verbatim>\<open>P4\<close> through the guard, which stopped
  colour and counts acquisition: it leaves only flicker mode on, with a
  flicker worker whose start command does not stop it.
\<close>

theorem startFlicker_first_stops_modes:
  assumes "\<not> coef_loaded s" "startFlicker_c True s = (NONE, t)"
  shows "\<not> m_MeasuringN5 t \<and> \<not> m_MeasuringM6 t \<and> m_Flickering t \<and> worker t = Some FLICKER \<and> parent_run (run_prefix t)"
proof -
  define s1 where "s1 = stopFlicker_c (resetFlicker s)"
  define s2 where "s2 = snd (snd (send_c s1 FLICKER_INFO))"
  have "cfg_same (resetFlicker s) s1"
    unfolding s1_def by (rule cfg_rules cfg_same_refl)+
  then have c1: "\<not> coef_loaded s1"
    using assms(1) by (simp add: cfg_same_def resetFlicker_def)
  have m2: "\<not> m_MeasuringN5 s2" "\<not> m_MeasuringM6 s2"
    using send_c_stops_modes [of FLICKER_INFO s1] by (simp_all add: s2_def)
  have nk: "\<not> isKV s" and lc: "fst (load_coef s1) = NONE" and cl: "coef_loaded (snd (load_coef s1))"
    and t: "t = startThread2_c FLICKER ((snd (load_coef s1))\<lparr>m_Flickering := True\<rparr>)"
    using assms(2) by (auto simp: startFlicker_c_def Let_def split_def s1_def errcode_defs resetFlicker_def
                          isKV_def split: if_splits)
  have "stays s2 (snd (load_coef s1))"
    using c1 lc by (auto simp: load_coef_def Let_def split_def s2_def split: option.splits if_splits)
  then have m3: "\<not> m_MeasuringN5 (snd (load_coef s1))" "\<not> m_MeasuringM6 (snd (load_coef s1))"
    using m2 by (auto simp: stays_def)
  then have tf: "\<not> m_MeasuringN5 t" "\<not> m_MeasuringM6 t" "m_Flickering t" "worker t = Some FLICKER" "parent_run t"
    using load_coef_worker [of s1] by (simp_all add: t startThread2_c_def s1_def)
  then have "parent_run (run_prefix t)"
    by (simp add: run_prefix_def send_w_idle port_send_eq)
  with tf show ?thesis
    by simp
qed

lemma send_c_color_idle:
  "\<not> m_MeasuringM6 t \<Longrightarrow> \<not> m_Flickering t \<Longrightarrow>
   send_c t (getColorMeasurmentCommand sm) =
   port_send t (commandString (getColorMeasurmentCommand sm)) (cmd_expected (getColorMeasurmentCommand sm))
     (cmd_timeout (getColorMeasurmentCommand sm))"
  by (simp add: send_c_def send_guard_idle)

lemma gnm_loop_frame:
  assumes "\<not> m_MeasuringM6 t" "\<not> m_Flickering t"
  shows "worker (snd (gnm_loop f n i t)) = worker t \<and> parent_run (snd (gnm_loop f n i t)) = parent_run t \<and>
         worker_prefix (snd (gnm_loop f n i t)) = worker_prefix t \<and> \<not> m_MeasuringM6 (snd (gnm_loop f n i t)) \<and>
         \<not> m_Flickering (snd (gnm_loop f n i t)) \<and> m_MeasuringN5 (snd (gnm_loop f n i t)) = m_MeasuringN5 t \<and>
         avg_alloc (snd (gnm_loop f n i t)) = avg_alloc t \<and>
         MaxAvgNumber (avg (snd (gnm_loop f n i t))) = MaxAvgNumber (avg t)"
  using assms
proof (induction f arbitrary: i t)
  case (Suc f)
  then show ?case
    by (simp add: Let_def split_def send_c_color_idle port_send_eq parseAndPrintXYZ_ring)
qed simp

text \<open>
  C5.  A failed exchange inside the averaging loop of
  \<^verbatim>\<open>getNextMeasurement(n)\<close> returns before the code restores
  \<^verbatim>\<open>m_MaxAvgNumber\<close> and frees the arrays: the caller's \<open>n\<close>, never
  checked against the bounds \<^verbatim>\<open>setMaxAverageCount\<close> enforces, stays the
  maximum average count and the arrays stay allocated.
\<close>

theorem getNextMeasurement_error_keeps_n:
  assumes "1 \<le> n" "\<not> m_MeasuringM6 s" "\<not> m_Flickering s"
    "fst (send_c s (getColorMeasurmentCommand (m_speedMode s))) = NONE"
    "getNextMeasurement_c n s = (MeasError e, t)"
  shows "MaxAvgNumber (avg t) = n \<and> avg_alloc t"
proof -
  define t1 where "t1 = snd (snd (send_c s (getColorMeasurmentCommand (m_speedMode s))))"
  define t2 where "t2 = t1\<lparr>avg := ring_alloc n, avg_alloc := True\<rparr>"
  have t1: "\<not> m_MeasuringM6 t1" "\<not> m_Flickering t1"
    using assms(2,3) by (simp_all add: t1_def send_c_color_idle port_send_eq)
  have "t = snd (gnm_loop (nat n) n 0 t2)"
    using assms(1,4,5) unfolding getNextMeasurement_c_def Let_def split_def t1_def [symmetric]
    by (auto simp: t2_def split: measurement_pub.splits)
  moreover have "\<not> m_MeasuringM6 t2" "\<not> m_Flickering t2"
    using t1 by (simp_all add: t2_def)
  ultimately show ?thesis
    using gnm_loop_frame [of t2 "nat n" n 0] by (simp add: t2_def ring_alloc_def)
qed

text \<open>
  C4.  \<^verbatim>\<open>getNextMeasurement\<close> called while the colour worker runs does not
  stop it (its colour command passes the guard), and on success it frees the
  averaging arrays the worker uses: the worker keeps running, and its next
  successful exchange dereferences the freed arrays (the model's \<open>None\<close>).
\<close>

theorem getNextMeasurement_under_worker:
  assumes "worker s = Some MEASURE" "\<not> worker_prefix s" "parent_run s" "\<not> m_MeasuringM6 s" "\<not> m_Flickering s"
    "getNextMeasurement_c n s = (m, t)"
  shows "(\<exists>e. m = MeasError e) \<or>
         (\<not> avg_alloc t \<and> worker t = Some MEASURE \<and> parent_run t \<and>
          (fst (send_w t (getColorMeasurmentCommand (m_speedMode t))) = NONE \<longrightarrow> worker_step t = None))"
proof (cases "\<exists>e. m = MeasError e")
  case False
  define t1 where "t1 = snd (snd (send_c s (getColorMeasurmentCommand (m_speedMode s))))"
  define M where "M = (if n < 1 then MaxAvgNumber (avg t1) else n)"
  define t2 where "t2 = t1\<lparr>avg := ring_alloc M, avg_alloc := True\<rparr>"
  have t2: "worker t2 = Some MEASURE" "\<not> worker_prefix t2" "parent_run t2" "\<not> m_MeasuringM6 t2" "\<not> m_Flickering t2"
    using assms(1-5) by (simp_all add: t2_def t1_def send_c_color_idle port_send_eq)
  have t: "t = (snd (gnm_loop (nat M) n 0 t2))\<lparr>avg := (avg (snd (gnm_loop (nat M) n 0 t2)))\<lparr>AvgLast := 0,
              MaxAvgNumber := MaxAvgNumber (avg t1)\<rparr>, avg_alloc := False\<rparr>"
    using False assms(6) unfolding getNextMeasurement_c_def Let_def split_def t1_def [symmetric] M_def [symmetric]
      t2_def [symmetric]
    by (auto split: if_splits measurement_pub.splits simp: eq_commute [of "MeasError _"])
  have "\<not> avg_alloc t" "worker t = Some MEASURE" "parent_run t" "\<not> worker_prefix t" "\<not> m_MeasuringM6 t"
    "\<not> m_Flickering t"
    using gnm_loop_frame [of t2 "nat M" n 0] t2 by (simp_all add: t)
  then have "fst (send_w t (getColorMeasurmentCommand (m_speedMode t))) = NONE \<longrightarrow> worker_step t = None"
    by (simp add: worker_step_def measure_iter_def send_w_def send_guard_idle Let_def split_def port_send_eq)
  with \<open>\<not> avg_alloc t\<close> \<open>worker t = Some MEASURE\<close> \<open>parent_run t\<close> show ?thesis
    by blast
qed blast

text \<open>
  C6.  \<^verbatim>\<open>closePort\<close> stops colour and flicker acquisition but not counts: the
  counts worker's next exchange fails with \<^verbatim>\<open>NOT_OPEN\<close>, which it reports by
  setting \<^verbatim>\<open>m_isMeasurefresh\<close> instead of \<^verbatim>\<open>m_isCountsfresh\<close>; the worker then
  ends while \<^verbatim>\<open>m_MeasuringM6\<close> stays set.
\<close>

theorem closePort_leaves_counts:
  assumes "worker s = Some COUNTS" "\<not> worker_prefix s" "parent_run s" "m_MeasuringM6 s" "\<not> m_MeasuringN5 s"
    "\<not> m_Flickering s"
  shows "\<exists>u v. m_MeasuringM6 (closePort_c s) \<and> worker_step (closePort_c s) = Some u \<and>
           counts_errorcode (m_counts u) = NOT_OPEN \<and> m_isMeasurefresh u \<and> m_isCountsfresh u = m_isCountsfresh s \<and>
           \<not> parent_run u \<and> worker_step u = Some v \<and> worker v = None \<and> m_MeasuringM6 v"
proof -
  define t where "t = closePort_c s"
  have t: "worker t = Some COUNTS" "\<not> worker_prefix t" "parent_run t" "m_MeasuringM6 t" "\<not> m_MeasuringN5 t"
    "\<not> m_Flickering t" "\<not> sp_open (m_CommPort t)" "m_isCountsfresh t = m_isCountsfresh s"
    using assms by (simp_all add: t_def closePort_c_def Let_def resetFlicker_def)
  then have "send_w t COUNTS_4PERSECOND = (NOT_OPEN, [], t)"
    by (simp add: send_w_def send_guard_idle port_send_def sendMessageToSerialPort_def)
  then have u: "worker_step t = Some (counts_iter t)" "counts_errorcode (m_counts (counts_iter t)) = NOT_OPEN"
    "m_isMeasurefresh (counts_iter t)" "m_isCountsfresh (counts_iter t) = m_isCountsfresh s"
    "\<not> parent_run (counts_iter t)" "worker (counts_iter t) = Some COUNTS" "\<not> worker_prefix (counts_iter t)"
    "m_MeasuringM6 (counts_iter t)"
    using t by (simp_all add: worker_step_def counts_iter_def errcode_defs)
  then have "worker_step (counts_iter t) = Some ((counts_iter t)\<lparr>worker := None\<rparr>)"
    by (simp add: worker_step_def)
  with t u have "m_MeasuringM6 t \<and> worker_step t = Some (counts_iter t) \<and>
      counts_errorcode (m_counts (counts_iter t)) = NOT_OPEN \<and> m_isMeasurefresh (counts_iter t) \<and>
      m_isCountsfresh (counts_iter t) = m_isCountsfresh s \<and> \<not> parent_run (counts_iter t) \<and>
      worker_step (counts_iter t) = Some ((counts_iter t)\<lparr>worker := None\<rparr>) \<and>
      worker ((counts_iter t)\<lparr>worker := None\<rparr>) = None \<and> m_MeasuringM6 ((counts_iter t)\<lparr>worker := None\<rparr>)"
    by simp
  then show ?thesis
    unfolding t_def by blast
qed

subsection \<open>Witnesses\<close>

lemma err_ne_NONE: "LOST_CONNECTION \<noteq> NONE" "TIMED_OUT \<noteq> NONE" "NOT_OPEN \<noteq> NONE"
  by (simp_all add: errcode_defs)

lemma startFlicker_while_measuring_witness:
  "m_MeasuringN5 sess_measuring \<and> \<not> m_MeasuringM6 sess_measuring \<and> coef_loaded sess_measuring \<and>
   \<not> isKV sess_measuring \<and> worker sess_measuring = Some MEASURE \<and>
   (\<exists>t u v. startFlicker_c True sess_measuring = (NONE, t) \<and> m_MeasuringN5 t \<and> m_Flickering t \<and>
      worker t = Some FLICKER \<and> worker_step t = Some u \<and> \<not> m_MeasuringN5 u \<and> \<not> parent_run u \<and>
      worker_step u = Some v \<and> worker v = None \<and> \<not> m_Flickering v)"
  using startFlicker_while_measuring [of sess_measuring]
  by (simp add: sess_measuring_def session_init_def isKV_def)

lemma getNextMeasurement_error_keeps_n_witness:
  "1 \<le> (1::int) \<and> \<not> m_MeasuringM6 (session_init port_one_reply) \<and> \<not> m_Flickering (session_init port_one_reply) \<and>
   fst (send_c (session_init port_one_reply) (getColorMeasurmentCommand (m_speedMode (session_init port_one_reply)))) = NONE \<and>
   getNextMeasurement_c 1 (session_init port_one_reply) =
     (MeasError LOST_CONNECTION, snd (getNextMeasurement_c 1 (session_init port_one_reply))) \<and>
   MaxAvgNumber (avg (snd (getNextMeasurement_c 1 (session_init port_one_reply)))) = 1 \<and>
   avg_alloc (snd (getNextMeasurement_c 1 (session_init port_one_reply)))"
proof -
  have s: "fst (send_c (session_init port_one_reply) (getColorMeasurmentCommand (m_speedMode (session_init port_one_reply)))) = NONE"
    by (simp add: send_c_def send_guard_def Let_def port_send_def sendMessageToSerialPort_def readFromSerialPort_def
        readExisting_def writePort_def session_init_def port_one_reply_def getColorMeasurmentCommand_def session_cmds
        eval_nat_numeral errcode_defs)
  have g: "fst (getNextMeasurement_c 1 (session_init port_one_reply)) = MeasError LOST_CONNECTION"
    by (simp add: getNextMeasurement_c_def send_c_def send_guard_def Let_def port_send_def sendMessageToSerialPort_def
        readFromSerialPort_def readExisting_def writePort_def session_init_def port_one_reply_def
        getColorMeasurmentCommand_def session_cmds eval_nat_numeral err_ne_NONE)
  have eq: "getNextMeasurement_c 1 (session_init port_one_reply) =
     (MeasError LOST_CONNECTION, snd (getNextMeasurement_c 1 (session_init port_one_reply)))"
    using g by (metis prod.collapse)
  have h: "\<not> m_MeasuringM6 (session_init port_one_reply)" "\<not> m_Flickering (session_init port_one_reply)"
    by (simp_all add: session_init_def)
  have "MaxAvgNumber (avg (snd (getNextMeasurement_c 1 (session_init port_one_reply)))) = 1 \<and>
        avg_alloc (snd (getNextMeasurement_c 1 (session_init port_one_reply)))"
    by (rule getNextMeasurement_error_keeps_n [OF _ h s eq]) simp
  then show ?thesis
    using h s eq by simp
qed

lemma getNextMeasurement_under_worker_witness:
  "worker sess_measuring = Some MEASURE \<and> \<not> worker_prefix sess_measuring \<and> parent_run sess_measuring \<and>
   \<not> m_MeasuringM6 sess_measuring \<and> \<not> m_Flickering sess_measuring \<and>
   ((\<exists>e. fst (getNextMeasurement_c 5 sess_measuring) = MeasError e) \<or>
    (\<not> avg_alloc (snd (getNextMeasurement_c 5 sess_measuring)) \<and>
     worker (snd (getNextMeasurement_c 5 sess_measuring)) = Some MEASURE \<and>
     parent_run (snd (getNextMeasurement_c 5 sess_measuring)) \<and>
     (fst (send_w (snd (getNextMeasurement_c 5 sess_measuring))
        (getColorMeasurmentCommand (m_speedMode (snd (getNextMeasurement_c 5 sess_measuring))))) = NONE \<longrightarrow>
      worker_step (snd (getNextMeasurement_c 5 sess_measuring)) = None)))"
  using getNextMeasurement_under_worker [of sess_measuring 5 "fst (getNextMeasurement_c 5 sess_measuring)"
      "snd (getNextMeasurement_c 5 sess_measuring)"]
  by (simp add: sess_measuring_def session_init_def)

lemma closePort_leaves_counts_witness:
  "worker sess_counting = Some COUNTS \<and> \<not> worker_prefix sess_counting \<and> parent_run sess_counting \<and>
   m_MeasuringM6 sess_counting \<and> \<not> m_MeasuringN5 sess_counting \<and> \<not> m_Flickering sess_counting \<and>
   (\<exists>u v. m_MeasuringM6 (closePort_c sess_counting) \<and> worker_step (closePort_c sess_counting) = Some u \<and>
      counts_errorcode (m_counts u) = NOT_OPEN \<and> m_isMeasurefresh u \<and> m_isCountsfresh u = m_isCountsfresh sess_counting \<and>
      \<not> parent_run u \<and> worker_step u = Some v \<and> worker v = None \<and> m_MeasuringM6 v)"
  using closePort_leaves_counts [of sess_counting] by (simp add: sess_counting_def session_init_def)

lemma sess_reachable_inv_witness:
  "sess_reachable (api_call StartMeasuring (session_init port_idle)) \<and> sess_inv (api_call StartMeasuring (session_init port_idle))"
proof -
  have r: "sess_reachable (api_call StartMeasuring (session_init port_idle))"
    by (rule sess_reachable.step [OF sess_reachable.init sess_step.call])
  show ?thesis
    using r sess_reachable_inv [OF r] by simp
qed

lemma startFlicker_first_stops_modes_witness:
  "\<not> coef_loaded (session_init port_flicker_info) \<and>
   startFlicker_c True (session_init port_flicker_info) = (NONE, snd (startFlicker_c True (session_init port_flicker_info))) \<and>
   \<not> m_MeasuringN5 (snd (startFlicker_c True (session_init port_flicker_info))) \<and>
   \<not> m_MeasuringM6 (snd (startFlicker_c True (session_init port_flicker_info))) \<and>
   m_Flickering (snd (startFlicker_c True (session_init port_flicker_info))) \<and>
   worker (snd (startFlicker_c True (session_init port_flicker_info))) = Some FLICKER \<and>
   parent_run (run_prefix (snd (startFlicker_c True (session_init port_flicker_info))))"
proof -
  have e: "fst (startFlicker_c True (session_init port_flicker_info)) = NONE"
    by (simp add: startFlicker_c_def load_coef_def printStartupString_startup Let_def split_def send_c_def send_guard_def
        port_send_def sendMessageToSerialPort_def readFromSerialPort_def readExisting_def writePort_def
        session_init_def port_flicker_info_def length_startup_reply isKV_def resetFlicker_def stopFlicker_c_def
        FLICKER_INFO_def mk_command_def eval_nat_numeral)
  then have eq: "startFlicker_c True (session_init port_flicker_info) =
                 (NONE, snd (startFlicker_c True (session_init port_flicker_info)))"
    by (metis prod.collapse)
  have c: "\<not> coef_loaded (session_init port_flicker_info)"
    by (simp add: session_init_def)
  show ?thesis
    using c eq startFlicker_first_stops_modes [OF c eq] by simp
qed

end
