(* ===== verification/FlickerSpectrum.thy ===== *)
theory FlickerSpectrum
  imports KPrelude "HOL-Library.Signed_Division"
begin

text \<open>
  The flicker measurement of src/Flicker.cpp.  Settings: \<^verbatim>\<open>FlickerSetting\<close>
  with its constructor, \<^verbatim>\<open>getResolution\<close>, \<^verbatim>\<open>getCorrection\<close>,
  \<^verbatim>\<open>appendCorrection\<close>, \<^verbatim>\<open>deleteCorrection\<close>, \<^verbatim>\<open>copy\<close>, and the
  two corrections src/KClmtr.cpp installs per range.  The JEITA table and
  \<^verbatim>\<open>getNumberBetween\<close>.  The constructor
  \<^verbatim>\<open>Flicker(settings, data, sectionOfFFT, nitsLast32Samples)\<close> as
  \<open>Flicker_make\<close>: time stamps, nits and flicker index, the windowed FFT
  input, magnitudes with correction and smoothing, normalisation, percent
  and dB series, and the two peak tables.  The transform \<^verbatim>\<open>four1\<close>
  itself is a parameter of \<open>Flicker_make\<close>: every property holds whatever
  it computes.  Doubles are reals, and \<open>x / 0 = 0\<close> in HOL.  The flicker
  index, whose denominator is 0 whenever nits scaling is off, makes the C
  division by zero explicit as \<open>None\<close>; the divisions by the average of the
  last 32 samples and by the DC level are by values the source takes to be
  nonzero, and the model does not track the IEEE infinities they would give.
\<close>

section \<open>Settings\<close>

text \<open>src/Enums.h.\<close>

datatype PercentMode = ContrastMethod | Normaized

datatype DecibelMode = VESA | JEITA

datatype CorrectionMode = ArrayFit | PolyFit

text \<open>\<^verbatim>\<open>FlickerSetting::Range\<close>, \<^verbatim>\<open>RangeCorrecionArray\<close> and \<^verbatim>\<open>FlickerSetting\<close> (src/Flicker.h).\<close>

record hz_range =
  r_start :: int
  r_end :: int

record RangeCorrecionArray =
  rangeOfHz :: hz_range
  corr_mode :: CorrectionMode
  corr_array :: "real list"

record FlickerSetting =
  samples :: int
  speed :: int
  numberOfPeaks :: int
  cosine :: bool
  smoothing :: bool
  JETIADiscount_DB :: bool
  JEITADiscount_Percent :: bool
  decibel :: DecibelMode
  percent :: PercentMode
  corrections :: "RangeCorrecionArray list"

definition FlickerSetting_init :: FlickerSetting where
  "FlickerSetting_init =
     \<lparr>samples = 256, speed = 256, numberOfPeaks = 3, cosine = True, smoothing = True, JETIADiscount_DB = True,
      JEITADiscount_Percent = False, decibel = VESA, percent = ContrastMethod, corrections = []\<rparr>"

definition getResolution :: "FlickerSetting \<Rightarrow> real" where
  "getResolution s = real_of_int (speed s) / real_of_int (samples s)"

text \<open>\<^verbatim>\<open>getNumberBetween(high, low, number)\<close>, with the arguments in the source's order.\<close>

definition getNumberBetween :: "real \<Rightarrow> real \<Rightarrow> real \<Rightarrow> real" where
  "getNumberBetween high low number = (high - low) * (number - real_of_int (c_trunc number)) + low"

text \<open>The value of one correction at \<open>hz\<close>: the table interpolated, or the polynomial.\<close>

definition correction_value :: "RangeCorrecionArray \<Rightarrow> real \<Rightarrow> real" where
  "correction_value c hz =
     (case corr_mode c of
        ArrayFit \<Rightarrow> getNumberBetween (corr_array c ! nat (c_trunc hz)) (corr_array c ! nat (c_trunc hz + 1)) hz
      | PolyFit \<Rightarrow> foldl (\<lambda>acc j. acc + corr_array c ! j * hz ^ j) 0 [0 ..< length (corr_array c)])"

text \<open>\<^verbatim>\<open>getCorrection\<close>: the first correction whose range contains \<open>hz\<close>, or 1.\<close>

fun getCorrection_loop :: "RangeCorrecionArray list \<Rightarrow> real \<Rightarrow> real" where
  "getCorrection_loop [] hz = 1"
| "getCorrection_loop (c # cs) hz =
     (if real_of_int (r_start (rangeOfHz c)) \<le> hz \<and> hz < real_of_int (r_end (rangeOfHz c))
      then correction_value c hz else getCorrection_loop cs hz)"

definition getCorrection :: "FlickerSetting \<Rightarrow> real \<Rightarrow> real" where
  "getCorrection s hz = getCorrection_loop (corrections s) hz"

definition appendCorrection :: "hz_range \<Rightarrow> CorrectionMode \<Rightarrow> real list \<Rightarrow> FlickerSetting \<Rightarrow> FlickerSetting" where
  "appendCorrection rng mode array s =
     s\<lparr>corrections := corrections s @ [\<lparr>rangeOfHz = rng, corr_mode = mode, corr_array = array\<rparr>]\<rparr>"

definition deleteCorrection :: "FlickerSetting \<Rightarrow> FlickerSetting" where
  "deleteCorrection s = s\<lparr>corrections := []\<rparr>"

text \<open>
  The corrections \<^verbatim>\<open>parseAndPrintFFT\<close> installs for the current range
  (src/KClmtr.cpp): a 71-entry table on 0--70 Hz, then a polynomial on 70--151 Hz.
\<close>

definition set_range_corrections :: "real list \<Rightarrow> real list \<Rightarrow> FlickerSetting \<Rightarrow> FlickerSetting" where
  "set_range_corrections coeff1 coeff2 s =
     appendCorrection \<lparr>r_start = 70, r_end = 151\<rparr> PolyFit coeff2
       (appendCorrection \<lparr>r_start = 0, r_end = 70\<rparr> ArrayFit coeff1 (deleteCorrection s))"

text \<open>\<^verbatim>\<open>copy(other)\<close>: every field but \<^verbatim>\<open>numberOfPeaks\<close>, which stays the target's.\<close>

definition FlickerSetting_copy :: "FlickerSetting \<Rightarrow> FlickerSetting \<Rightarrow> FlickerSetting" where
  "FlickerSetting_copy this other =
     this\<lparr>samples := samples other, speed := speed other, cosine := cosine other, smoothing := smoothing other,
          JETIADiscount_DB := JETIADiscount_DB other, JEITADiscount_Percent := JEITADiscount_Percent other,
          decibel := decibel other, percent := percent other, corrections := corrections other\<rparr>"

section \<open>JEITA weighting\<close>

definition EIAJ_array :: "real list" where
  "EIAJ_array =
     [1, 1, 1, 1, 1, 1, 1, 1, 1, 1, 1, 1, 1, 1, 1, 1, 1, 1, 1, 1, 1,
      0.970795, 0.941589, 0.912384, 0.883178, 0.853973, 0.824768, 0.795562, 0.766357, 0.737151, 0.707946,
      0.687270, 0.666594, 0.645918, 0.625242, 0.604567, 0.583891, 0.563215, 0.542539, 0.521863, 0.501187,
      0.476517, 0.451847, 0.427178, 0.402508, 0.377838, 0.353168, 0.328498, 0.303829, 0.279159, 0.251189,
      0.227070, 0.202951, 0.178832, 0.154713, 0.130595, 0.106476, 0.082357, 0.058238, 0.034119, 0.010000,
      0.005158, 0.000316, 0]"

definition jeita_weight :: "real \<Rightarrow> real" where
  "jeita_weight hz = getNumberBetween (EIAJ_array ! nat (c_trunc hz)) (EIAJ_array ! nat (c_trunc hz + 1)) hz"

text \<open>
  One bin of the storing loop after normalisation: its percent and dB values
  from the normalised amplitude \<open>amp\<close> at frequency \<open>hz\<close>.
\<close>

definition bin_percent :: "FlickerSetting \<Rightarrow> real \<Rightarrow> real \<Rightarrow> real" where
  "bin_percent s hz amp =
     (let p = amp * 100;
          p = (if percent s = ContrastMethod then p * 4 else p)
      in if JEITADiscount_Percent s then (if hz < 62 then p * jeita_weight hz else 0) else p)"

definition bin_dB :: "FlickerSetting \<Rightarrow> real \<Rightarrow> real \<Rightarrow> real" where
  "bin_dB s hz amp =
     (if JETIADiscount_DB s \<and> 62 \<le> hz then -100
      else
        (let weighted = (if JETIADiscount_DB s then jeita_weight hz else 1);
             db = 20 * log 10 (sqrt 2 * weighted * amp)
         in if decibel s = VESA then db + 3.01 else db))"



section \<open>The constructor\<close>

text \<open>\<^verbatim>\<open>numberInArray\<close>: the bins kept, up to 100 Hz at 256 samples, C integer division.\<close>

definition numberInArray :: "FlickerSetting \<Rightarrow> int" where
  "numberInArray s = samples s sdiv 2 - (28 * samples s) sdiv 256 + 1"

text \<open>Time stamp of sample \<open>i\<close>, and the raised-cosine window.\<close>

definition time_at :: "FlickerSetting \<Rightarrow> int \<Rightarrow> nat \<Rightarrow> real" where
  "time_at s sectionOfFFT i =
     real i * (1 / real_of_int (speed s)) + real_of_int (sectionOfFFT * 32 - samples s) / real_of_int (speed s)"

definition cos_window :: "FlickerSetting \<Rightarrow> nat \<Rightarrow> real" where
  "cos_window s i = (if cosine s then 1 + cos (2 * pi * (real i / (real_of_int (samples s) - 1)) + pi) else 1)"

text \<open>\<^verbatim>\<open>countsAvg\<close>: the sum of the samples with \<open>i > samples - 33\<close>, over 32.\<close>

definition countsAvg :: "int \<Rightarrow> real list \<Rightarrow> real" where
  "countsAvg n data = foldl (\<lambda>acc i. if n - 33 < int i then acc + data ! i else acc) 0 [0 ..< nat n] / 32"

text \<open>The two areas of the flicker index, accumulated sample by sample.\<close>

definition fi_areas :: "real \<Rightarrow> real list \<Rightarrow> real \<times> real" where
  "fi_areas avg data =
     foldl (\<lambda>(a1, a2) c. if avg < c then (a1 + (c - avg), a2 + avg) else (a1, a2 + c)) (0, 0) data"

text \<open>
  \<^verbatim>\<open>flickerIndexArea1 / (flickerIndexArea1 + flickerIndexArea2)\<close>; \<open>None\<close>
  stands for the NaN or infinity of a C division by zero.
\<close>

definition fi_ratio :: "real \<times> real \<Rightarrow> real option" where
  "fi_ratio a = (if fst a + snd a = 0 then None else Some (fst a / (fst a + snd a)))"

text \<open>
  One pass of the amplitude loop over the transform \<open>fft\<close> (bin \<open>i\<close> is the
  pair \<^verbatim>\<open>fftData[2i+1], fftData[2i+2]\<close> after \<^verbatim>\<open>four1\<close>): the magnitude with
  its correction is stored, then the square-root smoothing rewrites the bin
  two places back.  The state is the amplitude column and
  \<^verbatim>\<open>MySqr1\<close>, \<^verbatim>\<open>MySqr2\<close>, \<^verbatim>\<open>MySqr3\<close>.
\<close>

definition amp_step :: "FlickerSetting \<Rightarrow> int \<Rightarrow> (real \<times> real) list \<Rightarrow>
    real list \<times> real \<times> real \<times> real \<Rightarrow> nat \<Rightarrow> real list \<times> real \<times> real \<times> real" where
  "amp_step s n fft st i =
     (let (a, q1, q2, q3) = st;
          amps = sqrt (fst (fft ! i) ^ 2 + snd (fft ! i) ^ 2) * getCorrection s (real i * getResolution s);
          a = (if int i < n then a[i := amps] else a)
      in if smoothing s \<and> 4 \<le> i \<and> int i < n then
           (let old = sqrt (q1 + q2 + q3);
                q1 = (a ! (i - 2)) ^ 2; q2 = (a ! (i - 1)) ^ 2; q3 = (a ! i) ^ 2
            in (if 4 < i then a[i - 2 := old] else a, q1, q2, q3))
         else (a, q1, q2, q3))"

definition amplitudes :: "FlickerSetting \<Rightarrow> (real \<times> real) list \<Rightarrow> real list" where
  "amplitudes s fft =
     fst (foldl (amp_step s (numberInArray s) fft) (replicate (nat (numberInArray s)) 0, 0, 0, 0)
            [0 ..< nat (samples s sdiv 2)])"

text \<open>One bin of the storing loop: normalised by the DC level, the fixed gain applied, then percent and dB.\<close>

definition store_bin :: "FlickerSetting \<Rightarrow> real \<Rightarrow> real \<Rightarrow> nat \<Rightarrow> (real \<times> real) \<times> (real \<times> real) \<times> (real \<times> real)" where
  "store_bin s dc a i =
     (let hz = real i * getResolution s;
          a = a / dc;
          a = (if cosine s \<and> smoothing s then a * 0.819 else a * 1.046)
      in ((hz, a), (hz, bin_percent s hz a), (hz, bin_dB s hz a)))"

record spectrum =
  amplitude :: "(real \<times> real) list"
  flickerPercent :: "(real \<times> real) list"
  flickerDB :: "(real \<times> real) list"

text \<open>Bin 0 forced to amplitude 1, 100 percent and 0 dB; bin 1 takes bin 2's amplitude; then the storing loop.\<close>

definition spectrum_of :: "FlickerSetting \<Rightarrow> real list \<Rightarrow> spectrum" where
  "spectrum_of s amps =
     (let dc = amps ! 0;
          amps = amps[1 := amps ! 2];
          bins = map (\<lambda>i. store_bin s dc (amps ! i) i) [1 ..< nat (numberInArray s)]
      in \<lparr>amplitude = (0, 1) # map fst bins, flickerPercent = (0, 100) # map (fst \<circ> snd) bins,
          flickerDB = (0, 0) # map (snd \<circ> snd) bins\<rparr>)"

section \<open>Peaks\<close>

text \<open>
  The peak search over one series (\<^verbatim>\<open>checkData\<close>, pairs of Hz and value) of
  \<open>n\<close> = \<^verbatim>\<open>numberInArray\<close> bins into a table of \<open>k\<close> = \<^verbatim>\<open>numberOfPeaks\<close>
  slots.  Bin \<open>i\<close> is a peak if it exceeds its left neighbour and, unless it
  is the last bin, its right one.
\<close>

definition isPeak :: "(real \<times> real) list \<Rightarrow> nat \<Rightarrow> nat \<Rightarrow> bool" where
  "isPeak d n i =
     (if i = n - 1 then snd (d ! (i - 1)) < snd (d ! i)
      else snd (d ! (i - 1)) < snd (d ! i) \<and> snd (d ! (i + 1)) < snd (d ! i))"

text \<open>\<^verbatim>\<open>for(k = numberOfPeaks - 1; k > storePoint; --k) peaks[k] = peaks[k - 1]\<close>.\<close>

definition peak_shift :: "(real \<times> real) list \<Rightarrow> nat \<Rightarrow> nat \<Rightarrow> (real \<times> real) list" where
  "peak_shift ps k sp = foldl (\<lambda>ps j. ps[j := ps ! (j - 1)]) ps (rev [Suc sp ..< k])"

text \<open>The \<^verbatim>\<open>storePoint\<close> loop: the first slot holding a smaller value takes the peak.\<close>

function peak_store :: "nat \<Rightarrow> (real \<times> real) list \<Rightarrow> nat \<Rightarrow> real \<times> real \<Rightarrow> (real \<times> real) list" where
  "peak_store k ps sp p =
     (if sp < k then
        (if snd (ps ! sp) < snd p then (peak_shift ps k sp)[sp := p] else peak_store k ps (Suc sp) p)
      else ps)"
  by pat_completeness auto
termination
  by (relation "measure (\<lambda>(k, ps, sp, p). k - sp)") auto

definition peaks_scan :: "nat \<Rightarrow> (real \<times> real) list \<Rightarrow> nat \<Rightarrow> (real \<times> real) list \<Rightarrow> (real \<times> real) list" where
  "peaks_scan k d n init = foldl (\<lambda>ps i. if isPeak d n i then peak_store k ps 0 (d ! i) else ps) init [1 ..< n]"

text \<open>The object built by \<^verbatim>\<open>Flicker(settings, data, sectionOfFFT, nitsLast32Samples)\<close>.\<close>

record Flicker =
  fl_settings :: FlickerSetting
  counts :: "(real \<times> real) list"
  nits :: "(real \<times> real) list"
  flickerIndex :: "real option"
  fl_spectrum :: spectrum
  peakfrequencyPercent :: "(real \<times> real) list"
  peakfrequencyDB :: "(real \<times> real) list"

text \<open>
  The constructor, with the transform \<^verbatim>\<open>four1\<close> a parameter \<open>fft\<close> from the
  windowed input (pairs of real and imaginary part) to its spectrum.
\<close>

definition Flicker_make :: "((real \<times> real) list \<Rightarrow> (real \<times> real) list) \<Rightarrow>
    FlickerSetting \<Rightarrow> real list \<Rightarrow> int \<Rightarrow> real \<Rightarrow> Flicker" where
  "Flicker_make fft s data sectionOfFFT nitsLast32Samples =
     (let n = nat (samples s);
          avg = countsAvg (samples s) data;
          scaled = (nitsLast32Samples \<noteq> -1 \<or> nitsLast32Samples = 0);
          muiltyP = nitsLast32Samples / avg;
          areas = (if scaled then fi_areas avg (take n data) else (0, 0));
          fftIn = map (\<lambda>i. (data ! i * cos_window s i, 0)) [0 ..< n];
          sp = spectrum_of s (amplitudes s (fft fftIn));
          k = nat (numberOfPeaks s);
          m = nat (numberInArray s)
      in \<lparr>fl_settings = s,
          counts = map (\<lambda>i. (time_at s sectionOfFFT i, data ! i)) [0 ..< n],
          nits = map (\<lambda>i. (time_at s sectionOfFFT i, if scaled then data ! i * muiltyP else 0)) [0 ..< n],
          flickerIndex = fi_ratio areas,
          fl_spectrum = sp,
          peakfrequencyPercent = peaks_scan k (flickerPercent sp) m (replicate k (0, 0)),
          peakfrequencyDB = peaks_scan k (flickerDB sp) m (replicate k (0, -100))\<rparr>)"

text \<open>The bounded top-K insertion the peak tables are meant to implement.\<close>

fun ins_desc :: "real \<times> real \<Rightarrow> (real \<times> real) list \<Rightarrow> (real \<times> real) list" where
  "ins_desc p [] = []"
| "ins_desc p (q # qs) = (if snd q < snd p then p # butlast (q # qs) else q # ins_desc p qs)"

text \<open>Peak tables ordered by decreasing value, and a series rising to bin m and falling after it.\<close>

definition desc :: "(real \<times> real) list \<Rightarrow> bool" where
  "desc ps = sorted_wrt (\<lambda>a b. snd b \<le> snd a) ps"

definition unimodal :: "(real \<times> real) list \<Rightarrow> nat \<Rightarrow> nat \<Rightarrow> bool" where
  "unimodal d n m =
     ((\<forall>i < m. snd (d ! i) < snd (d ! Suc i)) \<and> (\<forall>i \<in> {m ..< n - 1}. snd (d ! Suc i) < snd (d ! i)))"

section \<open>Properties\<close>

declare peak_store.simps [simp del]


lemma length_peak_shift [simp]: "length (peak_shift ps k sp) = length ps"
  unfolding peak_shift_def by (induction "rev [Suc sp ..< k]" arbitrary: ps) auto

lemma peak_shift_Suc:
  "Suc sp \<le> k \<Longrightarrow> peak_shift ps (Suc k) sp = peak_shift (ps[k := ps ! (k - 1)]) k sp"
  unfolding peak_shift_def by simp

lemma peak_shift_nth:
  "k \<le> length ps \<Longrightarrow> j < length ps \<Longrightarrow>
   peak_shift ps k sp ! j = (if sp < j \<and> j < k then ps ! (j - 1) else ps ! j)"
proof (induction k arbitrary: ps)
  case 0
  then show ?case by (simp add: peak_shift_def)
next
  case (Suc k)
  show ?case
  proof (cases "Suc sp \<le> k")
    case True
    then show ?thesis using Suc.prems Suc.IH [of "ps[k := ps ! (k - 1)]"]
      by (auto simp: peak_shift_Suc nth_list_update)
  next
    case False
    then show ?thesis by (auto simp: peak_shift_def)
  qed
qed

lemma length_ins_desc [simp]: "length (ins_desc p ps) = length ps"
  by (induction ps) auto

lemma set_ins_desc: "set (ins_desc p ps) \<subseteq> insert p (set ps)"
  by (induction ps) (auto dest: in_set_butlastD)

lemma peak_store_eq:
  "length ps = k \<Longrightarrow> sp \<le> k \<Longrightarrow> peak_store k ps sp p = take sp ps @ ins_desc p (drop sp ps)"
proof (induction k ps sp p rule: peak_store.induct)
  case (1 k ps sp p)
  show ?case
  proof (cases "sp < k")
    case lt: True
    have dr: "drop sp ps = ps ! sp # drop (Suc sp) ps"
      using lt "1.prems" by (simp add: Cons_nth_drop_Suc)
    show ?thesis
    proof (cases "snd (ps ! sp) < snd p")
      case True
      have "(peak_shift ps k sp)[sp := p] = take sp ps @ p # butlast (drop sp ps)"
      proof (rule nth_equalityI)
        fix i assume i: "i < length ((peak_shift ps k sp)[sp := p])"
        show "(peak_shift ps k sp)[sp := p] ! i = (take sp ps @ p # butlast (drop sp ps)) ! i"
        proof (cases "sp < i")
          case True
          then have "i - sp = Suc (i - Suc sp)" by simp
          then show ?thesis using True i lt "1.prems"
            by (simp add: peak_shift_nth nth_append nth_butlast)
        qed (use i lt "1.prems" in \<open>auto simp: peak_shift_nth nth_append\<close>)
      qed (use lt "1.prems" in simp)
      then show ?thesis using lt True by (subst peak_store.simps) (simp add: dr)
    next
      case False
      then show ?thesis using lt "1.IH" "1.prems"
        by (subst peak_store.simps) (simp add: dr take_Suc_conv_app_nth)
    qed
  next
    case False
    then show ?thesis using "1.prems" by (subst peak_store.simps) simp
  qed
qed

lemma desc_ins_desc: "desc ps \<Longrightarrow> desc (ins_desc p ps)"
proof (induction ps)
  case (Cons q qs)
  have q: "\<forall>x\<in>set qs. snd x \<le> snd q" and qs: "desc qs"
    using Cons.prems by (auto simp: desc_def)
  show ?case
  proof (cases "snd q < snd p")
    case True
    have "sorted_wrt (\<lambda>a b. snd b \<le> snd a) (butlast (q # qs))"
      using Cons.prems unfolding desc_def butlast_conv_take by (rule sorted_wrt_take)
    moreover have "\<forall>x\<in>set (butlast (q # qs)). snd x \<le> snd p"
      using True q by (fastforce dest: in_set_butlastD)
    ultimately show ?thesis using True by (simp add: desc_def)
  next
    case False
    then have "\<forall>x\<in>set (ins_desc p qs). snd x \<le> snd q" using q set_ins_desc by fastforce
    then show ?thesis using False Cons.IH [OF qs] by (simp add: desc_def)
  qed
qed (simp add: desc_def)

lemma foldl_if_filter:
  "foldl (\<lambda>acc x. if P x then f acc x else acc) a xs = foldl f a (filter P xs)"
  by (induction xs arbitrary: a) auto

lemma foldl_peak_store:
  "length ps = k \<Longrightarrow>
   foldl (\<lambda>ps i. peak_store k ps 0 (d ! i)) ps xs = foldl (\<lambda>ps i. ins_desc (d ! i) ps) ps xs"
  by (induction xs arbitrary: ps) (simp_all add: peak_store_eq)

lemma peaks_scan_ins_desc:
  "length init = k \<Longrightarrow>
   peaks_scan k d n init = foldl (\<lambda>ps i. ins_desc (d ! i) ps) init (filter (isPeak d n) [1 ..< n])"
  unfolding peaks_scan_def foldl_if_filter by (rule foldl_peak_store)

lemma foldl_ins_desc:
  "length ps = k \<and> desc ps \<Longrightarrow>
   length (foldl (\<lambda>ps i. ins_desc (d ! i) ps) ps xs) = k \<and> desc (foldl (\<lambda>ps i. ins_desc (d ! i) ps) ps xs)"
  by (induction xs arbitrary: ps) (simp_all add: desc_ins_desc)

lemma peaks_scan_desc:
  "length init = k \<Longrightarrow> desc init \<Longrightarrow> length (peaks_scan k d n init) = k \<and> desc (peaks_scan k d n init)"
  by (simp add: peaks_scan_ins_desc foldl_ins_desc)

lemma desc_replicate: "desc (replicate k x)"
  by (simp add: desc_def sorted_wrt_iff_nth_less)

lemma Flicker_make_peaks:
  "peakfrequencyPercent (Flicker_make fft s data sec nits32) =
     peaks_scan (nat (numberOfPeaks s)) (flickerPercent (fl_spectrum (Flicker_make fft s data sec nits32)))
       (nat (numberInArray s)) (replicate (nat (numberOfPeaks s)) (0, 0))"
  "peakfrequencyDB (Flicker_make fft s data sec nits32) =
     peaks_scan (nat (numberOfPeaks s)) (flickerDB (fl_spectrum (Flicker_make fft s data sec nits32)))
       (nat (numberInArray s)) (replicate (nat (numberOfPeaks s)) (0, -100))"
  unfolding Flicker_make_def Let_def Flicker.select_convs by (rule refl)+

text \<open>C23. both peak tables hold numberOfPeaks entries sorted by decreasing value.\<close>

theorem Flicker_peaks_sorted:
  "length (peakfrequencyPercent (Flicker_make fft s data sec nits32)) = nat (numberOfPeaks s) \<and>
   desc (peakfrequencyPercent (Flicker_make fft s data sec nits32)) \<and>
   length (peakfrequencyDB (Flicker_make fft s data sec nits32)) = nat (numberOfPeaks s) \<and>
   desc (peakfrequencyDB (Flicker_make fft s data sec nits32))"
  unfolding Flicker_make_peaks using peaks_scan_desc desc_replicate by simp

text \<open>C24. one storePoint loop with its shift is the bounded insertion.\<close>

theorem peak_store_is_ins_desc: "length ps = k \<Longrightarrow> peak_store k ps 0 p = ins_desc p ps"
  by (simp add: peak_store_eq)

lemma filter_upt_eq: "filter (\<lambda>i. i = m) [a ..< b] = (if a \<le> m \<and> m < b then [m] else [])"
  by (induction b) auto

lemma unimodal_isPeak:
  assumes u: "unimodal d n m" and m: "1 \<le> m" "m < n" and i: "1 \<le> i" "i < n"
  shows "isPeak d n i \<longleftrightarrow> i = m"
proof -
  have up: "\<And>j. j < m \<Longrightarrow> snd (d ! j) < snd (d ! Suc j)"
   and dn: "\<And>j. m \<le> j \<Longrightarrow> Suc j < n \<Longrightarrow> snd (d ! Suc j) < snd (d ! j)"
    using u by (auto simp: unimodal_def)
  show ?thesis
  proof (cases "i < m")
    case True
    then show ?thesis using up [of i] i m by (auto simp: isPeak_def)
  next
    case False
    then consider "i = m" | "m < i" by linarith
    then show ?thesis
    proof cases
      case 1
      then show ?thesis using up [of "i - 1"] dn [of i] i m by (auto simp: isPeak_def)
    next
      case 2
      then have "Suc (i - 1) = i" "m \<le> i - 1" by auto
      then have "snd (d ! i) < snd (d ! (i - 1))" using dn [of "i - 1"] i by simp
      then show ?thesis using 2 by (auto simp: isPeak_def)
    qed
  qed
qed

text \<open>C25. a series rising to bin m and falling after it has one peak, at m.\<close>

theorem unimodal_one_peak:
  assumes "unimodal d n m" "1 \<le> m" "m < n" "length init = k"
  shows "filter (isPeak d n) [1 ..< n] = [m] \<and> peaks_scan k d n init = ins_desc (d ! m) init"
proof -
  have "filter (isPeak d n) [1 ..< n] = filter (\<lambda>i. i = m) [1 ..< n]"
    using unimodal_isPeak [OF assms(1-3)] by (intro filter_cong) auto
  also have "\<dots> = [m]" using assms(2,3) by (simp add: filter_upt_eq)
  finally show ?thesis using peaks_scan_ins_desc [OF assms(4)] by simp
qed

lemma getNumberBetween_whole [simp]: "getNumberBetween h l (real n) = l"
  by (simp add: getNumberBetween_def)

lemma nat_int_Suc: "nat (int n + 1) = Suc n"
  by arith

lemma c_trunc_real [simp]: "c_trunc (real n) = int n"
  by simp

lemma getNumberBetween_bounds:
  assumes "0 \<le> x" "0 \<le> h" "h \<le> 1" "0 \<le> l" "l \<le> 1"
  shows "0 \<le> getNumberBetween h l x \<and> getNumberBetween h l x \<le> 1"
proof -
  define f where "f = x - real_of_int \<lfloor>x\<rfloor>"
  have f: "0 \<le> f" "f \<le> 1" unfolding f_def by linarith+
  have eq: "getNumberBetween h l x = h * f + l * (1 - f)"
    using assms(1) by (simp add: getNumberBetween_def f_def algebra_simps)
  have "0 \<le> h * f" "0 \<le> l * (1 - f)" using f assms by simp_all
  moreover have "h * f \<le> f" "l * (1 - f) \<le> 1 - f"
    using f assms by (simp_all add: mult_left_le_one_le)
  ultimately show ?thesis unfolding eq by linarith
qed

lemma length_EIAJ_array [simp]: "length EIAJ_array = 64"
  by (simp add: EIAJ_array_def)

lemma EIAJ_array_bounds: "i < 64 \<Longrightarrow> 0 \<le> EIAJ_array ! i \<and> EIAJ_array ! i \<le> 1"
proof -
  have "\<forall>x\<in>set EIAJ_array. 0 \<le> x \<and> x \<le> 1" by (simp add: EIAJ_array_def)
  moreover assume "i < 64"
  ultimately show ?thesis using nth_mem [of i EIAJ_array] by simp
qed

text \<open>C26. at a whole frequency n the JEITA weight is entry n + 1 of the table, not entry n.\<close>

theorem jeita_weight_whole: "jeita_weight (real n) = EIAJ_array ! Suc n"
  by (simp add: jeita_weight_def nat_int_Suc)

lemma jeita_weight_bounds: "0 \<le> hz \<Longrightarrow> hz < 62 \<Longrightarrow> 0 \<le> jeita_weight hz \<and> jeita_weight hz \<le> 1"
proof -
  assume hz: "0 \<le> hz" "hz < 62"
  then have "nat \<lfloor>hz\<rfloor> < 62" by linarith
  then show ?thesis unfolding jeita_weight_def using hz
    by (simp add: getNumberBetween_bounds EIAJ_array_bounds nat_add_distrib)
qed

lemma foldl_fi:
  "foldl (\<lambda>(a1, a2) c. if avg < c then (a1 + (c - avg), a2 + avg) else (a1, a2 + c)) (x, y) cs =
   (x + sum_list (map (\<lambda>c. (if avg < c then c - avg else 0)) cs), y + sum_list (map (\<lambda>c. (if avg < c then avg else c)) cs))"
proof (induction cs arbitrary: x y)
  case (Cons c cs)
  then show ?case by (cases "avg < c") (simp_all add: algebra_simps)
qed simp

lemma fi_areas_eq:
  "fi_areas avg cs = (sum_list (map (\<lambda>c. (if avg < c then c - avg else 0)) cs), sum_list (map (\<lambda>c. (if avg < c then avg else c)) cs))"
  unfolding fi_areas_def foldl_fi by simp

lemma fi_areas_sum: "fst (fi_areas avg cs) + snd (fi_areas avg cs) = sum_list cs"
proof -
  have "\<And>c. (if avg < c then c - avg else 0) + (if avg < c then avg else c) = (c::real)" by simp
  then show ?thesis unfolding fi_areas_eq by (induction cs) (simp_all add: algebra_simps)
qed

lemma foldl_sum_if:
  "foldl (\<lambda>acc i. if P i then acc + g i else acc) a xs = a + sum_list (map g (filter P xs))"
  by (induction xs arbitrary: a) (auto simp: add.assoc)

lemma countsAvg_nonneg:
  "\<forall>c\<in>set data. 0 \<le> c \<Longrightarrow> nat n \<le> length data \<Longrightarrow> 0 \<le> countsAvg n data"
  unfolding countsAvg_def foldl_sum_if by (auto intro!: sum_list_nonneg)

lemma Flicker_make_index:
  "flickerIndex (Flicker_make fft s data sec nits32) =
     fi_ratio (if nits32 \<noteq> -1 \<or> nits32 = 0 then fi_areas (countsAvg (samples s) data) (take (nat (samples s)) data)
               else (0, 0))"
  unfolding Flicker_make_def Let_def Flicker.select_convs by (rule refl)

text \<open>C28. with non-negative samples, nits scaling requested and a positive sum, the flicker index is defined and lies in [0, 1].\<close>

theorem flickerIndex_bounds:
  assumes "\<forall>c\<in>set data. 0 \<le> c" "nat (samples s) \<le> length data" "nits32 \<noteq> -1"
    and "0 < sum_list (take (nat (samples s)) data)"
  shows "\<exists>x. flickerIndex (Flicker_make fft s data sec nits32) = Some x \<and> 0 \<le> x \<and> x \<le> 1"
proof -
  define avg where "avg = countsAvg (samples s) data"
  define cs where "cs = take (nat (samples s)) data"
  have avg: "0 \<le> avg" unfolding avg_def using assms(1,2) by (rule countsAvg_nonneg)
  have c: "\<forall>c\<in>set cs. 0 \<le> c" using assms(1) unfolding cs_def by (auto dest: in_set_takeD)
  have a1: "0 \<le> fst (fi_areas avg cs)" unfolding fi_areas_eq by simp (rule sum_list_nonneg, auto)
  have a2: "0 \<le> snd (fi_areas avg cs)" using avg c unfolding fi_areas_eq by simp (rule sum_list_nonneg, auto)
  have sum: "fst (fi_areas avg cs) + snd (fi_areas avg cs) = sum_list cs" by (rule fi_areas_sum)
  have "flickerIndex (Flicker_make fft s data sec nits32) = Some (fst (fi_areas avg cs) / sum_list cs)"
    using assms(3,4) sum unfolding Flicker_make_index avg_def cs_def fi_ratio_def by simp
  moreover have "0 \<le> fst (fi_areas avg cs) / sum_list cs" "fst (fi_areas avg cs) / sum_list cs \<le> 1"
    using a1 a2 sum assms(4) unfolding cs_def by simp_all
  ultimately show ?thesis by blast
qed

lemma getCorrection_loop_append:
  "getCorrection_loop (cs @ ds) hz =
   (if \<exists>c\<in>set cs. real_of_int (r_start (rangeOfHz c)) \<le> hz \<and> hz < real_of_int (r_end (rangeOfHz c))
    then getCorrection_loop cs hz else getCorrection_loop ds hz)"
  by (induction cs) auto

text \<open>C27. after the range corrections are installed, a frequency in [0, 70) is interpolated in the table
  with the entries in the source's order, one in [70, 151) takes the polynomial, any other 1.\<close>

theorem set_range_corrections_value:
  "getCorrection (set_range_corrections t p s) hz =
   (if 0 \<le> hz \<and> hz < 70 then getNumberBetween (t ! nat (c_trunc hz)) (t ! nat (c_trunc hz + 1)) hz
    else if 70 \<le> hz \<and> hz < 151 then foldl (\<lambda>acc j. acc + p ! j * hz ^ j) 0 [0 ..< length p]
    else 1)"
  by (simp add: getCorrection_def set_range_corrections_def appendCorrection_def deleteCorrection_def
                correction_value_def)

subsection \<open>Witnesses\<close>

theorem peak_store_is_ins_desc_witness:
  "length [(1, 5), (2, 3), (3, 1)] = (3::nat) \<and>
   peak_store 3 [(1, 5), (2, 3), (3, 1)] 0 (4, 4) = [(1, 5), (4, 4), (2 :: real, 3 :: real)]"
  using peak_store_is_ins_desc [of "[(1, 5), (2, 3), (3, 1)]" 3 "(4, 4)"] by simp

theorem unimodal_one_peak_witness:
  "unimodal [(0, 1), (1, 2), (2, 5), (3, 3)] 4 2 \<and>
   filter (isPeak [(0, 1), (1, 2), (2, 5), (3 :: real, 3 :: real)] 4) [1 ..< 4] = [2] \<and>
   peaks_scan 2 [(0, 1), (1, 2), (2, 5), (3, 3)] 4 (replicate 2 (0, 0)) = [(2, 5), (0, 0)]"
proof -
  have u: "unimodal [(0, 1), (1, 2), (2, 5), (3 :: real, 3 :: real)] 4 2"
    by (simp add: unimodal_def less_Suc_eq numeral_eq_Suc atLeastLessThanSuc)
  show ?thesis
    using u unimodal_one_peak [OF u, of "replicate 2 (0, 0)" 2] by (simp add: numeral_2_eq_2)
qed

theorem flickerIndex_bounds_witness:
  "\<exists>x. flickerIndex (Flicker_make (\<lambda>xs. xs) (FlickerSetting_init\<lparr>samples := 2\<rparr>) [1, 3] 0 5) = Some x \<and>
       0 \<le> x \<and> x \<le> 1"
  using flickerIndex_bounds [of "[1, 3]" "FlickerSetting_init\<lparr>samples := 2\<rparr>" 5 "\<lambda>xs. xs" 0]
  by (simp add: FlickerSetting_init_def)

end
