(* ===== verification/FlickerFrame.thy ===== *)
theory FlickerFrame
  imports Codec FlickerSpectrum
begin

text \<open>
  The flicker frames of src/KClmtr.cpp: \<^verbatim>\<open>resetFlicker\<close> (its buffer part),
  \<^verbatim>\<open>verify_FFTString\<close>, \<^verbatim>\<open>parseSignal_from_FFT_str\<close> (the ripple buffer),
  \<^verbatim>\<open>parseN5Command\<close>, \<^verbatim>\<open>parseAndPrintFFT\<close>, which builds a
  \<open>FlickerSpectrum.Flicker_make\<close> from the buffer, and the worker's flicker
  branch once a frame is buffered.  The flicker members of
  \<^verbatim>\<open>KClmtr\<close> are a record of their own; the calibration the frame parser
  reads (\<^verbatim>\<open>m_CalMatrix\<close>, the two coefficient tables) is a second record.
\<close>

section \<open>State\<close>

text \<open>\<^verbatim>\<open>m_flickerSettings\<close>, \<^verbatim>\<open>m_ParsedOutRippleArray\<close>, \<^verbatim>\<open>m_fft_lastRange\<close>,
  \<^verbatim>\<open>m_fft_numPass\<close>, \<^verbatim>\<open>m_fft_count\<close> and \<^verbatim>\<open>m_Flickering2\<close> (src/KClmtr.h).\<close>

record fft_state =
  m_flickerSettings :: FlickerSetting
  m_ParsedOutRippleArray :: "real list"
  m_fft_lastRange :: int
  m_fft_numPass :: int
  m_fft_count :: int
  m_Flickering2 :: bool

record fft_cal =
  cal_matrix :: "real list list"
  m_FFTCalRangeCoeff1 :: "real list list"
  m_FFTCalRangeCoeff2 :: "real list list"

text \<open>\<^verbatim>\<open>polyDegree\<close> (src/KClmtr.h).\<close>

definition polyDegree :: nat where
  "polyDegree = 5"

text \<open>\<^verbatim>\<open>resetFlicker\<close> after \<^verbatim>\<open>m_Flickering = false\<close>: a zeroed buffer of
  \<^verbatim>\<open>samples\<close> entries, \<^verbatim>\<open>samples / 32\<close> frames to go, no range yet.\<close>

definition resetFlicker_fft :: "fft_state \<Rightarrow> fft_state" where
  "resetFlicker_fft st =
     st\<lparr>m_ParsedOutRippleArray := replicate (nat (samples (m_flickerSettings st))) 0,
        m_fft_numPass := samples (m_flickerSettings st) sdiv 32, m_fft_count := 0, m_fft_lastRange := -1\<rparr>"

section \<open>Frames\<close>

text \<open>The 17 marker offsets 45, 48, ..., 93.\<close>

definition marker_offsets :: "nat list" where
  "marker_offsets = map (\<lambda>k. 45 + 3 * k) [0 ..< 17]"

definition verify_FFTString :: "string \<Rightarrow> bool" where
  "verify_FFTString s =
     (if byte_at s 0 \<noteq> of_char (CHR ''T'') \<or> byte_at s 3 \<noteq> of_char (CHR ''2'') \<or> byte_at s 42 \<noteq> of_char (CHR ''>'')
      then False
      else list_all (\<lambda>j. byte_at s j = of_char (CHR ''_'')) marker_offsets)"

text \<open>Sample \<open>i\<close> of a frame: the big-endian pair at offsets \<open>3i + 1\<close>, \<open>3i + 2\<close>.\<close>

definition frame_nits :: "string \<Rightarrow> nat \<Rightarrow> int" where
  "frame_nits s i = int (byte_at s ((i + 1) * 3 - 2)) * 256 + int (byte_at s ((i + 1) * 3 - 1))"

text \<open>\<^verbatim>\<open>parseSignal_from_FFT_str\<close>: shift the buffer left by 32, then store the 32 new samples.\<close>

definition ripple_shift :: "int \<Rightarrow> real list \<Rightarrow> real list" where
  "ripple_shift n r = foldl (\<lambda>r i. r[i := r ! (i + 32)]) r [0 ..< nat (n - 32)]"

definition ripple_store :: "int \<Rightarrow> string \<Rightarrow> errmask \<times> real list \<Rightarrow> nat \<Rightarrow> errmask \<times> real list" where
  "ripple_store n s er i =
     (let (error, r) = er;
          nits = frame_nits s i;
          error = (if nits > 61000 then error OR FFT_OVER_SATURATED else error)
      in (error, r[nat (int i + n - 32) := real_of_int nits]))"

definition parseSignal_from_FFT_str :: "int \<Rightarrow> real list \<Rightarrow> string \<Rightarrow> errmask \<times> real list" where
  "parseSignal_from_FFT_str n r s = foldl (ripple_store n s) (NONE, ripple_shift n r) [0 ..< 32]"

text \<open>\<^verbatim>\<open>parseN5Command\<close>: X, Y, Z from every third byte from offset 6, the green range, the error byte.\<close>

definition parseN5Command :: "string \<Rightarrow> real \<times> real \<times> real \<times> int \<times> errmask" where
  "parseN5Command s =
     (let x = parseK_float (substr s 6 1 @ substr s 9 1 @ substr s 12 1);
          y = parseK_float (substr s 15 1 @ substr s 18 1 @ substr s 21 1);
          z = parseK_float (substr s 24 1 @ substr s 27 1 @ substr s 30 1);
          ranges = parsingRange (of_nat (byte_at (substr s 33 1) 0))
      in (x, y, z, ranges ! 1, getErrorCodeFromKlein (substr s 39 1)))"

section \<open>parseAndPrintFFT\<close>

text \<open>
  The result object: \<open>fr_data\<close> is the spectrum of \<open>Flicker_make\<close>, or
  \<open>None\<close> for the empty object of \<^verbatim>\<open>Flicker(error)\<close>, whose \<^verbatim>\<open>bigY\<close> is 0
  and range \<^verbatim>\<open>range1\<close>.
\<close>

record flicker_result =
  fr_data :: "Flicker option"
  bigY :: real
  fr_range :: int
  errorcode :: errmask

definition Flicker_error :: "errmask \<Rightarrow> flicker_result" where
  "Flicker_error e = \<lparr>fr_data = None, bigY = 0, fr_range = 1, errorcode = e\<rparr>"

text \<open>\<^verbatim>\<open>std::out_of_range\<close> thrown by \<^verbatim>\<open>substr(96, ...)\<close> on a string shorter than 96.\<close>

datatype fft_exn = Out_of_range

text \<open>The range bookkeeping: a new range resets the corrections, and reports
  \<^verbatim>\<open>FFT_PREVIOUS_RANGE\<close> and restarts the frame count unless it is the first.\<close>

definition range_update :: "fft_cal \<Rightarrow> int \<Rightarrow> fft_state \<Rightarrow> errmask \<Rightarrow> fft_state \<times> errmask" where
  "range_update cal rng st error =
     (if rng \<noteq> m_fft_lastRange st then
        (let (st, error) =
               (if m_fft_lastRange st = -1 then (st\<lparr>m_fft_lastRange := rng\<rparr>, error)
                else (st\<lparr>m_fft_lastRange := rng,
                         m_fft_numPass := (if \<not> m_Flickering2 st then speed (m_flickerSettings st) sdiv 32
                                           else m_fft_numPass st)\<rparr>,
                      error OR FFT_PREVIOUS_RANGE));
             k = nat ((m_fft_lastRange st - 1) sdiv 2)
         in (st\<lparr>m_flickerSettings := set_range_corrections (take 71 (m_FFTCalRangeCoeff1 cal ! k))
                                        (take polyDegree (m_FFTCalRangeCoeff2 cal ! k)) (m_flickerSettings st)\<rparr>,
             error))
      else (st, error))"

function parseAndPrintFFT ::
    "((real \<times> real) list \<Rightarrow> (real \<times> real) list) \<Rightarrow> fft_cal \<Rightarrow> fft_state \<Rightarrow> string \<Rightarrow>
     fft_exn + flicker_result \<times> fft_state \<times> string" where
  "parseAndPrintFFT fft cal st read =
     (if \<not> verify_FFTString read then Inr (Flicker_error FFT_BAD_STRING, st, read)
      else
        (let (error, r) = parseSignal_from_FFT_str (samples (m_flickerSettings st)) (m_ParsedOutRippleArray st) read;
             st = st\<lparr>m_ParsedOutRippleArray := r\<rparr>;
             ErrorByte = byte_at read 39;
             st = (if ErrorByte \<noteq> of_char (CHR ''0'') \<and> ErrorByte \<noteq> of_char (CHR ''L'')
                   then st\<lparr>m_fft_lastRange := 100\<rparr> else st);
             (x, y, z, rng, e) = parseN5Command read;
             error = error OR e;
             M = cal_matrix cal;
             y = x * M ! 1 ! 0 + y * M ! 1 ! 1 + z * M ! 1 ! 2;
             (st, error) = range_update cal rng st error;
             st = st\<lparr>m_fft_count := m_fft_count st + 1\<rparr>;
             theFlicker = Flicker_make fft (m_flickerSettings st) (m_ParsedOutRippleArray st) (m_fft_count st) y;
             st = st\<lparr>m_fft_numPass := m_fft_numPass st - 1\<rparr>
         in if 0 < m_fft_numPass st then
              (let error = error OR FFT_INSUFFICIENT_DATA
               in if m_Flickering2 st then
                    (if length read < 96 then Inl Out_of_range else parseAndPrintFFT fft cal st (drop 96 read))
                  else if length read < 96 then Inl Out_of_range
                  else Inr (\<lparr>fr_data = Some theFlicker, bigY = y, fr_range = rng, errorcode = error\<rparr>,
                            st, drop 96 read))
            else
              (let error = error AND NOT FFT_INSUFFICIENT_DATA
               in if length read < 96 then Inl Out_of_range
                  else Inr (\<lparr>fr_data = Some theFlicker, bigY = y, fr_range = rng, errorcode = error\<rparr>,
                            st, drop 96 read))))"
  by pat_completeness auto
termination
  by (relation "measure (\<lambda>(fft, cal, st, read). length read)") auto

section \<open>The flicker iteration of the worker\<close>

text \<open>
  \<^verbatim>\<open>threadStuff\<close>'s flicker branch once more than 96 bytes are buffered in
  \<^verbatim>\<open>FFTString\<close>: a frame that fails \<^verbatim>\<open>verify_FFTString\<close> is skipped up to
  the next \<^verbatim>\<open>'T'\<close> after its first byte (\<^verbatim>\<open>find('T', 1)\<close>, or the empty
  string); a good one goes through \<^verbatim>\<open>parseAndPrintFFT\<close>, becomes
  \<^verbatim>\<open>m_flicker\<close> and, while \<^verbatim>\<open>threadModeParent\<close> is \<^verbatim>\<open>RUN\<close>, is
  published, the worker stopping on an error outside range change,
  insufficient data and saturation.  The branch that reads more bytes is
  not part of this model.
\<close>

record flicker_worker =
  fw_st :: fft_state
  FFTString :: string
  m_flicker :: flicker_result
  fw_run :: bool
  fw_fresh :: bool

definition find_T_from_1 :: "string \<Rightarrow> nat option" where
  "find_T_from_1 s =
     (let k = Suc (length (takeWhile (\<lambda>c. c \<noteq> CHR ''T'') (drop 1 s)))
      in if k < length s then Some k else None)"

definition flicker_parse_iter ::
    "((real \<times> real) list \<Rightarrow> (real \<times> real) list) \<Rightarrow> fft_cal \<Rightarrow> flicker_worker \<Rightarrow> fft_exn + flicker_worker" where
  "flicker_parse_iter fft cal w =
     (if \<not> verify_FFTString (FFTString w) then
        Inr (w\<lparr>FFTString := (case find_T_from_1 (FFTString w) of None \<Rightarrow> [] | Some k \<Rightarrow> drop k (FFTString w))\<rparr>)
      else
        (case parseAndPrintFFT fft cal (fw_st w) (FFTString w) of
           Inl e \<Rightarrow> Inl e
         | Inr (fl, st, rest) \<Rightarrow>
             (let w = w\<lparr>fw_st := st, FFTString := rest, m_flicker := fl\<rparr>
              in if fw_run w then
                   Inr (w\<lparr>fw_run := (errorcode fl AND NOT (FFT_PREVIOUS_RANGE OR FFT_INSUFFICIENT_DATA OR FFT_OVER_SATURATED) = 0),
                          fw_fresh := True\<rparr>)
                 else Inr w)))"

section \<open>A sample frame\<close>

text \<open>A well-formed 96-byte frame with zero samples and colour bytes, error byte \<^verbatim>\<open>'0'\<close>
  and range byte \<open>rb\<close>.\<close>

definition sample_frame :: "char \<Rightarrow> string" where
  "sample_frame rb =
     map (\<lambda>i. if i = 0 then CHR ''T'' else if i = 3 then CHR ''2'' else if i = 42 then CHR ''>''
              else if 45 \<le> i \<and> (i - 45) mod 3 = 0 then CHR ''_'' else if i = 39 then CHR ''0''
              else if i = 33 then rb else CHR 0x00) [0 ..< 96]"

text \<open>A worker holding a corrupt frame followed by the start of another.\<close>

definition sample_worker :: flicker_worker where
  "sample_worker =
     \<lparr>fw_st = resetFlicker_fft \<lparr>m_flickerSettings = FlickerSetting_init, m_ParsedOutRippleArray = [],
                                m_fft_lastRange = 1, m_fft_numPass = 0, m_fft_count = 0, m_Flickering2 = False\<rparr>,
      FFTString = ''x'' @ CHR ''T'' # replicate 100 (CHR ''a''), m_flicker = Flicker_error NONE,
      fw_run = True, fw_fresh = False\<rparr>"

text \<open>
  Successive frames handed to \<^verbatim>\<open>parseAndPrintFFT\<close> one after another, as
  the worker's loop does once each is buffered: the state after the last.
\<close>

fun feed_frames ::
    "((real \<times> real) list \<Rightarrow> (real \<times> real) list) \<Rightarrow> fft_cal \<Rightarrow> fft_state \<Rightarrow> string list \<Rightarrow> fft_exn + fft_state" where
  "feed_frames fft cal st [] = Inr st"
| "feed_frames fft cal st (f # fs) =
     (case parseAndPrintFFT fft cal st f of
        Inl e \<Rightarrow> Inl e
      | Inr (fl, st', rest) \<Rightarrow> feed_frames fft cal st' fs)"

definition frame_samples :: "string \<Rightarrow> real list" where
  "frame_samples f = map (\<lambda>i. real_of_int (frame_nits f i)) [0 ..< 32]"

section \<open>Properties\<close>

declare parseAndPrintFFT.simps [simp del]


lemma ripple_shift_nth:
  "m \<le> length r - 32 \<Longrightarrow> j < length r \<Longrightarrow>
   foldl (\<lambda>r i. r[i := r ! (i + 32)]) r [0 ..< m] ! j = (if j < m then r ! (j + 32) else r ! j)"
proof (induction m arbitrary: j)
  case (Suc m)
  have "foldl (\<lambda>r i. r[i := r ! (i + 32)]) r [0 ..< m] ! (m + 32) = r ! (m + 32)"
    using Suc.IH [of "m + 32"] Suc.prems by simp
  then show ?case using Suc by (simp add: nth_list_update)
qed simp

lemma length_ripple_shift [simp]: "length (ripple_shift n r) = length r"
  by (simp add: ripple_shift_def)

lemma ripple_shift_eq:
  "length r = nat n \<Longrightarrow> 32 \<le> n \<Longrightarrow> ripple_shift n r = drop 32 r @ drop (nat n - 32) r"
  by (intro nth_equalityI) (auto simp: ripple_shift_def ripple_shift_nth nth_append nat_diff_distrib add.commute)

lemma ripple_store_fold:
  assumes "length r = nat n" "32 \<le> n" "k \<le> 32"
  shows "fst (foldl (ripple_store n s) (NONE, r) [0 ..< k]) =
           (if \<exists>i<k. 61000 < frame_nits s i then FFT_OVER_SATURATED else NONE) \<and>
         length (snd (foldl (ripple_store n s) (NONE, r) [0 ..< k])) = nat n \<and>
         (\<forall>j < nat n. snd (foldl (ripple_store n s) (NONE, r) [0 ..< k]) ! j =
            (if nat n - 32 \<le> j \<and> j < nat n - 32 + k then real_of_int (frame_nits s (j - (nat n - 32))) else r ! j))"
  using assms(3)
proof (induction k)
  case 0
  then show ?case using assms(1) by simp
next
  case (Suc k)
  have idx: "nat (int k + n - 32) = nat n - 32 + k" using assms(2) by simp
  show ?case using Suc assms(2)
    by (auto simp: ripple_store_def Let_def idx nth_list_update less_Suc_eq NONE_def split: prod.splits
             intro: or.idem)
qed

text \<open>C31. parseSignal_from_FFT_str shifts the buffer left by 32 and appends the frame's 32 samples, reporting saturation exactly when one exceeds 61000.\<close>

theorem parseSignal_from_FFT_str_push:
  assumes "length r = nat n" "32 \<le> n"
  shows "parseSignal_from_FFT_str n r s =
           (if \<exists>i<32. 61000 < frame_nits s i then FFT_OVER_SATURATED else NONE,
            drop 32 r @ map (\<lambda>i. real_of_int (frame_nits s i)) [0 ..< 32])"
proof -
  have l: "length (ripple_shift n r) = nat n" using assms(1) by simp
  note f = ripple_store_fold [OF l assms(2), of 32 s, simplified]
  have "snd (foldl (ripple_store n s) (NONE, ripple_shift n r) [0 ..< 32]) =
        drop 32 r @ map (\<lambda>i. real_of_int (frame_nits s i)) [0 ..< 32]"
  proof (rule nth_equalityI)
    fix j assume "j < length (snd (foldl (ripple_store n s) (NONE, ripple_shift n r) [0 ..< 32]))"
    then have j: "j < nat n" using f by simp
    show "snd (foldl (ripple_store n s) (NONE, ripple_shift n r) [0 ..< 32]) ! j =
          (drop 32 r @ map (\<lambda>i. real_of_int (frame_nits s i)) [0 ..< 32]) ! j"
      using f j assms by (auto simp: ripple_shift_eq nth_append)
  qed (use f assms in simp)
  then show ?thesis using f unfolding parseSignal_from_FFT_str_def by (simp add: prod_eq_iff)
qed

lemma parseAndPrintFFT_bad:
  "\<not> verify_FFTString read \<Longrightarrow> parseAndPrintFFT fft cal st read = Inr (Flicker_error FFT_BAD_STRING, st, read)"
  by (subst parseAndPrintFFT.simps) simp

lemma find_T_from_1_resync:
  assumes "bad \<noteq> []" "CHR ''T'' \<notin> set (tl bad)"
  shows "find_T_from_1 (bad @ CHR ''T'' # good) = Some (length bad)"
proof -
  obtain b bs where b: "bad = b # bs" using assms(1) by (cases bad) auto
  have "CHR ''T'' \<notin> set bs" using assms(2) b by simp
  then have "takeWhile (\<lambda>c. c \<noteq> CHR ''T'') (bs @ CHR ''T'' # good) = bs"
    by (induction bs) auto
  then show ?thesis using b by (simp add: find_T_from_1_def)
qed

text \<open>C30. A frame whose byte 42 is not the marker is discarded by the worker: the buffered string
  resumes at the next frame start, the ripple buffer and the published result are untouched.\<close>

theorem flicker_parse_iter_bad_frame:
  assumes "bad \<noteq> []" "CHR ''T'' \<notin> set (tl bad)"
    and "byte_at (bad @ CHR ''T'' # good) 42 \<noteq> of_char (CHR ''>'')"
    and "FFTString w = bad @ CHR ''T'' # good"
  shows "flicker_parse_iter fft cal w = Inr (w\<lparr>FFTString := CHR ''T'' # good\<rparr>)"
proof -
  have "\<not> verify_FFTString (FFTString w)" using assms(3,4) by (simp add: verify_FFTString_def)
  then show ?thesis using find_T_from_1_resync [OF assms(1,2), of good] assms(4)
    by (simp add: flicker_parse_iter_def)
qed

lemma or_keeps_bit: "((x OR p) OR q) AND p = (p :: 'a::len word)"
  by (rule bit_word_eqI) (auto simp: bit_simps)

lemma or_and_not_keeps_bit:
  assumes "p AND i = 0"
  shows "((x OR p) AND NOT i) AND p = (p :: 'a::len word)"
proof (rule bit_word_eqI)
  fix n assume n: "n < LENGTH('a)"
  have "bit (p AND i) n = bit 0 n" using assms by simp
  then have "\<not> (bit p n \<and> bit i n)" by (simp add: bit_and_iff)
  then show "bit (((x OR p) AND NOT i) AND p) n = bit p n" using n by (auto simp: bit_simps)
qed

text \<open>C32. On the worker path a frame in a new range, after a first one, reports FFT_PREVIOUS_RANGE,
  consumes 96 bytes and restarts the count of frames to go from speed / 32, whatever the number of samples.\<close>

theorem parseAndPrintFFT_range_change:
  assumes "verify_FFTString read" "96 \<le> length read" "\<not> m_Flickering2 st"
    and "byte_at read 39 = of_char (CHR ''0'')" "parseN5Command read = (x, y, z, rng, e)"
    and "rng \<noteq> m_fft_lastRange st" "m_fft_lastRange st \<noteq> -1"
  shows "\<exists>fl st'. parseAndPrintFFT fft cal st read = Inr (fl, st', drop 96 read) \<and>
           errorcode fl AND FFT_PREVIOUS_RANGE = FFT_PREVIOUS_RANGE \<and> fr_range fl = rng \<and>
           m_fft_lastRange st' = rng \<and> m_fft_numPass st' = speed (m_flickerSettings st) sdiv 32 - 1 \<and>
           m_fft_count st' = m_fft_count st + 1"
proof -
  have d: "FFT_PREVIOUS_RANGE AND FFT_INSUFFICIENT_DATA = 0" by (simp add: errcode_defs)
  show ?thesis using assms
    by (subst parseAndPrintFFT.simps)
       (auto simp: Let_def range_update_def or_keeps_bit or_and_not_keeps_bit [OF d] split: prod.splits)
qed

lemma range_update_frame:
  "range_update cal rng st e = (st', e') \<Longrightarrow>
   samples (m_flickerSettings st') = samples (m_flickerSettings st) \<and>
   m_ParsedOutRippleArray st' = m_ParsedOutRippleArray st \<and> m_Flickering2 st' = m_Flickering2 st"
  by (auto simp: range_update_def set_range_corrections_def appendCorrection_def deleteCorrection_def Let_def
      split: prod.splits if_splits)

lemma parseAndPrintFFT_frame:
  assumes "verify_FFTString read" "96 \<le> length read" "\<not> m_Flickering2 st"
  shows "\<exists>fl st'. parseAndPrintFFT fft cal st read = Inr (fl, st', drop 96 read) \<and>
           m_ParsedOutRippleArray st' =
             snd (parseSignal_from_FFT_str (samples (m_flickerSettings st)) (m_ParsedOutRippleArray st) read) \<and>
           samples (m_flickerSettings st') = samples (m_flickerSettings st) \<and> \<not> m_Flickering2 st'"
  using assms
  by (subst parseAndPrintFFT.simps) (auto simp: Let_def split: prod.splits dest!: range_update_frame)

text \<open>C29. Frames fed one after another keep the ripple buffer a sliding window: after k frames it holds
  the newest samples of the old buffer followed by the samples of the k frames.\<close>

theorem feed_frames_window:
  assumes "\<forall>f\<in>set fs. verify_FFTString f \<and> 96 \<le> length f" "\<not> m_Flickering2 st"
    and "length (m_ParsedOutRippleArray st) = nat (samples (m_flickerSettings st))" "32 \<le> samples (m_flickerSettings st)"
  shows "\<exists>st'. feed_frames fft cal st fs = Inr st' \<and>
           m_ParsedOutRippleArray st' = drop (32 * length fs) (m_ParsedOutRippleArray st @ concat (map frame_samples fs))"
  using assms
proof (induction fs arbitrary: st)
  case Nil
  then show ?case by simp
next
  case (Cons f fs)
  obtain fl st1 where st1: "parseAndPrintFFT fft cal st f = Inr (fl, st1, drop 96 f)"
    "m_ParsedOutRippleArray st1 = snd (parseSignal_from_FFT_str (samples (m_flickerSettings st))
                                       (m_ParsedOutRippleArray st) f)"
    "samples (m_flickerSettings st1) = samples (m_flickerSettings st)" "\<not> m_Flickering2 st1"
    using parseAndPrintFFT_frame [of f st fft cal] Cons.prems by auto
  have r1: "m_ParsedOutRippleArray st1 = drop 32 (m_ParsedOutRippleArray st) @ frame_samples f"
    using st1(2) parseSignal_from_FFT_str_push [OF Cons.prems(3,4)] by (simp add: frame_samples_def)
  have l1: "length (m_ParsedOutRippleArray st1) = nat (samples (m_flickerSettings st1))"
    using r1 st1(3) Cons.prems(3,4) by (simp add: frame_samples_def)
  obtain st' where st': "feed_frames fft cal st1 fs = Inr st'"
    "m_ParsedOutRippleArray st' = drop (32 * length fs) (m_ParsedOutRippleArray st1 @ concat (map frame_samples fs))"
    using Cons.IH [of st1] Cons.prems st1(3,4) l1 by auto
  have "32 \<le> length (m_ParsedOutRippleArray st)" using Cons.prems(3,4) by simp
  then have "m_ParsedOutRippleArray st' =
             drop (32 * length (f # fs)) (m_ParsedOutRippleArray st @ concat (map frame_samples (f # fs)))"
    using st'(2) r1 by (simp add: add.commute)
  then show ?case using st1(1) st'(1) by simp
qed

subsection \<open>Witnesses\<close>

lemma frame_nits_replicate: "i < 32 \<Longrightarrow> frame_nits (replicate 96 c) i = int (of_char c) * 256 + int (of_char c)"
  by (simp add: frame_nits_def)

theorem parseSignal_from_FFT_str_push_witness:
  "length (replicate 64 (0::real)) = nat 64 \<and> (32::int) \<le> 64 \<and>
   parseSignal_from_FFT_str 64 (replicate 64 0) (replicate 96 (CHR 0xFF)) =
     (FFT_OVER_SATURATED, replicate 32 0 @ replicate 32 65535)"
proof -
  have n: "\<forall>i\<in>set [0 ..< 32]. frame_nits (replicate 96 (CHR 0xFF)) i = 65535"
    by (simp add: frame_nits_replicate)
  have "map (\<lambda>i. real_of_int (frame_nits (replicate 96 (CHR 0xFF)) i)) [0 ..< 32] = map (\<lambda>_. 65535) [0 ..< (32::nat)]"
    using n by (intro map_cong) simp_all
  then have "map (\<lambda>i. real_of_int (frame_nits (replicate 96 (CHR 0xFF)) i)) [0 ..< 32] = replicate 32 65535"
    by (simp add: map_replicate_const)
  moreover have "\<exists>i<32. 61000 < frame_nits (replicate 96 (CHR 0xFF)) i"
    using n by (intro exI [of _ 0]) simp
  ultimately show ?thesis
    using parseSignal_from_FFT_str_push [of "replicate 64 0" 64 "replicate 96 (CHR 0xFF)"] by simp
qed

lemma substr_one: "p < length s \<Longrightarrow> substr s p (Suc 0) = [s ! p]"
  by (simp add: substr_def Cons_nth_drop_Suc [symmetric])

lemma length_sample_frame [simp]: "length (sample_frame rb) = 96"
  by (simp add: sample_frame_def)

lemma sample_frame_nth:
  "i < 96 \<Longrightarrow> sample_frame rb ! i =
     (if i = 0 then CHR ''T'' else if i = 3 then CHR ''2'' else if i = 42 then CHR ''>''
      else if 45 \<le> i \<and> (i - 45) mod 3 = 0 then CHR ''_'' else if i = 39 then CHR ''0''
      else if i = 33 then rb else CHR 0x00)"
  by (simp add: sample_frame_def)

theorem flicker_parse_iter_bad_frame_witness:
  "flicker_parse_iter (\<lambda>xs. xs) \<lparr>cal_matrix = [], m_FFTCalRangeCoeff1 = [], m_FFTCalRangeCoeff2 = []\<rparr> sample_worker =
     Inr (sample_worker\<lparr>FFTString := CHR ''T'' # replicate 100 (CHR ''a'')\<rparr>)"
  using flicker_parse_iter_bad_frame [of "''x''" "replicate 100 (CHR ''a'')" sample_worker]
  by (simp add: sample_worker_def byte_at_def nth_append)

theorem parseAndPrintFFT_range_change_witness:
  "\<exists>fl st'. parseAndPrintFFT (\<lambda>xs. xs) \<lparr>cal_matrix = replicate 3 (replicate 3 1),
              m_FFTCalRangeCoeff1 = replicate 3 (replicate 71 1), m_FFTCalRangeCoeff2 = replicate 3 (replicate 5 0)\<rparr>
             \<lparr>m_flickerSettings = FlickerSetting_init\<lparr>samples := 512\<rparr>, m_ParsedOutRippleArray = replicate 512 0,
              m_fft_lastRange = 1, m_fft_numPass = 3, m_fft_count = 5, m_Flickering2 = False\<rparr>
             (sample_frame (CHR 0x40)) = Inr (fl, st', []) \<and>
           errorcode fl AND FFT_PREVIOUS_RANGE = FFT_PREVIOUS_RANGE \<and> fr_range fl = 2 \<and>
           m_fft_lastRange st' = 2 \<and> m_fft_numPass st' = 7 \<and> m_fft_count st' = 6"
proof -
  define read where "read = sample_frame (CHR 0x40)"
  have len: "length read = 96" by (simp add: read_def)
  have v: "verify_FFTString read"
    unfolding read_def by code_simp
  have b39: "byte_at read 39 = of_char (CHR ''0'')" by (simp add: read_def sample_frame_nth)
  have n5: "parseN5Command read = (0, 0, 0, 2, NONE)"
    by (simp add: read_def sample_frame_nth parseN5Command_def parseK_float_zero_iff substr_one
                  parsingRange_def getErrorCodeFromKlein_def numeral_2_eq_2)
  show ?thesis
    using parseAndPrintFFT_range_change [OF v _ _ b39 n5, of "\<lparr>m_flickerSettings = FlickerSetting_init\<lparr>samples := 512\<rparr>,
            m_ParsedOutRippleArray = replicate 512 0, m_fft_lastRange = 1, m_fft_numPass = 3, m_fft_count = 5,
            m_Flickering2 = False\<rparr>"] len
    by (simp add: read_def FlickerSetting_init_def)
qed

theorem feed_frames_window_witness:
  "\<exists>st'. feed_frames (\<lambda>xs. xs) \<lparr>cal_matrix = replicate 3 (replicate 3 1),
            m_FFTCalRangeCoeff1 = replicate 3 (replicate 71 1), m_FFTCalRangeCoeff2 = replicate 3 (replicate 5 0)\<rparr>
          \<lparr>m_flickerSettings = FlickerSetting_init\<lparr>samples := 64\<rparr>, m_ParsedOutRippleArray = replicate 64 0,
           m_fft_lastRange = -1, m_fft_numPass = 2, m_fft_count = 0, m_Flickering2 = False\<rparr>
          [sample_frame (CHR 0x40), sample_frame (CHR 0x40)] = Inr st' \<and>
        m_ParsedOutRippleArray st' = frame_samples (sample_frame (CHR 0x40)) @ frame_samples (sample_frame (CHR 0x40))"
proof -
  have v: "verify_FFTString (sample_frame (CHR 0x40))" by code_simp
  have l: "length (frame_samples f) = 32" for f by (simp add: frame_samples_def)
  show ?thesis
    using feed_frames_window [of "[sample_frame (CHR 0x40), sample_frame (CHR 0x40)]"
        "\<lparr>m_flickerSettings = FlickerSetting_init\<lparr>samples := 64\<rparr>, m_ParsedOutRippleArray = replicate 64 0,
           m_fft_lastRange = -1, m_fft_numPass = 2, m_fft_count = 0, m_Flickering2 = False\<rparr>"] v
    by (simp add: FlickerSetting_init_def l)
qed

end
