(* ===== verification/Spec2Isabelle.thy ===== *)
theory Spec2Isabelle
  imports Codec Protocol Acquisition BoxCar RangeCal Session FlickerSpectrum FlickerFrame
begin

text \<open>
  \<^bold>\<open>A verification development of the KClmtr colorimeter driver.\<close>

  The driver (src/KClmtr.cpp, src/Flicker.cpp, src/Counts.cpp, src/Enum.cpp
  and their headers) talks to a Klein K-10/K-8/K-1 colorimeter over a serial
  port: it sends two-letter ASCII commands, waits for fixed-length binary
  replies, decodes the device's number formats and turns the bytes into
  colour measurements, thermal counts and flicker spectra.  A background
  worker thread runs one of three continuous acquisition modes (colour,
  counts, flicker) against a controller that starts and stops it through two
  shared flags.

  \<^bold>\<open>Library layout.\<close>  Each theory models one part of the program, leaves
  first; a theory imports the theories whose definitions it calls.
  \<^item> \<open>KPrelude\<close>: shared types (\<open>errmask\<close> = \<^verbatim>\<open>unsigned int\<close> as a
    \<^typ>\<open>32 word\<close>, replies as \<^typ>\<open>string\<close>, \<open>byte_at\<close> for
    \<^verbatim>\<open>c_str()[i]\<close>, \<open>substr\<close>, \<open>c_trunc\<close> for \<^verbatim>\<open>(int)\<close> of a double),
    the named theorem collections and the generic lemmas on bytes and words.
  \<^item> \<open>ErrorCodes\<close> (src/Enums.h, src/Enum.cpp): the \<^verbatim>\<open>KleinsErrorCodes\<close>
    constants, \<^verbatim>\<open>ingoreWarningList\<close>, \<^verbatim>\<open>shouldStopMeasuring\<close>,
    \<^verbatim>\<open>getErrorCodeFromKlein\<close>, \<^verbatim>\<open>parsingRange\<close>, \<^verbatim>\<open>intToString\<close>
    (its digit loop as a \<^theory_text>\<open>function\<close> with a measure) and
    \<^verbatim>\<open>errorCodesToString\<close>.  Lemmas: the constants are disjoint single
    bits (\<open>error_codes_disjoint\<close>), a device token decodes to at most one
    bit and which tokens stop acquisition (\<open>getErrorCodeFromKlein_single_bit\<close>,
    \<open>shouldStopMeasuring_token\<close>, \<open>shouldStopMeasuring_or\<close>), the range
    byte always decodes to ranges 1..6 (\<open>parsingRange_bounds\<close>),
    \<^verbatim>\<open>intToString\<close> round-trips through decimal reading
    (\<open>intToString_roundtrip\<close>), and the message renderer's behaviour
    (\<open>errorCodesToString_empty_iff\<close>, \<open>errorCodesToString_not_open\<close>).
  \<^item> \<open>Codec\<close> (src/KClmtr.cpp \<^verbatim>\<open>parseK_float\<close>, \<^verbatim>\<open>unpackK_float\<close>,
    \<^verbatim>\<open>convertNumberToBinaryStr\<close>; src/BlackMatrix.h; src/Counts.cpp): the
    K-float decoders over \<^typ>\<open>real\<close>, the encoder, the black-matrix reply
    (its range scan as a \<^theory_text>\<open>function\<close> with a measure) and the counts
    reply.  Lemmas: the calibration-file decoder is exactly twice the
    live decoder (\<open>unpackK_float_twice\<close>), when a K-float is zero, the
    black-matrix layout and its failure path, and that the counts decoder
    inverts the device's reply layout (\<open>Counts_parse_roundtrip\<close>).
  \<^item> \<open>Protocol\<close> (src/KClmtr.cpp \<^verbatim>\<open>sendMessageToSerialPort\<close>,
    \<^verbatim>\<open>readFromSerialPort\<close>, the command table; src/SerialPort.cpp
    \<^verbatim>\<open>readExisting\<close>, \<^verbatim>\<open>writePort\<close>): the serial port is a record
    holding the open flag, the script of pending input events (a chunk of
    bytes, or the device being unplugged) and the log of writes.  The polling
    loop runs at most \<open>timeout * 30\<close> times, exactly as the code's loop
    counter; the model recurses on the polls left, so it is total and needs no
    further fuel.  Lemmas: what is written, the
    success condition for a connected device, the bound on reads, unplug and
    closed-port behaviour.
  \<^item> \<open>Acquisition\<close> (src/KClmtr.cpp \<^verbatim>\<open>startThread2\<close>,
    \<^verbatim>\<open>stopThread2\<close>, \<^verbatim>\<open>threadStuff\<close>, \<^verbatim>\<open>endThread\<close>): the controller
    and every worker thread as program counters over the shared flags
    \<^verbatim>\<open>threadModeParent\<close>, \<^verbatim>\<open>threadModeChild\<close>, \<^verbatim>\<open>measureMode\<close> and
    \<^verbatim>\<open>threadId\<close>; \<open>acq_step\<close> is an \<^theory_text>\<open>inductive\<close> interleaving relation,
    one shared access per step, with no bound on the number of steps.
    \<open>run\<close> replays a concrete schedule and is proved sound.  A handshake
    invariant, proved by rule induction over \<open>reachable\<close>, gives that at most
    one worker runs its loop (\<open>single_worker\<close>), and the return conditions
    of stop and start (\<open>stop_returns_quiet\<close>, \<open>start_returns_running\<close>).
    Three schedules exhibit defects: \<^verbatim>\<open>startThread2\<close> can wait forever
    (\<open>startThread2_can_hang\<close>), \<^verbatim>\<open>pthread_join\<close> can be called on id 0
    (\<open>stopThread2_joins_cleared_id\<close>), and a finishing worker can erase the
    next worker's id (\<open>stale_worker_clears_threadId\<close>).

  \<^item> \<open>BoxCar\<close> (src/KClmtr.cpp \<^verbatim>\<open>boxCarAvg\<close>, \<^verbatim>\<open>parseAndPrintXYZ\<close>,
    the speed and model multipliers, \<^verbatim>\<open>correctXYZCalFile\<close>): the
    averaging ring \<^verbatim>\<open>m_AvgX/Y/Z\<close>, \<^verbatim>\<open>m_AvgLast\<close>, \<^verbatim>\<open>m_MaxAvgNumber\<close> as
    a record; the averaging loop is a \<^theory_text>\<open>function\<close> whose termination
    measure is the window size left, and its body is shared with an abstract
    specification that averages over the list of past samples.
    \<open>ring_inv\<close> relates the ring to that history; \<open>boxCarAvg_simulation\<close>
    is the refinement (the output equals the specification, and the ring
    still represents the longer history).  Lemmas on top of it: constant
    input, the 3% divergence exit, the count of samples used, and the sample
    frame of the source decoded exactly (\<open>parseAndPrintXYZ_n5_frame\<close>).
    \<^verbatim>\<open>m_AvgLast\<close> is an unbounded \<^typ>\<open>int\<close>; \<^verbatim>\<open>Measurement::fromXYZ\<close>
    is not in the repository, so the result keeps the arguments passed to it.
  \<^item> \<open>RangeCal\<close> (src/KClmtr.cpp \<^verbatim>\<open>printStartupString\<close>,
    \<^verbatim>\<open>loadFFTRangeCal\<close>, \<^verbatim>\<open>checkThreeFFT_Validity\<close>): the flicker range
    calibration tables, their loops as folds with list updates, a closed form
    of the first 100 entries (\<open>cal_row_interp\<close>), and that a block not
    starting with 0x8000 is rejected (\<open>loadFFTRangeCal_needs_8000\<close>).  The
    least-squares fit \<^verbatim>\<open>polyFit\<close> (src/Matrix.cpp) is not modelled.
  \<^item> \<open>Session\<close> (src/KClmtr.cpp: the mode flags, the guard of
    \<^verbatim>\<open>sendMessageToKColorimeter\<close>, start/stop of the three modes,
    \<^verbatim>\<open>startFlicker\<close>, \<^verbatim>\<open>getNextMeasurement\<close>, \<^verbatim>\<open>getNextMeasureCount\<close>,
    \<^verbatim>\<open>setMaxAverageCount\<close>, \<^verbatim>\<open>setMeasureSpeedMode\<close>, \<^verbatim>\<open>closePort\<close>,
    the polling getters, the colour and counts iterations of
    \<^verbatim>\<open>threadStuff\<close>): the facade as a record on top of the port of
    \<open>Protocol\<close> and the ring of \<open>BoxCar\<close>.  Its events are whole API calls
    and single worker iterations (\<open>sess_step\<close>); the thread handshake is
    collapsed to its outcome here, \<open>Acquisition\<close> covers its interleavings.
    The guard's stop functions are modelled twice, as the controller runs
    them (stop and wait for the worker) and as the worker runs them on itself
    (end its own loop).  \<open>getNextMeasurement\<close>'s do-while loop gets the
    iteration bound \<^verbatim>\<open>m_MaxAvgNumber\<close> as fuel, which nothing in the loop
    changes, so the fuel never runs out before the loop's own test.  Lemmas:
    the session invariant over all reachable states
    (\<open>sess_reachable_inv\<close>: never colour and counts at once, and an
    allocated ring always has \<^verbatim>\<open>m_MaxAvgNumber\<close> entries), proved through
    two frame relations each operation satisfies (\<open>stays\<close>, \<open>cfg_same\<close>);
    the first \<^verbatim>\<open>startFlicker\<close> stopping the other modes; and four defects:
    \<^verbatim>\<open>startFlicker\<close> with a cached calibration leaves colour mode on and
    its worker stops itself, \<^verbatim>\<open>getNextMeasurement\<close> frees the arrays of a
    running colour worker, an exchange error inside it leaves the caller's
    \<open>n\<close> as the maximum average count, and \<^verbatim>\<open>closePort\<close> leaves counts on
    while the counts worker reports its error through the wrong freshness
    flag.

  \<^item> \<open>FlickerSpectrum\<close> (src/Flicker.cpp, src/Flicker.h, the flicker enums of
    src/Enums.h, and the corrections \<^verbatim>\<open>parseAndPrintFFT\<close> installs):
    \<^verbatim>\<open>FlickerSetting\<close> as a record with its constructor,
    \<^verbatim>\<open>getCorrection\<close> (first matching range), \<^verbatim>\<open>appendCorrection\<close>,
    \<^verbatim>\<open>deleteCorrection\<close> and \<^verbatim>\<open>copy\<close>; the JEITA table; and the
    constructor \<^verbatim>\<open>Flicker(settings, data, sectionOfFFT, nitsLast32Samples)\<close>
    as \<open>Flicker_make\<close>, step by step as the code runs it (time stamps, nits,
    flicker index, windowed FFT input, the amplitude loop with correction and
    smoothing, normalisation, percent and dB, and the two peak searches).
    The transform \<^verbatim>\<open>four1\<close> is a parameter of \<open>Flicker_make\<close>, so every
    lemma holds for whatever it returns.  The peak search's storePoint loop is
    a \<^theory_text>\<open>function\<close> with the slots left as measure, proved equal to a
    reference top-K insertion (\<open>peak_store_is_ins_desc\<close>); from it the peak
    tables are sorted and of length \<^verbatim>\<open>numberOfPeaks\<close>
    (\<open>Flicker_peaks_sorted\<close>) and a rise-then-fall series has one peak
    (\<open>unimodal_one_peak\<close>).  Further lemmas: the JEITA interpolation runs
    backwards (\<open>jeita_weight_whole\<close>), the installed range corrections
    (\<open>set_range_corrections_value\<close>), the flicker index in [0, 1]
    (\<open>flickerIndex_bounds\<close>; a C division by zero is \<open>None\<close>).

  \<^item> \<open>FlickerFrame\<close> (src/KClmtr.cpp \<^verbatim>\<open>resetFlicker\<close>,
    \<^verbatim>\<open>verify_FFTString\<close>, \<^verbatim>\<open>parseSignal_from_FFT_str\<close>,
    \<^verbatim>\<open>parseN5Command\<close>, \<^verbatim>\<open>parseAndPrintFFT\<close>, and the flicker branch of
    \<^verbatim>\<open>threadStuff\<close> once a frame is buffered): the flicker members of
    \<^verbatim>\<open>KClmtr\<close> (settings, ripple buffer, last range, frames to go, frame
    count, \<^verbatim>\<open>m_Flickering2\<close>) as a record of their own, beside the
    \<open>Session\<close> record.  \<^verbatim>\<open>parseAndPrintFFT\<close> recurses on the rest of
    the string on the \<^verbatim>\<open>getNextFlicker\<close> path; it is a
    \<^theory_text>\<open>function\<close> whose measure is the length of that string, and the
    \<^verbatim>\<open>out_of_range\<close> a \<^verbatim>\<open>substr(96, ...)\<close> throws on a short string
    is the error value \<open>Inl Out_of_range\<close>.  Out-of-range reads of a
    \<^verbatim>\<open>std::string\<close> are 0, as \<open>byte_at\<close> gives.  Lemmas: one frame
    shifts the ripple buffer by 32 samples and flags saturation
    (\<open>parseSignal_from_FFT_str_push\<close>); frames parsed one after another
    (\<open>feed_frames\<close>) refine a sliding window over the sample history
    (\<open>feed_frames_window\<close>); a frame without its marker is
    skipped to the next \<^verbatim>\<open>'T'\<close> without touching the buffer
    (\<open>flicker_parse_iter_bad_frame\<close>), and a range change restarts the frame
    count from the speed instead of the sample count
    (\<open>parseAndPrintFFT_range_change\<close>).

  \<^bold>\<open>Plan.\<close>  Still to be modelled: the worker's read of more flicker bytes
  and \<^verbatim>\<open>getNextFlicker\<close> with its resynchronisation of the reply, and
  the composition of \<open>FlickerFrame\<close> with the \<open>Session\<close> record.

  \<^bold>\<open>Not modelled.\<close>  The serial transport itself (src/SerialPort.cpp: OS
  calls; the protocol theory replaces it by a scripted environment), the
  linear algebra of calibration (src/Matrix.cpp, \<^verbatim>\<open>polyFit\<close>,
  \<^verbatim>\<open>makeCorrectedXYZ\<close>), the numerical FFT \<^verbatim>\<open>four1\<close> of
  src/Flicker.cpp (a parameter of the flicker model), calibration-file storage, baud-rate
  changes and sleeps, the colour-space conversions of src/Measurement.h
  (whose implementation is not in the repository) and the GUI callbacks
  \<^verbatim>\<open>printMeasure\<close>/\<^verbatim>\<open>printFlicker\<close>/\<^verbatim>\<open>printCounts\<close> (virtual no-ops).
  Doubles are modelled as \<^typ>\<open>real\<close>: statements about them hold for exact
  arithmetic, not for IEEE rounding.
\<close>

end
